theory Spec2Isabelle
  imports Complex_Main "HOL-Library.Multiset"
begin

section \<open>Numbers\<close>

text \<open>
  The program computes on JavaScript numbers, which are IEEE 754 doubles. The functions of
  the program are first given over the real numbers, every arithmetic operation being the
  exact one. Where a property depends on the rounding of the doubles (the balance of the
  paper bot, the values 0 and 1 of \<open>normalCDF\<close>), the functions concerned are given a
  second time, with the suffix \<open>_fl\<close>, the rounding of every operation written out. The
  two infinities are modelled only where the source produces them on purpose (the
  degenerate branch of \<open>calculateZScore\<close>).
\<close>

datatype jsnum = Fin real | PosInf | NegInf

section \<open>Probability engine (lib/crypto-math)\<close>

text \<open>
  \<open>normalCDF\<close> on a finite argument, as written in the source: the Abramowitz and Stegun
  polynomial in \<open>t = 1 / (1 + p x)\<close> with \<open>x = |z| / sqrt 2\<close>.
\<close>

definition cdfPoly :: "real \<Rightarrow> real" where
  "cdfPoly t =
     (((((1.061405429 * t + (-1.453152027)) * t) + 1.421413741) * t + (-0.284496736)) * t
        + 0.254829592) * t"

definition normalCDF :: "real \<Rightarrow> real" where
  "normalCDF x0 =
     (let sign = (if x0 < 0 then -1 else 1);
          x = \<bar>x0\<bar> / sqrt 2;
          t = 1.0 / (1.0 + 0.3275911 * x);
          y = 1.0 - cdfPoly t * exp (- x * x)
      in 0.5 * (1.0 + sign * y))"

text \<open>
  On the infinities the same statements give \<open>x = Infinity\<close>, \<open>t = 1 / Infinity = 0\<close>,
  \<open>exp (-Infinity) = 0\<close> and so \<open>y = 1 - 0 = 1\<close>: the result is \<open>0.5 * (1 + 1) = 1\<close> at
  \<open>+Infinity\<close> and \<open>0.5 * (1 - 1) = 0\<close> at \<open>-Infinity\<close>.
\<close>

fun normalCDF_js :: "jsnum \<Rightarrow> real" where
  "normalCDF_js (Fin x) = normalCDF x"
| "normalCDF_js PosInf = 1"
| "normalCDF_js NegInf = 0"

definition calculateZScore :: "real \<Rightarrow> real \<Rightarrow> real \<Rightarrow> real \<Rightarrow> jsnum" where
  "calculateZScore currentPrice targetPrice volatility timeYears =
     (if currentPrice \<le> 0 \<or> targetPrice \<le> 0 \<or> volatility \<le> 0 \<or> timeYears \<le> 0
      then (if targetPrice > currentPrice then PosInf else NegInf)
      else (let logReturn = ln (targetPrice / currentPrice);
                scaledVol = volatility * sqrt timeYears
            in Fin (logReturn / scaledVol)))"

datatype estMethod = Zscore | DeribitDelta | VerticalSpread

text \<open>
  A \<open>ProbabilityEstimate\<close>. Its \<open>mathBreakdown\<close> (formula and steps rendered as text for
  display) is not modelled.
\<close>

record probabilityEstimate =
  e_method :: estMethod
  e_probability :: real
  e_volatilityUsed :: real
  e_timeToExpiry :: real
  e_zScore :: "jsnum option"
  e_delta :: "real option"

definition calculateZScoreProbability ::
  "real \<Rightarrow> real \<Rightarrow> real \<Rightarrow> real \<Rightarrow> probabilityEstimate" where
  "calculateZScoreProbability currentPrice targetPrice volatility timeYears =
     (let zScore = calculateZScore currentPrice targetPrice volatility timeYears;
          probability = 1 - normalCDF_js zScore
      in \<lparr> e_method = Zscore, e_probability = probability, e_volatilityUsed = volatility,
           e_timeToExpiry = timeYears, e_zScore = Some zScore, e_delta = None \<rparr>)"

definition calculateOneTouchProbability ::
  "real \<Rightarrow> real \<Rightarrow> real \<Rightarrow> real \<Rightarrow> probabilityEstimate" where
  "calculateOneTouchProbability currentPrice targetPrice volatility timeYears =
     (let zScore = calculateZScore currentPrice targetPrice volatility timeYears;
          isUpward = (targetPrice > currentPrice);
          binaryProb = (if isUpward then 1 - normalCDF_js zScore else normalCDF_js zScore);
          oneTouchProb = min 1.0 (2 * binaryProb)
      in \<lparr> e_method = Zscore, e_probability = oneTouchProb, e_volatilityUsed = volatility,
           e_timeToExpiry = timeYears, e_zScore = Some zScore, e_delta = None \<rparr>)"

text \<open>\<open>calculateD1D2\<close> with the default \<open>riskFreeRate = 0\<close>; only \<open>d1\<close> is used.\<close>

definition calculateD1 :: "real \<Rightarrow> real \<Rightarrow> real \<Rightarrow> real \<Rightarrow> real" where
  "calculateD1 currentPrice strikePrice volatility timeYears =
     (if timeYears \<le> 0 \<or> volatility \<le> 0 then 0
      else (let sqrtT = sqrt timeYears
            in (ln (currentPrice / strikePrice) + (0 + 0.5 * volatility * volatility) * timeYears)
                 / (volatility * sqrtT)))"

definition calculateCallDelta :: "real \<Rightarrow> real \<Rightarrow> real \<Rightarrow> real \<Rightarrow> real" where
  "calculateCallDelta currentPrice strikePrice volatility timeYears =
     normalCDF (calculateD1 currentPrice strikePrice volatility timeYears)"

datatype signal = Buy | Sell | Neutral

datatype confidence = High | Medium | Low

record edgeResult =
  r_edge :: real
  r_signal :: signal
  r_confidence :: confidence

definition calculateEdge :: "real \<Rightarrow> real \<Rightarrow> edgeResult" where
  "calculateEdge polymarketPrice modelProbability =
     (let edge = polymarketPrice - modelProbability;
          absEdge = \<bar>edge\<bar>
      in \<lparr> r_edge = edge,
           r_signal = (if absEdge < 0.03 then Neutral else if edge > 0 then Sell else Buy),
           r_confidence = (if absEdge > 0.10 then High else if absEdge > 0.05 then Medium else Low) \<rparr>)"

section \<open>Double-precision arithmetic\<close>

text \<open>
  An arithmetic operation on doubles returns the double nearest to the exact result, a tie
  going to the neighbour whose significand is even. \<open>roundDouble\<close> is this rounding on the
  real numbers: \<open>binade x\<close> is the exponent \<open>e\<close> with \<open>2^e \<le> |x| < 2^(e+1)\<close>, and the
  doubles of that binade are the multiples of \<open>2^(e-52)\<close>. The exponent range is taken to
  be unbounded: overflow to \<open>Infinity\<close> (beyond about \<open>1.8e308\<close>) and the coarser
  spacing of the subnormal numbers (below \<open>2^-1022\<close>) are not modelled.
\<close>

definition pow2 :: "int \<Rightarrow> real" where
  "pow2 e = (if 0 \<le> e then 2 ^ nat e else 1 / 2 ^ nat (- e))"

definition binade :: "real \<Rightarrow> int" where
  "binade x = (if x = 0 then 0 else \<lfloor>log 2 \<bar>x\<bar>\<rfloor>)"

definition roundHalfEven :: "real \<Rightarrow> int" where
  "roundHalfEven y =
     (let f = \<lfloor>y\<rfloor>; r = y - of_int f
      in if r < 1 / 2 then f
         else if 1 / 2 < r then f + 1
         else if even f then f else f + 1)"

definition roundDouble :: "real \<Rightarrow> real" where
  "roundDouble x =
     (if x = 0 then 0
      else let q = pow2 (binade x - 52)
           in of_int (roundHalfEven (x / q)) * q)"

text \<open>
  The arithmetic of the host: \<open>rnd\<close> is applied to the exact result of every addition,
  subtraction, multiplication and division and to every decimal literal that is not itself
  a double; \<open>mathSqrt\<close>,
  \<open>mathExp\<close> and \<open>mathLog\<close> are \<open>Math.sqrt\<close>, \<open>Math.exp\<close> and \<open>Math.log\<close>. The functions
  with the suffix \<open>_fl\<close> take the arithmetic as a parameter, so that what is proved of them
  holds for every rounding. \<open>ieeeDouble\<close> is the arithmetic of the doubles, with the three
  library functions returning the double nearest to the exact value; \<open>exactArith\<close> is the
  arithmetic of the real numbers. The functions of the paper bot call none of the three
  library functions and take the rounding alone, as \<open>fl\<close>; with the identity for \<open>fl\<close>
  they are the functions over the real numbers.
\<close>

record arith =
  rnd :: "real \<Rightarrow> real"
  mathSqrt :: "real \<Rightarrow> real"
  mathExp :: "real \<Rightarrow> real"
  mathLog :: "real \<Rightarrow> real"

definition ieeeDouble :: arith where
  "ieeeDouble = \<lparr> rnd = roundDouble, mathSqrt = (\<lambda>x. roundDouble (sqrt x)),
      mathExp = (\<lambda>x. roundDouble (exp x)), mathLog = (\<lambda>x. roundDouble (ln x)) \<rparr>"

definition exactArith :: arith where
  "exactArith = \<lparr> rnd = (\<lambda>x. x), mathSqrt = sqrt, mathExp = exp, mathLog = ln \<rparr>"

section \<open>Opportunity pipeline (app/api/crypto-arbitrage/route.ts)\<close>

datatype betType = Binary | OneTouch

datatype direction = Above | Below

text \<open>
  A \<open>CryptoMarket\<close>. Dates are the milliseconds since the epoch that \<open>getTime()\<close> returns.
  The fields \<open>slug\<close>, \<open>description\<close> and \<open>liquidity\<close> are carried along by the source and
  never read; they are left out.
\<close>

record cryptoMarket =
  m_id :: string
  m_question :: string
  m_crypto :: string
  m_targetPrice :: real
  m_expiryDate :: int
  m_betType :: betType
  m_direction :: direction
  m_polymarketPrice :: real
  m_volume :: "string option"

record strikeData =
  k_callIv :: real
  k_putIv :: real
  k_callDelta :: real
  k_putDelta :: real

text \<open>
  \<open>DeribitOptionsData\<close>: \<open>ivByStrike\<close> is an object keyed by strike; it is modelled as the
  association list of its entries in the order of \<open>Object.keys\<close>.
\<close>

record deribitOptionsData =
  d_atmIv :: real
  d_ivByStrike :: "(real \<times> strikeData) list"

definition DERIBIT_SUPPORTED :: "string list" where
  "DERIBIT_SUPPORTED = [''BTC'', ''ETH'']"

definition DEFAULT_VOLATILITY :: "string \<rightharpoonup> real" where
  "DEFAULT_VOLATILITY = map_of
     [(''BTC'', 0.55), (''ETH'', 0.65), (''SOL'', 0.85), (''ADA'', 0.75), (''DOGE'', 1.00),
      (''XRP'', 0.70), (''MATIC'', 0.80), (''AVAX'', 0.80), (''LINK'', 0.75), (''DOT'', 0.75),
      (''LTC'', 0.65), (''DEFAULT'', 0.70)]"

text \<open>\<open>a || b\<close> on numbers: \<open>a\<close> unless it is absent or zero.\<close>

definition orElse :: "real option \<Rightarrow> real \<Rightarrow> real" where
  "orElse a b = (case a of None \<Rightarrow> b | Some x \<Rightarrow> if x = 0 then b else x)"

datatype volSource = FromDeribit | FromRealized | FromDefault

record volatilityData =
  v_symbol :: string
  v_deribitIv :: "real option"
  v_defaultVol :: real
  v_source :: volSource
  v_volatility :: real

definition getVolatilityData :: "string \<Rightarrow> (string \<rightharpoonup> deribitOptionsData) \<Rightarrow> volatilityData" where
  "getVolatilityData symbol deribitData =
     (let defaultVol = orElse (DEFAULT_VOLATILITY symbol) (the (DEFAULT_VOLATILITY ''DEFAULT''))
      in case deribitData symbol of
           None \<Rightarrow> \<lparr> v_symbol = symbol, v_deribitIv = None, v_defaultVol = defaultVol,
                      v_source = FromDefault, v_volatility = defaultVol \<rparr>
         | Some deribit \<Rightarrow>
             if d_atmIv deribit > 0
             then \<lparr> v_symbol = symbol, v_deribitIv = Some (d_atmIv deribit),
                    v_defaultVol = defaultVol, v_source = FromDeribit,
                    v_volatility = d_atmIv deribit \<rparr>
             else \<lparr> v_symbol = symbol, v_deribitIv = None, v_defaultVol = defaultVol,
                    v_source = FromDefault, v_volatility = defaultVol \<rparr>)"

record closestIv =
  fc_iv :: real
  fc_delta :: "real option"

text \<open>
  \<open>findClosestStrikeIV\<close>: \<open>reduce\<close> without an initial value starts from the first strike.
  The third parameter \<open>targetExpiry\<close> is never read.
\<close>

definition findClosestStrikeIV :: "deribitOptionsData \<Rightarrow> real \<Rightarrow> int \<Rightarrow> closestIv" where
  "findClosestStrikeIV deribit targetStrike targetExpiry =
     (case map fst (d_ivByStrike deribit) of
        [] \<Rightarrow> \<lparr> fc_iv = d_atmIv deribit, fc_delta = None \<rparr>
      | s0 # strikes \<Rightarrow>
          (let closest = foldl (\<lambda>best strike.
                  if \<bar>strike - targetStrike\<bar> < \<bar>best - targetStrike\<bar> then strike else best)
                  s0 strikes
           in case map_of (d_ivByStrike deribit) closest of
                None \<Rightarrow> \<lparr> fc_iv = d_atmIv deribit, fc_delta = None \<rparr>
              | Some data \<Rightarrow>
                  (let strikeIsClose = (\<bar>closest - targetStrike\<bar> / targetStrike < 0.2)
                   in \<lparr> fc_iv = orElse (Some (k_callIv data)) (d_atmIv deribit),
                        fc_delta = (if strikeIsClose \<and> k_callDelta data \<noteq> 0
                                       \<and> k_callDelta data > 0 \<and> k_callDelta data < 1
                                    then Some (k_callDelta data) else None) \<rparr>)))"

definition timeToExpiryYears :: "int \<Rightarrow> int \<Rightarrow> real" where
  "timeToExpiryYears expiryDate fromDate =
     (let msPerYear = 365.25 * 24 * 60 * 60 * 1000;
          diffMs = real_of_int (expiryDate - fromDate)
      in max 0 (diffMs / msPerYear))"

record arbitrageOpportunity =
  o_market :: cryptoMarket
  o_currentPrice :: real
  o_volatility :: volatilityData
  o_polymarketProb :: real
  o_zscoreProb :: probabilityEstimate
  o_deribitProb :: "probabilityEstimate option"
  o_edgeVsZscore :: real
  o_edgeVsDeribit :: "real option"
  o_signal :: signal
  o_confidence :: confidence

text \<open>
  The body of the loop of \<open>GET\<close> over the markets is split into the functions below, one for
  each value it computes. \<open>effectiveTarget\<close> is the target price on both branches of the
  source's conditional.
\<close>

definition effectiveTarget :: "cryptoMarket \<Rightarrow> real" where
  "effectiveTarget market =
     (if m_direction market = Below then m_targetPrice market else m_targetPrice market)"

definition zscoreProbOf :: "cryptoMarket \<Rightarrow> real \<Rightarrow> real \<Rightarrow> real \<Rightarrow> probabilityEstimate" where
  "zscoreProbOf market currentPrice volatility timeYears =
     (if m_betType market = OneTouch
      then calculateOneTouchProbability currentPrice (effectiveTarget market) volatility timeYears
      else (let zscoreProb =
                  calculateZScoreProbability currentPrice (effectiveTarget market) volatility timeYears
            in if m_direction market = Below
               then zscoreProb\<lparr> e_probability := 1 - e_probability zscoreProb \<rparr>
               else zscoreProb))"

text \<open>The local variable \<open>probability\<close> of the options branch, for a strike volatility.\<close>

definition deribitProbability :: "cryptoMarket \<Rightarrow> real \<Rightarrow> real \<Rightarrow> real \<Rightarrow> real" where
  "deribitProbability market currentPrice strikeIv timeYears =
     (let callDelta = calculateCallDelta currentPrice (effectiveTarget market) strikeIv timeYears;
          putDelta = 1 - callDelta;
          isTargetAbove = (effectiveTarget market > currentPrice)
      in if m_betType market = OneTouch
         then (let baseDelta = (if isTargetAbove then callDelta else putDelta)
               in min 1.0 (2 * baseDelta))
         else (let useCallDelta = (m_direction market = Above)
               in if useCallDelta then callDelta else putDelta))"

definition deribitProbOf ::
  "(string \<rightharpoonup> deribitOptionsData) \<Rightarrow> cryptoMarket \<Rightarrow> real \<Rightarrow> real \<Rightarrow> probabilityEstimate option" where
  "deribitProbOf deribitData market currentPrice timeYears =
     (case deribitData (m_crypto market) of
        None \<Rightarrow> None
      | Some deribit \<Rightarrow>
          if m_crypto market \<in> set DERIBIT_SUPPORTED
          then (let ivData = findClosestStrikeIV deribit (effectiveTarget market) (m_expiryDate market)
                in if fc_iv ivData > 0
                   then (let strikeIv = fc_iv ivData;
                             callDelta = calculateCallDelta currentPrice (effectiveTarget market)
                                           strikeIv timeYears;
                             putDelta = 1 - callDelta;
                             isTargetAbove = (effectiveTarget market > currentPrice);
                             probability = deribitProbability market currentPrice strikeIv timeYears
                         in if probability > 0 \<and> probability < 1
                            then Some \<lparr> e_method = DeribitDelta, e_probability = probability,
                                        e_volatilityUsed = strikeIv, e_timeToExpiry = timeYears,
                                        e_zScore = None,
                                        e_delta = Some (if isTargetAbove then callDelta else putDelta) \<rparr>
                            else None)
                   else None)
          else None)"

text \<open>
  One iteration of the loop: \<open>None\<close> is a \<open>continue\<close>. \<open>prices\<close> maps a symbol to the
  \<open>currentPrice\<close> of its price record, \<open>now\<close> is the clock read by \<open>timeToExpiryYears\<close>.
\<close>

definition processMarket ::
  "(string \<rightharpoonup> real) \<Rightarrow> (string \<rightharpoonup> deribitOptionsData) \<Rightarrow> int \<Rightarrow> cryptoMarket
     \<Rightarrow> arbitrageOpportunity option" where
  "processMarket prices deribitData now market =
     (case prices (m_crypto market) of
        None \<Rightarrow> None
      | Some currentPrice \<Rightarrow>
          if currentPrice = 0 \<or> currentPrice \<le> 0 then None
          else (let volatility = getVolatilityData (m_crypto market) deribitData;
                    timeYears = timeToExpiryYears (m_expiryDate market) now
                in if timeYears \<le> 0 then None
                   else (let zscoreProb = zscoreProbOf market currentPrice
                                            (v_volatility volatility) timeYears;
                             deribitProb = deribitProbOf deribitData market currentPrice timeYears;
                             polymarketProb = m_polymarketPrice market;
                             zscoreEdge = calculateEdge polymarketProb (e_probability zscoreProb);
                             deribitEdge = map_option
                                 (\<lambda>d. calculateEdge polymarketProb (e_probability d)) deribitProb;
                             primaryEdge = (case deribitEdge of Some e \<Rightarrow> e | None \<Rightarrow> zscoreEdge)
                         in Some \<lparr> o_market = market, o_currentPrice = currentPrice,
                                    o_volatility = volatility, o_polymarketProb = polymarketProb,
                                    o_zscoreProb = zscoreProb, o_deribitProb = deribitProb,
                                    o_edgeVsZscore = r_edge zscoreEdge,
                                    o_edgeVsDeribit = map_option r_edge deribitEdge,
                                    o_signal = r_signal primaryEdge,
                                    o_confidence = r_confidence primaryEdge \<rparr>)))"

text \<open>The loop itself; \<open>clock i\<close> is the time read while the \<open>i\<close>-th market is processed.\<close>

fun collectOpportunities ::
  "(string \<rightharpoonup> real) \<Rightarrow> (string \<rightharpoonup> deribitOptionsData) \<Rightarrow> (nat \<Rightarrow> int) \<Rightarrow> nat
     \<Rightarrow> cryptoMarket list \<Rightarrow> arbitrageOpportunity list" where
  "collectOpportunities prices deribitData clock i [] = []"
| "collectOpportunities prices deribitData clock i (market # markets) =
     (case processMarket prices deribitData (clock i) market of
        None \<Rightarrow> collectOpportunities prices deribitData clock (Suc i) markets
      | Some opp \<Rightarrow> opp # collectOpportunities prices deribitData clock (Suc i) markets)"

text \<open>\<open>a.edgeVsDeribit ?? a.edgeVsZscore\<close>, the edge every consumer of an opportunity uses.\<close>

definition primaryEdge :: "arbitrageOpportunity \<Rightarrow> real" where
  "primaryEdge a = (case o_edgeVsDeribit a of Some e \<Rightarrow> e | None \<Rightarrow> o_edgeVsZscore a)"

definition compareOpportunities :: "arbitrageOpportunity \<Rightarrow> arbitrageOpportunity \<Rightarrow> real" where
  "compareOpportunities a b =
     (let aEdge = \<bar>primaryEdge a\<bar>; bEdge = \<bar>primaryEdge b\<bar> in bEdge - aEdge)"

text \<open>
  \<open>Array.prototype.sort\<close> with a comparator is a stable sort: an element moves in front of
  another exactly when the comparator orders it first, and elements the comparator does not
  separate keep their order. Insertion from the right is such a sort.
\<close>

fun insertBy :: "('a \<Rightarrow> 'a \<Rightarrow> real) \<Rightarrow> 'a \<Rightarrow> 'a list \<Rightarrow> 'a list" where
  "insertBy cmp x [] = [x]"
| "insertBy cmp x (y # ys) = (if cmp x y \<le> 0 then x # y # ys else y # insertBy cmp x ys)"

definition sortBy :: "('a \<Rightarrow> 'a \<Rightarrow> real) \<Rightarrow> 'a list \<Rightarrow> 'a list" where
  "sortBy cmp xs = foldr (insertBy cmp) xs []"

definition rankOpportunities ::
  "(string \<rightharpoonup> real) \<Rightarrow> (string \<rightharpoonup> deribitOptionsData) \<Rightarrow> (nat \<Rightarrow> int)
     \<Rightarrow> cryptoMarket list \<Rightarrow> arbitrageOpportunity list" where
  "rankOpportunities prices deribitData clock markets =
     sortBy compareOpportunities (collectOpportunities prices deribitData clock 0 markets)"

text \<open>
  The ranking key in the words of the specification, for comparison with the comparator of
  the source: the larger of the absolute delta-based edge, when present, and the absolute
  z-score edge.
\<close>

definition spec_rankKey :: "arbitrageOpportunity \<Rightarrow> real" where
  "spec_rankKey a =
     (case o_edgeVsDeribit a of
        Some d \<Rightarrow> max \<bar>d\<bar> \<bar>o_edgeVsZscore a\<bar>
      | None \<Rightarrow> \<bar>o_edgeVsZscore a\<bar>)"

section \<open>Probability engine and opportunity pipeline in double arithmetic\<close>

text \<open>
  The functions of the engine and of the loop of \<open>GET\<close> once more, each operation followed
  by the rounding of the arithmetic \<open>ar\<close> and each decimal literal that is not a double
  rounded by it; the integers that occur, \<open>0.5\<close> and \<open>365.25\<close> are doubles. In this form
  \<open>normalCDF\<close> can return exactly 0 and exactly 1, as it does on doubles.
\<close>

definition normalCDF_fl :: "arith \<Rightarrow> real \<Rightarrow> real" where
  "normalCDF_fl ar x0 =
     (let a1 = rnd ar 0.254829592;
          a2 = rnd ar (-0.284496736);
          a3 = rnd ar 1.421413741;
          a4 = rnd ar (-1.453152027);
          a5 = rnd ar 1.061405429;
          p = rnd ar 0.3275911;
          sign = (if x0 < 0 then -1 else 1);
          x = rnd ar (\<bar>x0\<bar> / mathSqrt ar 2);
          t = rnd ar (1.0 / rnd ar (1.0 + rnd ar (p * x)));
          poly = rnd ar (rnd ar (rnd ar (rnd ar (rnd ar (rnd ar (rnd ar (rnd ar (rnd ar
                   (a5 * t) + a4) * t) + a3) * t) + a2) * t) + a1) * t);
          y = rnd ar (1.0 - rnd ar (poly * mathExp ar (rnd ar (- x * x))))
      in rnd ar (0.5 * rnd ar (1.0 + rnd ar (sign * y))))"

fun normalCDF_js_fl :: "arith \<Rightarrow> jsnum \<Rightarrow> real" where
  "normalCDF_js_fl ar (Fin x) = normalCDF_fl ar x"
| "normalCDF_js_fl ar PosInf = 1"
| "normalCDF_js_fl ar NegInf = 0"

definition calculateZScore_fl :: "arith \<Rightarrow> real \<Rightarrow> real \<Rightarrow> real \<Rightarrow> real \<Rightarrow> jsnum" where
  "calculateZScore_fl ar currentPrice targetPrice volatility timeYears =
     (if currentPrice \<le> 0 \<or> targetPrice \<le> 0 \<or> volatility \<le> 0 \<or> timeYears \<le> 0
      then (if targetPrice > currentPrice then PosInf else NegInf)
      else (let logReturn = mathLog ar (rnd ar (targetPrice / currentPrice));
                scaledVol = rnd ar (volatility * mathSqrt ar timeYears)
            in Fin (rnd ar (logReturn / scaledVol))))"

definition calculateZScoreProbability_fl ::
  "arith \<Rightarrow> real \<Rightarrow> real \<Rightarrow> real \<Rightarrow> real \<Rightarrow> probabilityEstimate" where
  "calculateZScoreProbability_fl ar currentPrice targetPrice volatility timeYears =
     (let zScore = calculateZScore_fl ar currentPrice targetPrice volatility timeYears;
          probability = rnd ar (1 - normalCDF_js_fl ar zScore)
      in \<lparr> e_method = Zscore, e_probability = probability, e_volatilityUsed = volatility,
           e_timeToExpiry = timeYears, e_zScore = Some zScore, e_delta = None \<rparr>)"

definition calculateOneTouchProbability_fl ::
  "arith \<Rightarrow> real \<Rightarrow> real \<Rightarrow> real \<Rightarrow> real \<Rightarrow> probabilityEstimate" where
  "calculateOneTouchProbability_fl ar currentPrice targetPrice volatility timeYears =
     (let zScore = calculateZScore_fl ar currentPrice targetPrice volatility timeYears;
          isUpward = (targetPrice > currentPrice);
          binaryProb = (if isUpward then rnd ar (1 - normalCDF_js_fl ar zScore)
                        else normalCDF_js_fl ar zScore);
          oneTouchProb = min 1.0 (rnd ar (2 * binaryProb))
      in \<lparr> e_method = Zscore, e_probability = oneTouchProb, e_volatilityUsed = volatility,
           e_timeToExpiry = timeYears, e_zScore = Some zScore, e_delta = None \<rparr>)"

definition calculateD1_fl :: "arith \<Rightarrow> real \<Rightarrow> real \<Rightarrow> real \<Rightarrow> real \<Rightarrow> real" where
  "calculateD1_fl ar currentPrice strikePrice volatility timeYears =
     (if timeYears \<le> 0 \<or> volatility \<le> 0 then 0
      else (let sqrtT = mathSqrt ar timeYears
            in rnd ar (rnd ar (mathLog ar (rnd ar (currentPrice / strikePrice))
                               + rnd ar (rnd ar (0 + rnd ar (rnd ar (0.5 * volatility) * volatility))
                                         * timeYears))
                       / rnd ar (volatility * sqrtT))))"

definition calculateCallDelta_fl :: "arith \<Rightarrow> real \<Rightarrow> real \<Rightarrow> real \<Rightarrow> real \<Rightarrow> real" where
  "calculateCallDelta_fl ar currentPrice strikePrice volatility timeYears =
     normalCDF_fl ar (calculateD1_fl ar currentPrice strikePrice volatility timeYears)"

definition calculateEdge_fl :: "arith \<Rightarrow> real \<Rightarrow> real \<Rightarrow> edgeResult" where
  "calculateEdge_fl ar polymarketPrice modelProbability =
     (let edge = rnd ar (polymarketPrice - modelProbability);
          absEdge = \<bar>edge\<bar>
      in \<lparr> r_edge = edge,
           r_signal = (if absEdge < rnd ar 0.03 then Neutral else if edge > 0 then Sell else Buy),
           r_confidence = (if absEdge > rnd ar 0.10 then High
                           else if absEdge > rnd ar 0.05 then Medium else Low) \<rparr>)"

definition getVolatilityData_fl ::
  "arith \<Rightarrow> string \<Rightarrow> (string \<rightharpoonup> deribitOptionsData) \<Rightarrow> volatilityData" where
  "getVolatilityData_fl ar symbol deribitData =
     (let defaultVol = orElse (map_option (rnd ar) (DEFAULT_VOLATILITY symbol))
                         (rnd ar (the (DEFAULT_VOLATILITY ''DEFAULT'')))
      in case deribitData symbol of
           None \<Rightarrow> \<lparr> v_symbol = symbol, v_deribitIv = None, v_defaultVol = defaultVol,
                      v_source = FromDefault, v_volatility = defaultVol \<rparr>
         | Some deribit \<Rightarrow>
             if d_atmIv deribit > 0
             then \<lparr> v_symbol = symbol, v_deribitIv = Some (d_atmIv deribit),
                    v_defaultVol = defaultVol, v_source = FromDeribit,
                    v_volatility = d_atmIv deribit \<rparr>
             else \<lparr> v_symbol = symbol, v_deribitIv = None, v_defaultVol = defaultVol,
                    v_source = FromDefault, v_volatility = defaultVol \<rparr>)"

definition findClosestStrikeIV_fl :: "arith \<Rightarrow> deribitOptionsData \<Rightarrow> real \<Rightarrow> int \<Rightarrow> closestIv" where
  "findClosestStrikeIV_fl ar deribit targetStrike targetExpiry =
     (case map fst (d_ivByStrike deribit) of
        [] \<Rightarrow> \<lparr> fc_iv = d_atmIv deribit, fc_delta = None \<rparr>
      | s0 # strikes \<Rightarrow>
          (let closest = foldl (\<lambda>best strike.
                  if \<bar>rnd ar (strike - targetStrike)\<bar> < \<bar>rnd ar (best - targetStrike)\<bar>
                  then strike else best)
                  s0 strikes
           in case map_of (d_ivByStrike deribit) closest of
                None \<Rightarrow> \<lparr> fc_iv = d_atmIv deribit, fc_delta = None \<rparr>
              | Some data \<Rightarrow>
                  (let strikeIsClose =
                         (rnd ar (\<bar>rnd ar (closest - targetStrike)\<bar> / targetStrike) < rnd ar 0.2)
                   in \<lparr> fc_iv = orElse (Some (k_callIv data)) (d_atmIv deribit),
                        fc_delta = (if strikeIsClose \<and> k_callDelta data \<noteq> 0
                                       \<and> k_callDelta data > 0 \<and> k_callDelta data < 1
                                    then Some (k_callDelta data) else None) \<rparr>)))"

definition timeToExpiryYears_fl :: "arith \<Rightarrow> int \<Rightarrow> int \<Rightarrow> real" where
  "timeToExpiryYears_fl ar expiryDate fromDate =
     (let msPerYear = rnd ar (rnd ar (rnd ar (rnd ar (365.25 * 24) * 60) * 60) * 1000);
          diffMs = rnd ar (real_of_int (expiryDate - fromDate))
      in max 0 (rnd ar (diffMs / msPerYear)))"

definition zscoreProbOf_fl ::
  "arith \<Rightarrow> cryptoMarket \<Rightarrow> real \<Rightarrow> real \<Rightarrow> real \<Rightarrow> probabilityEstimate" where
  "zscoreProbOf_fl ar market currentPrice volatility timeYears =
     (if m_betType market = OneTouch
      then calculateOneTouchProbability_fl ar currentPrice (effectiveTarget market) volatility timeYears
      else (let zscoreProb =
                  calculateZScoreProbability_fl ar currentPrice (effectiveTarget market) volatility
                    timeYears
            in if m_direction market = Below
               then zscoreProb\<lparr> e_probability := rnd ar (1 - e_probability zscoreProb) \<rparr>
               else zscoreProb))"

definition deribitProbability_fl :: "arith \<Rightarrow> cryptoMarket \<Rightarrow> real \<Rightarrow> real \<Rightarrow> real \<Rightarrow> real" where
  "deribitProbability_fl ar market currentPrice strikeIv timeYears =
     (let callDelta = calculateCallDelta_fl ar currentPrice (effectiveTarget market) strikeIv timeYears;
          putDelta = rnd ar (1 - callDelta);
          isTargetAbove = (effectiveTarget market > currentPrice)
      in if m_betType market = OneTouch
         then (let baseDelta = (if isTargetAbove then callDelta else putDelta)
               in min 1.0 (rnd ar (2 * baseDelta)))
         else (let useCallDelta = (m_direction market = Above)
               in if useCallDelta then callDelta else putDelta))"

definition deribitProbOf_fl ::
  "arith \<Rightarrow> (string \<rightharpoonup> deribitOptionsData) \<Rightarrow> cryptoMarket \<Rightarrow> real \<Rightarrow> real
     \<Rightarrow> probabilityEstimate option" where
  "deribitProbOf_fl ar deribitData market currentPrice timeYears =
     (case deribitData (m_crypto market) of
        None \<Rightarrow> None
      | Some deribit \<Rightarrow>
          if m_crypto market \<in> set DERIBIT_SUPPORTED
          then (let ivData = findClosestStrikeIV_fl ar deribit (effectiveTarget market)
                               (m_expiryDate market)
                in if fc_iv ivData > 0
                   then (let strikeIv = fc_iv ivData;
                             callDelta = calculateCallDelta_fl ar currentPrice (effectiveTarget market)
                                           strikeIv timeYears;
                             putDelta = rnd ar (1 - callDelta);
                             isTargetAbove = (effectiveTarget market > currentPrice);
                             probability = deribitProbability_fl ar market currentPrice strikeIv
                                             timeYears
                         in if probability > 0 \<and> probability < 1
                            then Some \<lparr> e_method = DeribitDelta, e_probability = probability,
                                        e_volatilityUsed = strikeIv, e_timeToExpiry = timeYears,
                                        e_zScore = None,
                                        e_delta = Some (if isTargetAbove then callDelta else putDelta) \<rparr>
                            else None)
                   else None)
          else None)"

definition processMarket_fl ::
  "arith \<Rightarrow> (string \<rightharpoonup> real) \<Rightarrow> (string \<rightharpoonup> deribitOptionsData) \<Rightarrow> int \<Rightarrow> cryptoMarket
     \<Rightarrow> arbitrageOpportunity option" where
  "processMarket_fl ar prices deribitData now market =
     (case prices (m_crypto market) of
        None \<Rightarrow> None
      | Some currentPrice \<Rightarrow>
          if currentPrice = 0 \<or> currentPrice \<le> 0 then None
          else (let volatility = getVolatilityData_fl ar (m_crypto market) deribitData;
                    timeYears = timeToExpiryYears_fl ar (m_expiryDate market) now
                in if timeYears \<le> 0 then None
                   else (let zscoreProb = zscoreProbOf_fl ar market currentPrice
                                            (v_volatility volatility) timeYears;
                             deribitProb = deribitProbOf_fl ar deribitData market currentPrice
                                             timeYears;
                             polymarketProb = m_polymarketPrice market;
                             zscoreEdge = calculateEdge_fl ar polymarketProb (e_probability zscoreProb);
                             deribitEdge = map_option
                                 (\<lambda>d. calculateEdge_fl ar polymarketProb (e_probability d)) deribitProb;
                             primaryEdge = (case deribitEdge of Some e \<Rightarrow> e | None \<Rightarrow> zscoreEdge)
                         in Some \<lparr> o_market = market, o_currentPrice = currentPrice,
                                    o_volatility = volatility, o_polymarketProb = polymarketProb,
                                    o_zscoreProb = zscoreProb, o_deribitProb = deribitProb,
                                    o_edgeVsZscore = r_edge zscoreEdge,
                                    o_edgeVsDeribit = map_option r_edge deribitEdge,
                                    o_signal = r_signal primaryEdge,
                                    o_confidence = r_confidence primaryEdge \<rparr>)))"

text \<open>
  A \<open>Date\<close> object holds a time in milliseconds since the epoch or is an Invalid Date, whose
  \<open>getTime()\<close> is \<open>NaN\<close>. A market as \<open>fetchPolymarketCryptoMarkets\<close> hands it to the loop
  has such an object as its \<open>expiryDate\<close>: the question parser and \<open>new Date(market.endDate)\<close>
  can both produce an Invalid Date, and an Invalid Date is truthy. \<open>f_market\<close> holds the
  other fields of the market; its \<open>m_expiryDate\<close> is set to the time of a valid date when
  the market is processed.

  For an Invalid Date \<open>timeToExpiryYears\<close> returns \<open>NaN\<close>, the test \<open>timeYears <= 0\<close> fails
  and every number computed for the market is \<open>NaN\<close>: both tests of
  \<open>probability > 0 && probability < 1\<close> fail, so the opportunity that is pushed has no
  options-delta estimate, and its edge is \<open>NaN\<close>. This opportunity is the item
  \<open>NotANumber\<close>.
\<close>

datatype jsDate = ValidDate int | InvalidDate

record fetchedMarket =
  f_market :: cryptoMarket
  f_expiryDate :: jsDate

datatype pipelineItem = Skipped | NotANumber | Computed arbitrageOpportunity

definition processFetchedMarket_fl ::
  "arith \<Rightarrow> (string \<rightharpoonup> real) \<Rightarrow> (string \<rightharpoonup> deribitOptionsData) \<Rightarrow> int \<Rightarrow> fetchedMarket
     \<Rightarrow> pipelineItem" where
  "processFetchedMarket_fl ar prices deribitData now fetched =
     (case prices (m_crypto (f_market fetched)) of
        None \<Rightarrow> Skipped
      | Some currentPrice \<Rightarrow>
          if currentPrice = 0 \<or> currentPrice \<le> 0 then Skipped
          else (case f_expiryDate fetched of
                  InvalidDate \<Rightarrow> NotANumber
                | ValidDate t \<Rightarrow>
                    (case processMarket_fl ar prices deribitData now
                            ((f_market fetched)\<lparr> m_expiryDate := t \<rparr>) of
                       None \<Rightarrow> Skipped
                     | Some opp \<Rightarrow> Computed opp)))"

fun collectItems_fl ::
  "arith \<Rightarrow> (string \<rightharpoonup> real) \<Rightarrow> (string \<rightharpoonup> deribitOptionsData) \<Rightarrow> (nat \<Rightarrow> int) \<Rightarrow> nat
     \<Rightarrow> fetchedMarket list \<Rightarrow> pipelineItem list" where
  "collectItems_fl ar prices deribitData clock i [] = []"
| "collectItems_fl ar prices deribitData clock i (fetched # rest) =
     (case processFetchedMarket_fl ar prices deribitData (clock i) fetched of
        Skipped \<Rightarrow> collectItems_fl ar prices deribitData clock (Suc i) rest
      | item \<Rightarrow> item # collectItems_fl ar prices deribitData clock (Suc i) rest)"

fun computedOpportunities :: "pipelineItem list \<Rightarrow> arbitrageOpportunity list" where
  "computedOpportunities [] = []"
| "computedOpportunities (Computed opp # items) = opp # computedOpportunities items"
| "computedOpportunities (item # items) = computedOpportunities items"

definition compareOpportunities_fl ::
  "arith \<Rightarrow> arbitrageOpportunity \<Rightarrow> arbitrageOpportunity \<Rightarrow> real" where
  "compareOpportunities_fl ar a b =
     (let aEdge = \<bar>primaryEdge a\<bar>; bEdge = \<bar>primaryEdge b\<bar> in rnd ar (bEdge - aEdge))"

text \<open>
  The list that \<open>GET\<close> returns. When an opportunity with \<open>NaN\<close> numbers is among those
  collected, the comparator returns \<open>NaN\<close> on it and is not a consistent comparator: the
  order in which \<open>sort\<close> leaves the list is then implementation-defined, and the model
  gives \<open>None\<close>.
\<close>

definition rankFetchedMarkets_fl ::
  "arith \<Rightarrow> (string \<rightharpoonup> real) \<Rightarrow> (string \<rightharpoonup> deribitOptionsData) \<Rightarrow> (nat \<Rightarrow> int)
     \<Rightarrow> fetchedMarket list \<Rightarrow> arbitrageOpportunity list option" where
  "rankFetchedMarkets_fl ar prices deribitData clock fetched =
     (let items = collectItems_fl ar prices deribitData clock 0 fetched
      in if NotANumber \<in> set items then None
         else Some (sortBy (compareOpportunities_fl ar) (computedOpportunities items)))"

section \<open>Paper trading bot (bot/dist/trading-bot.js)\<close>

text \<open>
  The bot reads the opportunities that the pipeline serves as JSON, so an opportunity is the
  record above; \<open>market.expiryDate\<close> is the instant the transmitted date string denotes.
  Time stamps (\<open>entryTimestamp\<close>, \<open>closeTimestamp\<close>, \<open>timestamp\<close>, \<open>lastUpdate\<close>), the
  random identifiers of trades and the console output are not modelled. Records received by
  the bot are well typed, so no statement of a cycle throws.
\<close>

datatype side = Long | Short

datatype posStatus = StatusOpen | StatusClosed | StatusExpired

record position =
  p_id :: string
  p_marketId :: string
  p_marketQuestion :: string
  p_crypto :: string
  p_targetPrice :: real
  p_direction :: direction
  p_betType :: betType
  p_expiryDate :: int
  p_side :: side
  p_entryPrice :: real
  p_size :: real
  p_shares :: real
  p_entryEdge :: real
  p_entryZscoreProb :: real
  p_entryDeribitProb :: "real option"
  p_currentPrice :: real
  p_currentEdge :: real
  p_unrealizedPnl :: real
  p_status :: posStatus
  p_closeReason :: "string option"
  p_closePrice :: "real option"
  p_realizedPnl :: "real option"

datatype tradeAction = ActionOpen | ActionClose

record trade =
  t_positionId :: string
  t_marketId :: string
  t_action :: tradeAction
  t_side :: side
  t_price :: real
  t_size :: real
  t_shares :: real
  t_edge :: real
  t_zscoreProb :: real
  t_deribitProb :: "real option"
  t_cryptoPrice :: real
  t_pnl :: "real option"

record botConfig =
  c_startingBalance :: real
  c_minEdgeToEnter :: real
  c_maxEdgeToExit :: real
  c_basePositionSize :: real
  c_edgeMultiplier :: real
  c_maxPositionSize :: real
  c_maxTotalExposure :: real
  c_pollIntervalMs :: int
  c_maxPositionsPerMarket :: nat
  c_minTimeToExpiry :: real

definition CONFIG :: botConfig where
  "CONFIG = \<lparr> c_startingBalance = 1000, c_minEdgeToEnter = 0.05, c_maxEdgeToExit = 0.05,
      c_basePositionSize = 25, c_edgeMultiplier = 500, c_maxPositionSize = 100,
      c_maxTotalExposure = 500, c_pollIntervalMs = 60000, c_maxPositionsPerMarket = 1,
      c_minTimeToExpiry = 1 \<rparr>"

record botState =
  s_startingBalance :: real
  s_currentBalance :: real
  s_totalPnl :: real
  s_openPositions :: "position list"
  s_closedPositions :: "position list"
  s_trades :: "trade list"
  s_isRunning :: bool
  s_lastError :: "string option"
  s_totalTrades :: nat
  s_winningTrades :: nat
  s_losingTrades :: nat
  s_winRate :: real

text \<open>The state \<open>loadState\<close> returns when no state file exists.\<close>

definition initialState :: "botConfig \<Rightarrow> botState" where
  "initialState config =
     \<lparr> s_startingBalance = c_startingBalance config,
       s_currentBalance = c_startingBalance config,
       s_totalPnl = 0, s_openPositions = [], s_closedPositions = [], s_trades = [],
       s_isRunning = True, s_lastError = None, s_totalTrades = 0, s_winningTrades = 0,
       s_losingTrades = 0, s_winRate = 0 \<rparr>"

definition calculatePositionSize :: "real \<Rightarrow> botConfig \<Rightarrow> real" where
  "calculatePositionSize edge config =
     (let absEdge = \<bar>edge\<bar>;
          size = c_basePositionSize config + (absEdge * c_edgeMultiplier config)
      in min size (c_maxPositionSize config))"

definition getTotalExposure :: "position list \<Rightarrow> real" where
  "getTotalExposure positions = foldl (\<lambda>sum p. sum + p_size p) 0 positions"

text \<open>
  The result of \<open>shouldEnterPosition\<close>. The \<open>reason\<close> texts carry formatted numbers and
  are modelled by the check that produced them; the first eight reasons belong to checks that
  only the TypeScript sources of the bots make.
\<close>

datatype entryReason =
  PriceAbove99 | PriceBelow1 | PriceAbove95 | PriceBelow5
  | DipAlreadyHappened | TargetAlreadyHit | AgreeHighProbability | AgreeLowProbability
  | EdgeBelowThreshold | TooCloseToExpiry | AlreadyHavePosition | WouldExceedExposure
  | InsufficientBalance | RemainingExposureTooSmall | PositionSizeTooSmall

record entryCheck =
  en_shouldEnter :: bool
  en_side :: side
  en_edge :: real
  en_reason :: "entryReason option"

definition shouldEnterPosition ::
  "arbitrageOpportunity \<Rightarrow> botState \<Rightarrow> botConfig \<Rightarrow> int \<Rightarrow> entryCheck" where
  "shouldEnterPosition opp state config now =
     (let edge = primaryEdge opp;
          absEdge = \<bar>edge\<bar>
      in if absEdge < c_minEdgeToEnter config
         then \<lparr> en_shouldEnter = False, en_side = Long, en_edge = edge,
                en_reason = Some EdgeBelowThreshold \<rparr>
         else (let daysToExpiry = real_of_int (m_expiryDate (o_market opp) - now)
                                    / (1000 * 60 * 60 * 24)
               in if daysToExpiry < c_minTimeToExpiry config
                  then \<lparr> en_shouldEnter = False, en_side = Long, en_edge = edge,
                         en_reason = Some TooCloseToExpiry \<rparr>
                  else (case find (\<lambda>p. p_marketId p = m_id (o_market opp)) (s_openPositions state) of
                          Some existingPosition \<Rightarrow>
                            \<lparr> en_shouldEnter = False, en_side = Long, en_edge = edge,
                              en_reason = Some AlreadyHavePosition \<rparr>
                        | None \<Rightarrow>
                            (let currentExposure = getTotalExposure (s_openPositions state);
                                 positionSize = calculatePositionSize edge config
                             in if currentExposure + positionSize > c_maxTotalExposure config
                                then \<lparr> en_shouldEnter = False, en_side = Long, en_edge = edge,
                                       en_reason = Some WouldExceedExposure \<rparr>
                                else if positionSize > s_currentBalance state
                                then \<lparr> en_shouldEnter = False, en_side = Long, en_edge = edge,
                                       en_reason = Some InsufficientBalance \<rparr>
                                else \<lparr> en_shouldEnter = True,
                                       en_side = (if edge > 0 then Short else Long),
                                       en_edge = edge, en_reason = None \<rparr>))))"

record exitCheck =
  x_shouldExit :: bool
  x_reason :: string
  x_currentPrice :: real
  x_currentEdge :: real

definition shouldExitPosition ::
  "position \<Rightarrow> arbitrageOpportunity option \<Rightarrow> botConfig \<Rightarrow> int \<Rightarrow> exitCheck" where
  "shouldExitPosition position opp config now =
     (case opp of
        None \<Rightarrow>
          if p_expiryDate position < now
          then \<lparr> x_shouldExit = True, x_reason = ''expired'',
                 x_currentPrice = p_currentPrice position, x_currentEdge = 0 \<rparr>
          else \<lparr> x_shouldExit = False, x_reason = '''',
                 x_currentPrice = p_currentPrice position,
                 x_currentEdge = p_currentEdge position \<rparr>
      | Some opp \<Rightarrow>
          (let currentPrice = o_polymarketProb opp;
               currentEdge = primaryEdge opp;
               absEdge = \<bar>currentEdge\<bar>
           in if absEdge < c_maxEdgeToExit config
              then \<lparr> x_shouldExit = True, x_reason = ''edge_aligned'',
                     x_currentPrice = currentPrice, x_currentEdge = currentEdge \<rparr>
              else (let newSide = (if currentEdge > 0 then Short else Long)
                    in if newSide \<noteq> p_side position \<and> absEdge \<ge> c_minEdgeToEnter config
                       then \<lparr> x_shouldExit = True, x_reason = ''edge_aligned'',
                              x_currentPrice = currentPrice, x_currentEdge = currentEdge \<rparr>
                       else \<lparr> x_shouldExit = False, x_reason = '''',
                              x_currentPrice = currentPrice, x_currentEdge = currentEdge \<rparr>)))"

text \<open>
  \<open>openPosition\<close> returns the new position and updates the state it was given; \<open>newId\<close> is
  the identifier built from \<open>Date.now()\<close> and \<open>Math.random()\<close>.
\<close>

definition openPosition ::
  "arbitrageOpportunity \<Rightarrow> side \<Rightarrow> real \<Rightarrow> botState \<Rightarrow> botConfig \<Rightarrow> string
     \<Rightarrow> position \<times> botState" where
  "openPosition opp side edge state config newId =
     (let size = calculatePositionSize edge config;
          entryPrice = o_polymarketProb opp;
          effectivePrice = (if side = Long then entryPrice else (1 - entryPrice));
          shares = size / effectivePrice;
          position = \<lparr> p_id = newId, p_marketId = m_id (o_market opp),
                       p_marketQuestion = m_question (o_market opp),
                       p_crypto = m_crypto (o_market opp),
                       p_targetPrice = m_targetPrice (o_market opp),
                       p_direction = m_direction (o_market opp),
                       p_betType = m_betType (o_market opp),
                       p_expiryDate = m_expiryDate (o_market opp),
                       p_side = side, p_entryPrice = entryPrice, p_size = size,
                       p_shares = shares, p_entryEdge = edge,
                       p_entryZscoreProb = e_probability (o_zscoreProb opp),
                       p_entryDeribitProb = map_option e_probability (o_deribitProb opp),
                       p_currentPrice = entryPrice, p_currentEdge = edge,
                       p_unrealizedPnl = 0, p_status = StatusOpen, p_closeReason = None,
                       p_closePrice = None, p_realizedPnl = None \<rparr>;
          trade = \<lparr> t_positionId = p_id position, t_marketId = m_id (o_market opp),
                    t_action = ActionOpen, t_side = side, t_price = entryPrice, t_size = size,
                    t_shares = shares, t_edge = edge,
                    t_zscoreProb = e_probability (o_zscoreProb opp),
                    t_deribitProb = map_option e_probability (o_deribitProb opp),
                    t_cryptoPrice = o_currentPrice opp, t_pnl = None \<rparr>
      in (position,
          state\<lparr> s_trades := s_trades state @ [trade],
                 s_totalTrades := s_totalTrades state + 1,
                 s_currentBalance := s_currentBalance state - size \<rparr>))"

definition closePosition ::
  "position \<Rightarrow> real \<Rightarrow> real \<Rightarrow> string \<Rightarrow> botState \<Rightarrow> botState" where
  "closePosition position currentPrice currentEdge reason state =
     (let pnl = (if p_side position = Long
                 then p_shares position * (currentPrice - p_entryPrice position)
                 else p_shares position * (p_entryPrice position - currentPrice));
          closed = position\<lparr> p_status := StatusClosed, p_closeReason := Some reason,
                             p_closePrice := Some currentPrice, p_realizedPnl := Some pnl,
                             p_currentPrice := currentPrice, p_currentEdge := currentEdge \<rparr>;
          trade = \<lparr> t_positionId = p_id position, t_marketId = p_marketId position,
                    t_action = ActionClose, t_side = p_side position, t_price = currentPrice,
                    t_size = p_size position, t_shares = p_shares position,
                    t_edge = currentEdge, t_zscoreProb = 0, t_deribitProb = None,
                    t_cryptoPrice = 0, t_pnl = Some pnl \<rparr>;
          winningTrades = (if pnl > 0 then s_winningTrades state + 1 else s_winningTrades state);
          losingTrades = (if pnl > 0 then s_losingTrades state
                          else if pnl < 0 then s_losingTrades state + 1
                          else s_losingTrades state)
      in state\<lparr> s_trades := s_trades state @ [trade],
                s_totalTrades := s_totalTrades state + 1,
                s_currentBalance := s_currentBalance state + (p_size position + pnl),
                s_totalPnl := s_totalPnl state + pnl,
                s_winningTrades := winningTrades,
                s_losingTrades := losingTrades,
                s_winRate := real winningTrades / real (max 1 (winningTrades + losingTrades)),
                s_openPositions := filter (\<lambda>p. p_id p \<noteq> p_id position) (s_openPositions state),
                s_closedPositions := s_closedPositions state @ [closed] \<rparr>)"

definition updatePosition :: "arbitrageOpportunity list \<Rightarrow> position \<Rightarrow> position" where
  "updatePosition opportunities position =
     (case find (\<lambda>a. m_id (o_market a) = p_marketId position) opportunities of
        None \<Rightarrow> position
      | Some opp \<Rightarrow>
          (let currentPrice = o_polymarketProb opp
           in position\<lparr> p_currentPrice := currentPrice,
                         p_currentEdge := primaryEdge opp,
                         p_unrealizedPnl :=
                           (if p_side position = Long
                            then p_shares position * (currentPrice - p_entryPrice position)
                            else p_shares position * (p_entryPrice position - currentPrice)) \<rparr>))"

definition updateOpenPositions :: "arbitrageOpportunity list \<Rightarrow> botState \<Rightarrow> botState" where
  "updateOpenPositions opportunities state =
     state\<lparr> s_openPositions := map (updatePosition opportunities) (s_openPositions state) \<rparr>"

text \<open>
  What a cycle reads from outside the state: the clock at the exit check of the \<open>i\<close>-th
  position of the snapshot, the clock at the entry check of the \<open>i\<close>-th opportunity, and the
  identifier generated if that opportunity is entered.
\<close>

record environment =
  exitClock :: "nat \<Rightarrow> int"
  entryClock :: "nat \<Rightarrow> int"
  freshId :: "nat \<Rightarrow> string"

text \<open>The loop over the snapshot \<open>[...state.openPositions]\<close>.\<close>

fun exitLoop ::
  "botConfig \<Rightarrow> arbitrageOpportunity list \<Rightarrow> (nat \<Rightarrow> int) \<Rightarrow> nat \<Rightarrow> position list
     \<Rightarrow> botState \<Rightarrow> botState" where
  "exitLoop config opportunities clock i [] state = state"
| "exitLoop config opportunities clock i (position # positions) state =
     (let opp = find (\<lambda>a. m_id (o_market a) = p_marketId position) opportunities;
          exitCheck = shouldExitPosition position opp config (clock i)
      in exitLoop config opportunities clock (Suc i) positions
           (if x_shouldExit exitCheck
            then closePosition position (x_currentPrice exitCheck) (x_currentEdge exitCheck)
                   (x_reason exitCheck) state
            else state))"

text \<open>The loop over the opportunities.\<close>

fun entryLoop ::
  "botConfig \<Rightarrow> (nat \<Rightarrow> int) \<Rightarrow> (nat \<Rightarrow> string) \<Rightarrow> nat \<Rightarrow> arbitrageOpportunity list
     \<Rightarrow> botState \<Rightarrow> botState" where
  "entryLoop config clock ids i [] state = state"
| "entryLoop config clock ids i (opp # opportunities) state =
     (let entryCheck = shouldEnterPosition opp state config (clock i)
      in entryLoop config clock ids (Suc i) opportunities
           (if en_shouldEnter entryCheck
            then (case openPosition opp (en_side entryCheck) (en_edge entryCheck) state config (ids i) of
                    (position, state') \<Rightarrow>
                      state'\<lparr> s_openPositions := s_openPositions state' @ [position] \<rparr>)
            else state))"

text \<open>
  \<open>runBotCycle\<close> on the fetched opportunities. The source passes its constant \<open>CONFIG\<close> to
  the checks; here the configuration is a parameter, so that the theorems hold for every
  configuration. With no opportunity the cycle returns at once.
\<close>

definition runBotCycle ::
  "botConfig \<Rightarrow> environment \<Rightarrow> arbitrageOpportunity list \<Rightarrow> botState \<Rightarrow> botState" where
  "runBotCycle config env opportunities state =
     (if length opportunities = 0 then state
      else (let state1 = updateOpenPositions opportunities state;
                state2 = exitLoop config opportunities (exitClock env) 0
                           (s_openPositions state1) state1;
                state3 = entryLoop config (entryClock env) (freshId env) 0 opportunities state2
            in state3\<lparr> s_lastError := None \<rparr>))"

text \<open>A run of the bot: one cycle for each batch of opportunities fetched.\<close>

fun runCycles ::
  "botConfig \<Rightarrow> (environment \<times> arbitrageOpportunity list) list \<Rightarrow> botState \<Rightarrow> botState" where
  "runCycles config [] state = state"
| "runCycles config ((env, opportunities) # rest) state =
     runCycles config rest (runBotCycle config env opportunities state)"

text \<open>
  What the bot relies on from outside. The pipeline only serves markets priced strictly
  between 0 and 1 (it skips \<open>polymarketPrice <= 0\<close> and \<open>>= 1\<close>), so the number of shares
  of a position is never a division by zero, which JavaScript and the real numbers treat
  differently. The identifiers generated during a cycle, from the clock and nine random
  digits, differ from each other and from those of the positions that are open.
\<close>

definition cycleInputOk :: "environment \<Rightarrow> arbitrageOpportunity list \<Rightarrow> botState \<Rightarrow> bool" where
  "cycleInputOk env opportunities state =
     (list_all (\<lambda>a. 0 < o_polymarketProb a \<and> o_polymarketProb a < 1) opportunities
      \<and> distinct (map (freshId env) [0 ..< length opportunities])
      \<and> list_all (\<lambda>i. freshId env i \<notin> set (map p_id (s_openPositions state)))
           [0 ..< length opportunities])"

fun inputsOk ::
  "botConfig \<Rightarrow> (environment \<times> arbitrageOpportunity list) list \<Rightarrow> botState \<Rightarrow> bool" where
  "inputsOk config [] state = True"
| "inputsOk config ((env, opportunities) # rest) state =
     (cycleInputOk env opportunities state
      \<and> inputsOk config rest (runBotCycle config env opportunities state))"


section \<open>Paper trading bot in double arithmetic\<close>

text \<open>
  The functions of the paper bot that compute, with the rounding of each operation written
  out. \<open>shouldExitPosition\<close> only compares and takes absolute values, which are exact, and
  is used as it is. The product \<open>1000 * 60 * 60 * 24\<close> of small integers is exact.
\<close>

definition calculatePositionSize_fl :: "(real \<Rightarrow> real) \<Rightarrow> real \<Rightarrow> botConfig \<Rightarrow> real" where
  "calculatePositionSize_fl fl edge config =
     (let absEdge = \<bar>edge\<bar>;
          size = fl (c_basePositionSize config + fl (absEdge * c_edgeMultiplier config))
      in min size (c_maxPositionSize config))"

definition getTotalExposure_fl :: "(real \<Rightarrow> real) \<Rightarrow> position list \<Rightarrow> real" where
  "getTotalExposure_fl fl positions = foldl (\<lambda>sum p. fl (sum + p_size p)) 0 positions"

definition shouldEnterPosition_fl ::
  "(real \<Rightarrow> real) \<Rightarrow> arbitrageOpportunity \<Rightarrow> botState \<Rightarrow> botConfig \<Rightarrow> int \<Rightarrow> entryCheck" where
  "shouldEnterPosition_fl fl opp state config now =
     (let edge = primaryEdge opp;
          absEdge = \<bar>edge\<bar>
      in if absEdge < c_minEdgeToEnter config
         then \<lparr> en_shouldEnter = False, en_side = Long, en_edge = edge,
                en_reason = Some EdgeBelowThreshold \<rparr>
         else (let daysToExpiry = fl (fl (real_of_int (m_expiryDate (o_market opp) - now))
                                            / (1000 * 60 * 60 * 24))
               in if daysToExpiry < c_minTimeToExpiry config
                  then \<lparr> en_shouldEnter = False, en_side = Long, en_edge = edge,
                         en_reason = Some TooCloseToExpiry \<rparr>
                  else (case find (\<lambda>p. p_marketId p = m_id (o_market opp)) (s_openPositions state) of
                          Some existingPosition \<Rightarrow>
                            \<lparr> en_shouldEnter = False, en_side = Long, en_edge = edge,
                              en_reason = Some AlreadyHavePosition \<rparr>
                        | None \<Rightarrow>
                            (let currentExposure = getTotalExposure_fl fl (s_openPositions state);
                                 positionSize = calculatePositionSize_fl fl edge config
                             in if fl (currentExposure + positionSize) > c_maxTotalExposure config
                                then \<lparr> en_shouldEnter = False, en_side = Long, en_edge = edge,
                                       en_reason = Some WouldExceedExposure \<rparr>
                                else if positionSize > s_currentBalance state
                                then \<lparr> en_shouldEnter = False, en_side = Long, en_edge = edge,
                                       en_reason = Some InsufficientBalance \<rparr>
                                else \<lparr> en_shouldEnter = True,
                                       en_side = (if edge > 0 then Short else Long),
                                       en_edge = edge, en_reason = None \<rparr>))))"

definition openPosition_fl ::
  "(real \<Rightarrow> real) \<Rightarrow> arbitrageOpportunity \<Rightarrow> side \<Rightarrow> real \<Rightarrow> botState \<Rightarrow> botConfig \<Rightarrow> string
     \<Rightarrow> position \<times> botState" where
  "openPosition_fl fl opp side edge state config newId =
     (let size = calculatePositionSize_fl fl edge config;
          entryPrice = o_polymarketProb opp;
          effectivePrice = (if side = Long then entryPrice else fl (1 - entryPrice));
          shares = fl (size / effectivePrice);
          position = \<lparr> p_id = newId, p_marketId = m_id (o_market opp),
                       p_marketQuestion = m_question (o_market opp),
                       p_crypto = m_crypto (o_market opp),
                       p_targetPrice = m_targetPrice (o_market opp),
                       p_direction = m_direction (o_market opp),
                       p_betType = m_betType (o_market opp),
                       p_expiryDate = m_expiryDate (o_market opp),
                       p_side = side, p_entryPrice = entryPrice, p_size = size,
                       p_shares = shares, p_entryEdge = edge,
                       p_entryZscoreProb = e_probability (o_zscoreProb opp),
                       p_entryDeribitProb = map_option e_probability (o_deribitProb opp),
                       p_currentPrice = entryPrice, p_currentEdge = edge,
                       p_unrealizedPnl = 0, p_status = StatusOpen, p_closeReason = None,
                       p_closePrice = None, p_realizedPnl = None \<rparr>;
          trade = \<lparr> t_positionId = p_id position, t_marketId = m_id (o_market opp),
                    t_action = ActionOpen, t_side = side, t_price = entryPrice, t_size = size,
                    t_shares = shares, t_edge = edge,
                    t_zscoreProb = e_probability (o_zscoreProb opp),
                    t_deribitProb = map_option e_probability (o_deribitProb opp),
                    t_cryptoPrice = o_currentPrice opp, t_pnl = None \<rparr>
      in (position,
          state\<lparr> s_trades := s_trades state @ [trade],
                 s_totalTrades := s_totalTrades state + 1,
                 s_currentBalance := fl (s_currentBalance state - size) \<rparr>))"

definition closePosition_fl ::
  "(real \<Rightarrow> real) \<Rightarrow> position \<Rightarrow> real \<Rightarrow> real \<Rightarrow> string \<Rightarrow> botState \<Rightarrow> botState" where
  "closePosition_fl fl position currentPrice currentEdge reason state =
     (let pnl = (if p_side position = Long
                 then fl (p_shares position * fl (currentPrice - p_entryPrice position))
                 else fl (p_shares position * fl (p_entryPrice position - currentPrice)));
          closed = position\<lparr> p_status := StatusClosed, p_closeReason := Some reason,
                             p_closePrice := Some currentPrice, p_realizedPnl := Some pnl,
                             p_currentPrice := currentPrice, p_currentEdge := currentEdge \<rparr>;
          trade = \<lparr> t_positionId = p_id position, t_marketId = p_marketId position,
                    t_action = ActionClose, t_side = p_side position, t_price = currentPrice,
                    t_size = p_size position, t_shares = p_shares position,
                    t_edge = currentEdge, t_zscoreProb = 0, t_deribitProb = None,
                    t_cryptoPrice = 0, t_pnl = Some pnl \<rparr>;
          winningTrades = (if pnl > 0 then s_winningTrades state + 1 else s_winningTrades state);
          losingTrades = (if pnl > 0 then s_losingTrades state
                          else if pnl < 0 then s_losingTrades state + 1
                          else s_losingTrades state)
      in state\<lparr> s_trades := s_trades state @ [trade],
                s_totalTrades := s_totalTrades state + 1,
                s_currentBalance := fl (s_currentBalance state + fl (p_size position + pnl)),
                s_totalPnl := fl (s_totalPnl state + pnl),
                s_winningTrades := winningTrades,
                s_losingTrades := losingTrades,
                s_winRate := fl (real winningTrades / real (max 1 (winningTrades + losingTrades))),
                s_openPositions := filter (\<lambda>p. p_id p \<noteq> p_id position) (s_openPositions state),
                s_closedPositions := s_closedPositions state @ [closed] \<rparr>)"

definition updatePosition_fl :: "(real \<Rightarrow> real) \<Rightarrow> arbitrageOpportunity list \<Rightarrow> position \<Rightarrow> position" where
  "updatePosition_fl fl opportunities position =
     (case find (\<lambda>a. m_id (o_market a) = p_marketId position) opportunities of
        None \<Rightarrow> position
      | Some opp \<Rightarrow>
          (let currentPrice = o_polymarketProb opp
           in position\<lparr> p_currentPrice := currentPrice,
                         p_currentEdge := primaryEdge opp,
                         p_unrealizedPnl :=
                           (if p_side position = Long
                            then fl (p_shares position * fl (currentPrice - p_entryPrice position))
                            else fl (p_shares position * fl (p_entryPrice position - currentPrice))) \<rparr>))"

definition updateOpenPositions_fl :: "(real \<Rightarrow> real) \<Rightarrow> arbitrageOpportunity list \<Rightarrow> botState \<Rightarrow> botState" where
  "updateOpenPositions_fl fl opportunities state =
     state\<lparr> s_openPositions := map (updatePosition_fl fl opportunities) (s_openPositions state) \<rparr>"

fun exitLoop_fl ::
  "(real \<Rightarrow> real) \<Rightarrow> botConfig \<Rightarrow> arbitrageOpportunity list \<Rightarrow> (nat \<Rightarrow> int) \<Rightarrow> nat \<Rightarrow> position list
     \<Rightarrow> botState \<Rightarrow> botState" where
  "exitLoop_fl fl config opportunities clock i [] state = state"
| "exitLoop_fl fl config opportunities clock i (position # positions) state =
     (let opp = find (\<lambda>a. m_id (o_market a) = p_marketId position) opportunities;
          exitCheck = shouldExitPosition position opp config (clock i)
      in exitLoop_fl fl config opportunities clock (Suc i) positions
           (if x_shouldExit exitCheck
            then closePosition_fl fl position (x_currentPrice exitCheck) (x_currentEdge exitCheck)
                   (x_reason exitCheck) state
            else state))"

fun entryLoop_fl ::
  "(real \<Rightarrow> real) \<Rightarrow> botConfig \<Rightarrow> (nat \<Rightarrow> int) \<Rightarrow> (nat \<Rightarrow> string) \<Rightarrow> nat \<Rightarrow> arbitrageOpportunity list
     \<Rightarrow> botState \<Rightarrow> botState" where
  "entryLoop_fl fl config clock ids i [] state = state"
| "entryLoop_fl fl config clock ids i (opp # opportunities) state =
     (let entryCheck = shouldEnterPosition_fl fl opp state config (clock i)
      in entryLoop_fl fl config clock ids (Suc i) opportunities
           (if en_shouldEnter entryCheck
            then (case openPosition_fl fl opp (en_side entryCheck) (en_edge entryCheck) state config (ids i) of
                    (position, state') \<Rightarrow>
                      state'\<lparr> s_openPositions := s_openPositions state' @ [position] \<rparr>)
            else state))"

definition runBotCycle_fl ::
  "(real \<Rightarrow> real) \<Rightarrow> botConfig \<Rightarrow> environment \<Rightarrow> arbitrageOpportunity list \<Rightarrow> botState \<Rightarrow> botState" where
  "runBotCycle_fl fl config env opportunities state =
     (if length opportunities = 0 then state
      else (let state1 = updateOpenPositions_fl fl opportunities state;
                state2 = exitLoop_fl fl config opportunities (exitClock env) 0
                           (s_openPositions state1) state1;
                state3 = entryLoop_fl fl config (entryClock env) (freshId env) 0 opportunities state2
            in state3\<lparr> s_lastError := None \<rparr>))"

fun runCycles_fl ::
  "(real \<Rightarrow> real) \<Rightarrow> botConfig \<Rightarrow> (environment \<times> arbitrageOpportunity list) list \<Rightarrow> botState \<Rightarrow> botState" where
  "runCycles_fl fl config [] state = state"
| "runCycles_fl fl config ((env, opportunities) # rest) state =
     runCycles_fl fl config rest (runBotCycle_fl fl config env opportunities state)"

fun inputsOk_fl ::
  "(real \<Rightarrow> real) \<Rightarrow> botConfig \<Rightarrow> (environment \<times> arbitrageOpportunity list) list \<Rightarrow> botState \<Rightarrow> bool" where
  "inputsOk_fl fl config [] state = True"
| "inputsOk_fl fl config ((env, opportunities) # rest) state =
     (cycleInputOk env opportunities state
      \<and> inputsOk_fl fl config rest (runBotCycle_fl fl config env opportunities state))"

text \<open>
  The ledger of a list of trades. \<open>l_balance\<close> and \<open>l_totalPnl\<close> replay the updates that
  \<open>openPosition\<close> and \<open>closePosition\<close> make to \<open>currentBalance\<close> and \<open>totalPnl\<close> when they
  record a trade: an open subtracts the size, a close adds \<open>size + pnl\<close> to the balance and
  \<open>pnl\<close> to the total. \<open>l_drift\<close> adds up the rounding errors of these additions (rounded
  result less exact result, the error of the total counted negatively) and \<open>l_volume\<close> adds
  up the absolute values of their exact results.
\<close>

record ledger =
  l_balance :: real
  l_totalPnl :: real
  l_drift :: real
  l_volume :: real

definition tradePnl :: "trade \<Rightarrow> real" where
  "tradePnl t = (case t_pnl t of None \<Rightarrow> 0 | Some pnl \<Rightarrow> pnl)"

definition ledgerStep :: "(real \<Rightarrow> real) \<Rightarrow> ledger \<Rightarrow> trade \<Rightarrow> ledger" where
  "ledgerStep fl l t =
     (case t_action t of
        ActionOpen \<Rightarrow>
          (let exact = l_balance l - t_size t
           in l\<lparr> l_balance := fl exact,
                  l_drift := l_drift l + (fl exact - exact),
                  l_volume := l_volume l + \<bar>exact\<bar> \<rparr>)
      | ActionClose \<Rightarrow>
          (let credit = t_size t + tradePnl t;
               exact = l_balance l + fl credit;
               total = l_totalPnl l + tradePnl t
           in l\<lparr> l_balance := fl exact,
                  l_totalPnl := fl total,
                  l_drift := l_drift l + (fl exact - exact) + (fl credit - credit)
                               - (fl total - total),
                  l_volume := l_volume l + \<bar>exact\<bar> + \<bar>credit\<bar> + \<bar>total\<bar> \<rparr>))"

definition ledgerOf :: "(real \<Rightarrow> real) \<Rightarrow> real \<Rightarrow> trade list \<Rightarrow> ledger" where
  "ledgerOf fl startingBalance trades =
     foldl (ledgerStep fl)
       \<lparr> l_balance = startingBalance, l_totalPnl = 0, l_drift = 0, l_volume = 0 \<rparr> trades"

definition enterStep_fl ::
  "(real \<Rightarrow> real) \<Rightarrow> botConfig \<Rightarrow> int \<Rightarrow> string \<Rightarrow> arbitrageOpportunity \<Rightarrow> botState \<Rightarrow> botState" where
  "enterStep_fl fl config now newId opp state =
     (if en_shouldEnter (shouldEnterPosition_fl fl opp state config now)
      then (case openPosition_fl fl opp (en_side (shouldEnterPosition_fl fl opp state config now))
                   (en_edge (shouldEnterPosition_fl fl opp state config now)) state config newId of
              (position, state') \<Rightarrow> state'\<lparr> s_openPositions := s_openPositions state' @ [position] \<rparr>)
      else state)"

text \<open>
  A state is \<open>booked\<close> when its balance and its total are those of the ledger of its trades
  and the balance plus the sizes of the open positions exceeds the starting balance plus the
  total by the drift of that ledger.
\<close>

definition booked :: "(real \<Rightarrow> real) \<Rightarrow> botState \<Rightarrow> bool" where
  "booked fl st \<longleftrightarrow>
     s_currentBalance st = l_balance (ledgerOf fl (s_startingBalance st) (s_trades st))
     \<and> s_totalPnl st = l_totalPnl (ledgerOf fl (s_startingBalance st) (s_trades st))
     \<and> s_currentBalance st + sum_list (map p_size (s_openPositions st))
         = s_startingBalance st + s_totalPnl st
           + l_drift (ledgerOf fl (s_startingBalance st) (s_trades st))"

section \<open>Entry checks of the TypeScript sources (bot/real-trading-bot.ts)\<close>

text \<open>
  The source of the paper bot makes three safety checks that its compiled form above does not
  have. A number used as a condition (\<open>currentCryptoPrice && targetPrice\<close>, \<open>modelProb && ...\<close>)
  holds when it is not zero.
\<close>

definition paper_shouldEnterPosition ::
  "arbitrageOpportunity \<Rightarrow> botState \<Rightarrow> botConfig \<Rightarrow> int \<Rightarrow> entryCheck" where
  "paper_shouldEnterPosition opp state config now =
     (let edge = primaryEdge opp;
          polyPrice = o_polymarketProb opp
      in if polyPrice > 0.95
         then \<lparr> en_shouldEnter = False, en_side = Long, en_edge = edge,
                en_reason = Some PriceAbove95 \<rparr>
         else if polyPrice < 0.05
         then \<lparr> en_shouldEnter = False, en_side = Long, en_edge = edge,
                en_reason = Some PriceBelow5 \<rparr>
         else (let currentCryptoPrice = o_currentPrice opp;
                   targetPrice = m_targetPrice (o_market opp);
                   direction = m_direction (o_market opp);
                   betType = m_betType (o_market opp)
               in if currentCryptoPrice \<noteq> 0 \<and> targetPrice \<noteq> 0 \<and> betType = OneTouch
                     \<and> direction = Below \<and> currentCryptoPrice \<le> targetPrice
                  then \<lparr> en_shouldEnter = False, en_side = Long, en_edge = edge,
                         en_reason = Some DipAlreadyHappened \<rparr>
                  else if currentCryptoPrice \<noteq> 0 \<and> targetPrice \<noteq> 0 \<and> betType = OneTouch
                     \<and> direction = Above \<and> currentCryptoPrice \<ge> targetPrice
                  then \<lparr> en_shouldEnter = False, en_side = Long, en_edge = edge,
                         en_reason = Some TargetAlreadyHit \<rparr>
                  else (let modelProb = (case o_deribitProb opp of
                                           Some d \<Rightarrow> e_probability d
                                         | None \<Rightarrow> e_probability (o_zscoreProb opp))
                        in if modelProb \<noteq> 0 \<and> modelProb > 0.90 \<and> polyPrice > 0.90
                           then \<lparr> en_shouldEnter = False, en_side = Long, en_edge = edge,
                                  en_reason = Some AgreeHighProbability \<rparr>
                           else if modelProb \<noteq> 0 \<and> modelProb < 0.10 \<and> polyPrice < 0.10
                           then \<lparr> en_shouldEnter = False, en_side = Long, en_edge = edge,
                                  en_reason = Some AgreeLowProbability \<rparr>
                           else shouldEnterPosition opp state config now)))"

text \<open>The bot that trades real money.\<close>

record realBotConfig =
  rc_maxTotalExposure :: real
  rc_minEdgeToEnter :: real
  rc_maxEdgeToExit :: real
  rc_basePositionSize :: real
  rc_edgeMultiplier :: real
  rc_maxPositionSize :: real
  rc_pollIntervalMs :: int
  rc_minTimeToExpiry :: real
  rc_dryRun :: bool

definition REAL_CONFIG :: realBotConfig where
  "REAL_CONFIG = \<lparr> rc_maxTotalExposure = 10, rc_minEdgeToEnter = 0.05, rc_maxEdgeToExit = 0.05,
      rc_basePositionSize = 1, rc_edgeMultiplier = 20, rc_maxPositionSize = 5,
      rc_pollIntervalMs = 120000, rc_minTimeToExpiry = 1, rc_dryRun = False \<rparr>"

record realPosition =
  rp_id :: string
  rp_marketId :: string
  rp_marketQuestion :: string
  rp_tokenId :: string
  rp_side :: side
  rp_entryPrice :: real
  rp_size :: real
  rp_shares :: real
  rp_entryEdge :: real
  rp_orderId :: "string option"
  rp_status :: posStatus
  rp_closePrice :: "real option"
  rp_realizedPnl :: "real option"

record realBotState =
  rs_maxExposure :: real
  rs_currentExposure :: real
  rs_totalPnl :: real
  rs_openPositions :: "realPosition list"
  rs_closedPositions :: "realPosition list"
  rs_isRunning :: bool
  rs_lastError :: "string option"

text \<open>\<open>Math.round\<close> rounds to the nearest integer, a half upwards.\<close>

definition mathRound :: "real \<Rightarrow> real" where
  "mathRound x = real_of_int \<lfloor>x + 1 / 2\<rfloor>"

definition real_calculatePositionSize :: "real \<Rightarrow> realBotConfig \<Rightarrow> real \<Rightarrow> real" where
  "real_calculatePositionSize edge config remainingExposure =
     (let absEdge = \<bar>edge\<bar>;
          size0 = rc_basePositionSize config + (absEdge * rc_edgeMultiplier config);
          size1 = min size0 (rc_maxPositionSize config);
          size2 = min size1 remainingExposure
      in mathRound (size2 * 100) / 100)"

record realEntryCheck =
  re_shouldEnter :: bool
  re_side :: side
  re_edge :: real
  re_size :: real
  re_reason :: "entryReason option"

definition real_shouldEnterPosition ::
  "arbitrageOpportunity \<Rightarrow> realBotState \<Rightarrow> realBotConfig \<Rightarrow> int \<Rightarrow> realEntryCheck" where
  "real_shouldEnterPosition opp state config now =
     (let edge = primaryEdge opp;
          absEdge = \<bar>edge\<bar>;
          polyPrice = o_polymarketProb opp;
          reject = (\<lambda>reason. \<lparr> re_shouldEnter = False, re_side = Long, re_edge = edge,
                               re_size = 0, re_reason = Some reason \<rparr>)
      in if polyPrice > 0.99 then reject PriceAbove99
         else if polyPrice < 0.01 then reject PriceBelow1
         else (let currentCryptoPrice = o_currentPrice opp;
                   targetPrice = m_targetPrice (o_market opp);
                   direction = m_direction (o_market opp)
               in if currentCryptoPrice \<noteq> 0 \<and> targetPrice \<noteq> 0
                     \<and> m_betType (o_market opp) = OneTouch
                     \<and> direction = Below \<and> currentCryptoPrice \<le> targetPrice
                  then reject DipAlreadyHappened
                  else if currentCryptoPrice \<noteq> 0 \<and> targetPrice \<noteq> 0
                     \<and> m_betType (o_market opp) = OneTouch
                     \<and> direction = Above \<and> currentCryptoPrice \<ge> targetPrice
                  then reject TargetAlreadyHit
                  else if absEdge < rc_minEdgeToEnter config then reject EdgeBelowThreshold
                  else (let daysToExpiry = real_of_int (m_expiryDate (o_market opp) - now)
                                             / (1000 * 60 * 60 * 24)
                        in if daysToExpiry < rc_minTimeToExpiry config then reject TooCloseToExpiry
                           else (case find (\<lambda>p. rp_marketId p = m_id (o_market opp))
                                        (rs_openPositions state) of
                                   Some existingPosition \<Rightarrow> reject AlreadyHavePosition
                                 | None \<Rightarrow>
                                     (let remainingExposure =
                                            rc_maxTotalExposure config - rs_currentExposure state
                                      in if remainingExposure < 0.50
                                         then reject RemainingExposureTooSmall
                                         else (let size = real_calculatePositionSize edge config
                                                            remainingExposure
                                               in if size < 0.50 then reject PositionSizeTooSmall
                                                  else \<lparr> re_shouldEnter = True,
                                                         re_side = (if edge > 0 then Short else Long),
                                                         re_edge = edge, re_size = size,
                                                         re_reason = None \<rparr>))))))"

text \<open>The state \<open>loadState\<close> of the real bot returns when no state file exists.\<close>

definition real_initialState :: "realBotConfig \<Rightarrow> realBotState" where
  "real_initialState config =
     \<lparr> rs_maxExposure = rc_maxTotalExposure config, rs_currentExposure = 0, rs_totalPnl = 0,
       rs_openPositions = [], rs_closedPositions = [], rs_isRunning = True,
       rs_lastError = None \<rparr>"

text \<open>
  The resolved-market guard in the words of the specification: it rejects an opportunity whose
  price is not strictly between 0.01 and 0.99.
\<close>

definition spec_resolvedGuardRejects :: "arbitrageOpportunity \<Rightarrow> bool" where
  "spec_resolvedGuardRejects opp \<longleftrightarrow> \<not> (0.01 < o_polymarketProb opp \<and> o_polymarketProb opp < 0.99)"

section \<open>Persistence (saveState of both bots)\<close>















section \<open>Question parser (lib/crypto-math)\<close>

subsection \<open>Regular expressions\<close>

text \<open>
  The parser is a sequence of regular-expression tests. The expressions it uses are built
  from the constructs below; all their quantifiers are greedy. Texts are strings of ASCII
  characters.
\<close>

datatype re =
  Lit char
  | Digit
  | WordChar
  | Space
  | Eps
  | Seq re re
  | Alt re re
  | Star re
  | Group nat re
  | WordBoundary
  | NotFollowedBy re
  | Bol
  | Eol

definition lowerLetters :: string where
  "lowerLetters = ''abcdefghijklmnopqrstuvwxyz''"

definition upperLetters :: string where
  "upperLetters = ''ABCDEFGHIJKLMNOPQRSTUVWXYZ''"

definition decimalDigits :: string where
  "decimalDigits = ''0123456789''"

definition toUpperChar :: "char \<Rightarrow> char" where
  "toUpperChar c = (case map_of (zip lowerLetters upperLetters) c of Some u \<Rightarrow> u | None \<Rightarrow> c)"

definition toLowerChar :: "char \<Rightarrow> char" where
  "toLowerChar c = (case map_of (zip upperLetters lowerLetters) c of Some l \<Rightarrow> l | None \<Rightarrow> c)"

definition toLowerCase :: "string \<Rightarrow> string" where
  "toLowerCase s = map toLowerChar s"

definition isDigit :: "char \<Rightarrow> bool" where
  "isDigit c \<longleftrightarrow> c \<in> set decimalDigits"

definition isWordChar :: "char \<Rightarrow> bool" where
  "isWordChar c \<longleftrightarrow> c \<in> set (lowerLetters @ upperLetters @ decimalDigits @ ''_'')"

definition isSpace :: "char \<Rightarrow> bool" where
  "isSpace c \<longleftrightarrow> c \<in> set [CHR '' '', CHR 0x09, CHR 0x0A, CHR 0x0B, CHR 0x0C, CHR 0x0D]"

text \<open>With the flag \<open>i\<close> two characters are compared by their upper-case forms.\<close>

definition charEq :: "bool \<Rightarrow> char \<Rightarrow> char \<Rightarrow> bool" where
  "charEq ignoreCase a b = (if ignoreCase then toUpperChar a = toUpperChar b else a = b)"

type_synonym captures = "(nat \<times> nat \<times> nat) list"

text \<open>
  A position in the text during a match: its index, the character before it, the text from
  it on, and the groups captured so far (group number, start, end).
\<close>

record mstate =
  ms_pos :: nat
  ms_prev :: "char option"
  ms_rest :: string
  ms_caps :: captures

definition step1 :: "(char \<Rightarrow> bool) \<Rightarrow> mstate \<Rightarrow> mstate list" where
  "step1 accepts st =
     (case ms_rest st of
        [] \<Rightarrow> []
      | c # cs \<Rightarrow> if accepts c
                  then [st\<lparr> ms_pos := Suc (ms_pos st), ms_prev := Some c, ms_rest := cs \<rparr>]
                  else [])"

text \<open>
  A greedy star tries one more iteration before it tries to stop; an iteration that matches
  the empty text is not repeated. Each iteration consumes a character, so the remaining
  length of the text bounds their number.
\<close>

fun starIter :: "(mstate \<Rightarrow> mstate list) \<Rightarrow> nat \<Rightarrow> mstate \<Rightarrow> mstate list" where
  "starIter f 0 st = [st]"
| "starIter f (Suc n) st =
     concat (map (\<lambda>st'. if ms_pos st' > ms_pos st then starIter f n st' else []) (f st)) @ [st]"

text \<open>
  All the ways an expression matches at a position, in the order in which a backtracking
  matcher tries them: the first is the match it reports.
\<close>

fun matchAt :: "bool \<Rightarrow> re \<Rightarrow> mstate \<Rightarrow> mstate list" where
  "matchAt ic (Lit c) st = step1 (charEq ic c) st"
| "matchAt ic Digit st = step1 isDigit st"
| "matchAt ic WordChar st = step1 isWordChar st"
| "matchAt ic Space st = step1 isSpace st"
| "matchAt ic Eps st = [st]"
| "matchAt ic (Seq r1 r2) st = concat (map (\<lambda>st'. matchAt ic r2 st') (matchAt ic r1 st))"
| "matchAt ic (Alt r1 r2) st = matchAt ic r1 st @ matchAt ic r2 st"
| "matchAt ic (Star r) st = starIter (\<lambda>st'. matchAt ic r st') (Suc (length (ms_rest st))) st"
| "matchAt ic (Group n r) st =
     map (\<lambda>st'. st'\<lparr> ms_caps := (n, ms_pos st, ms_pos st') # ms_caps st' \<rparr>) (matchAt ic r st)"
| "matchAt ic WordBoundary st =
     (let a = (case ms_prev st of None \<Rightarrow> False | Some c \<Rightarrow> isWordChar c);
          b = (case ms_rest st of [] \<Rightarrow> False | c # cs \<Rightarrow> isWordChar c)
      in if a \<noteq> b then [st] else [])"
| "matchAt ic (NotFollowedBy r) st = (if matchAt ic r st = [] then [st] else [])"
| "matchAt ic Bol st = (if ms_pos st = 0 then [st] else [])"
| "matchAt ic Eol st = (if ms_rest st = [] then [st] else [])"

record regexMatch =
  rm_start :: nat
  rm_end :: nat
  rm_caps :: captures

text \<open>The leftmost match: the first position of the text at which the expression matches.\<close>

fun searchFrom :: "bool \<Rightarrow> re \<Rightarrow> nat \<Rightarrow> char option \<Rightarrow> string \<Rightarrow> regexMatch option" where
  "searchFrom ic r pos prev rest =
     (case matchAt ic r \<lparr> ms_pos = pos, ms_prev = prev, ms_rest = rest, ms_caps = [] \<rparr> of
        st' # others \<Rightarrow> Some \<lparr> rm_start = pos, rm_end = ms_pos st', rm_caps = ms_caps st' \<rparr>
      | [] \<Rightarrow> (case rest of
                 [] \<Rightarrow> None
               | c # cs \<Rightarrow> searchFrom ic r (Suc pos) (Some c) cs))"

text \<open>A regular expression with its flag \<open>i\<close>; \<open>s.match(rx)\<close> and \<open>rx.test(s)\<close>.\<close>

record regex =
  rx_ignoreCase :: bool
  rx_body :: re

definition rxMatch :: "string \<Rightarrow> regex \<Rightarrow> regexMatch option" where
  "rxMatch s rx = searchFrom (rx_ignoreCase rx) (rx_body rx) 0 None s"

definition rxTest :: "regex \<Rightarrow> string \<Rightarrow> bool" where
  "rxTest rx s \<longleftrightarrow> rxMatch s rx \<noteq> None"

definition substring :: "string \<Rightarrow> nat \<Rightarrow> nat \<Rightarrow> string" where
  "substring s i j = take (j - i) (drop i s)"

text \<open>\<open>match[0]\<close> and \<open>match[n]\<close>.\<close>

definition matched :: "string \<Rightarrow> regexMatch \<Rightarrow> string" where
  "matched s m = substring s (rm_start m) (rm_end m)"

definition matchGroup :: "string \<Rightarrow> regexMatch \<Rightarrow> nat \<Rightarrow> string option" where
  "matchGroup s m n = map_option (\<lambda>(i, j). substring s i j) (map_of (rm_caps m) n)"

fun str :: "string \<Rightarrow> re" where
  "str [] = Eps"
| "str [c] = Lit c"
| "str (c # cs) = Seq (Lit c) (str cs)"

fun seqs :: "re list \<Rightarrow> re" where
  "seqs [] = Eps"
| "seqs [r] = r"
| "seqs (r # rs) = Seq r (seqs rs)"

fun alts :: "re list \<Rightarrow> re" where
  "alts [] = NotFollowedBy Eps"
| "alts [r] = r"
| "alts (r # rs) = Alt r (alts rs)"

definition OneOrMore :: "re \<Rightarrow> re" where
  "OneOrMore r = Seq r (Star r)"

definition Optional :: "re \<Rightarrow> re" where
  "Optional r = Alt r Eps"

text \<open>\<open>\bw\b\<close> for a word \<open>w\<close>, and an expression with the flag \<open>i\<close>.\<close>

definition wholeWord :: "string \<Rightarrow> re" where
  "wholeWord w = seqs [WordBoundary, str w, WordBoundary]"

definition ignoringCase :: "re \<Rightarrow> regex" where
  "ignoringCase r = \<lparr> rx_ignoreCase = True, rx_body = r \<rparr>"

definition caseSensitive :: "re \<Rightarrow> regex" where
  "caseSensitive r = \<lparr> rx_ignoreCase = False, rx_body = r \<rparr>"

subsection \<open>Numbers and dates\<close>

definition digitValue :: "char \<Rightarrow> nat" where
  "digitValue c = (case map_of (zip ''0123456789abcdefABCDEF''
                       [0, 1, 2, 3, 4, 5, 6, 7, 8, 9, 10, 11, 12, 13, 14, 15, 10, 11, 12, 13, 14, 15]) c of
                     Some v \<Rightarrow> v | None \<Rightarrow> 0)"

definition digitsValue :: "nat \<Rightarrow> string \<Rightarrow> nat" where
  "digitsValue radix s = foldl (\<lambda>n c. radix * n + digitValue c) 0 s"

text \<open>
  \<open>parseFloat\<close> on a text without sign, exponent or leading blank, which is all the price
  patterns capture: the longest prefix of digits with at most one fraction; \<open>None\<close> is
  \<open>NaN\<close>.
\<close>

definition parseFloat :: "string \<Rightarrow> real option" where
  "parseFloat s =
     (let intPart = takeWhile isDigit s;
          rest = dropWhile isDigit s;
          fracPart = (case rest of
                        c # cs \<Rightarrow> if c = CHR ''.'' then takeWhile isDigit cs else []
                      | [] \<Rightarrow> [])
      in if intPart = [] \<and> fracPart = [] then None
         else Some (real (digitsValue 10 intPart)
                    + real (digitsValue 10 fracPart) / 10 ^ length fracPart))"

definition isHexDigit :: "char \<Rightarrow> bool" where
  "isHexDigit c \<longleftrightarrow> c \<in> set ''0123456789abcdefABCDEF''"

text \<open>
  \<open>parseInt\<close> without a radix, on a text without sign or leading blank: the digits at its
  start, read as hexadecimal after \<open>0x\<close>; \<open>None\<close> is \<open>NaN\<close>.
\<close>

definition parseInt :: "string \<Rightarrow> int option" where
  "parseInt s =
     (if take 2 s = ''0x'' \<or> take 2 s = ''0X''
      then (let ds = takeWhile isHexDigit (drop 2 s)
            in if ds = [] then None else Some (int (digitsValue 16 ds)))
      else (let ds = takeWhile isDigit s
            in if ds = [] then None else Some (int (digitsValue 10 ds))))"

text \<open>
  Dates are the \<open>jsDate\<close> values introduced with the pipeline. The day number of a civil
  date follows the proleptic Gregorian calendar.
\<close>

definition daysFromCivil :: "int \<Rightarrow> int \<Rightarrow> int \<Rightarrow> int" where
  "daysFromCivil y m d =
     (let y' = (if m \<le> 2 then y - 1 else y);
          era = y' div 400;
          yoe = y' - era * 400;
          doy = (153 * (if m > 2 then m - 3 else m + 9) + 2) div 5 + d - 1;
          doe = yoe * 365 + yoe div 4 - yoe div 100 + doy
      in era * 146097 + doe - 719468)"

definition makeDay :: "int \<Rightarrow> int \<Rightarrow> int \<Rightarrow> int" where
  "makeDay year month date =
     (let ym = year + month div 12;
          mn = month mod 12
      in daysFromCivil ym (mn + 1) 1 + date - 1)"

definition makeTime :: "int \<Rightarrow> int \<Rightarrow> int \<Rightarrow> int" where
  "makeTime hour minute second = hour * 3600000 + minute * 60000 + second * 1000"

text \<open>
  \<open>new Date(year, month, day, hours, minutes, seconds)\<close> takes its arguments as local time.
  \<open>localTZA t\<close> is the offset of the host's time zone from UTC, in milliseconds, at the local
  time \<open>t\<close>; an argument that is \<open>NaN\<close> makes the date invalid.
\<close>

definition newDate ::
  "(int \<Rightarrow> int) \<Rightarrow> int option \<Rightarrow> int option \<Rightarrow> int option \<Rightarrow> int \<Rightarrow> int \<Rightarrow> int \<Rightarrow> jsDate" where
  "newDate localTZA year month day hours minutes seconds =
     (case (year, month, day) of
        (Some y, Some m, Some d) \<Rightarrow>
          (let yr = (if 0 \<le> y \<and> y \<le> 99 then 1900 + y else y);
               local = makeDay yr m d * 86400000 + makeTime hours minutes seconds;
               utc = local - localTZA local
           in if \<bar>utc\<bar> > 8640000000000000 then InvalidDate else ValidDate utc)
      | _ \<Rightarrow> InvalidDate)"

subsection \<open>The parser\<close>

definition exclusionPatterns :: "regex list" where
  "exclusionPatterns = map ignoringCase
     [seqs [str ''market'', Star Space, str ''cap''],
      wholeWord ''fdv'',
      wholeWord ''tvl'',
      wholeWord ''mcap'',
      str ''dominance'',
      seqs [WordBoundary, str ''fee'', Optional (Lit (CHR ''s'')), WordBoundary],
      wholeWord ''gas'',
      wholeWord ''staking'',
      wholeWord ''airdrop'',
      wholeWord ''etf'',
      wholeWord ''halving'',
      seqs [str ''mega'', Star Space, str ''eth''],
      wholeWord ''weth'',
      wholeWord ''steth'',
      wholeWord ''reth'',
      wholeWord ''cbeth'']"

definition cryptoPatterns :: "(regex \<times> string) list" where
  "cryptoPatterns =
     [(ignoringCase (Alt (wholeWord ''bitcoin'') (wholeWord ''btc'')), ''BTC''),
      (ignoringCase (Alt (wholeWord ''ethereum'')
                         (Seq (wholeWord ''eth'') (NotFollowedBy (str ''er'')))), ''ETH''),
      (ignoringCase (Alt (wholeWord ''solana'')
                         (Seq (wholeWord ''sol'') (NotFollowedBy (str ''ar'')))), ''SOL''),
      (ignoringCase (Alt (wholeWord ''cardano'') (wholeWord ''ada'')), ''ADA''),
      (ignoringCase (Alt (wholeWord ''dogecoin'') (wholeWord ''doge'')), ''DOGE''),
      (ignoringCase (Alt (wholeWord ''xrp'') (wholeWord ''ripple'')), ''XRP''),
      (ignoringCase (Alt (wholeWord ''polygon'') (wholeWord ''matic'')), ''MATIC''),
      (ignoringCase (Alt (wholeWord ''avalanche'') (wholeWord ''avax'')), ''AVAX''),
      (ignoringCase (Alt (wholeWord ''chainlink'') (wholeWord ''link'')), ''LINK''),
      (ignoringCase (Alt (wholeWord ''polkadot'') (wholeWord ''dot'')), ''DOT''),
      (ignoringCase (Alt (wholeWord ''litecoin'') (wholeWord ''ltc'')), ''LTC'')]"

definition priceKeywords :: regex where
  "priceKeywords = ignoringCase (alts
     [wholeWord ''price'', wholeWord ''hit'', wholeWord ''reach'', wholeWord ''above'',
      wholeWord ''below'', wholeWord ''exceed'', wholeWord ''surpass'', Lit (CHR ''$''),
      wholeWord ''over'', wholeWord ''under'', wholeWord ''dip''])"

text \<open>\<open>[\d,]+(?:\.\d+)?\<close>, the number in each of the price patterns.\<close>

definition priceNumber :: re where
  "priceNumber = Seq (OneOrMore (Alt Digit (Lit (CHR '',''))))
                     (Optional (Seq (Lit (CHR ''.'')) (OneOrMore Digit)))"

definition pricePatterns :: "regex list" where
  "pricePatterns =
     [ignoringCase (seqs [Optional (Lit (CHR ''$'')), Group 1 priceNumber, Star Space,
                          Lit (CHR ''k'')]),
      ignoringCase (seqs [Optional (Lit (CHR ''$'')), Group 1 priceNumber, Star Space,
                          str ''thousand'']),
      caseSensitive (seqs [Lit (CHR ''$''), Group 1 priceNumber]),
      ignoringCase (seqs [Group 1 priceNumber, Star Space,
                          Alt (Seq (str ''dollar'') (Optional (Lit (CHR ''s'')))) (str ''usd'')])]"

definition oneTouchKeywords :: regex where
  "oneTouchKeywords = ignoringCase (alts
     [str ''hit'', str ''reach'', str ''touch'', str ''surpass'', str ''exceed'', str ''dip'',
      str ''drop'', str ''crash''])"

definition belowKeywords :: regex where
  "belowKeywords = ignoringCase (alts
     [str ''below'', str ''under'', str ''less than'', str ''fall'', str ''dip'', str ''drop'',
      str ''crash'', str ''sink'', str ''plunge'', str ''decline''])"

text \<open>The loop over the price patterns; it stops at the first pattern that yields a price.\<close>

fun extractPrice :: "regex list \<Rightarrow> string \<Rightarrow> real option" where
  "extractPrice [] question = None"
| "extractPrice (pattern # patterns) question =
     (case rxMatch question pattern of
        None \<Rightarrow> extractPrice patterns question
      | Some m \<Rightarrow>
          (let priceStr = filter (\<lambda>c. c \<noteq> CHR '','') (the (matchGroup question m 1))
           in case parseFloat priceStr of
                None \<Rightarrow> extractPrice patterns question
              | Some price0 \<Rightarrow>
                  (let price = (if rxTest (ignoringCase (Lit (CHR ''k''))) (matched question m)
                                   \<or> rxTest (ignoringCase (str ''thousand'')) (matched question m)
                                then price0 * 1000 else price0)
                   in if price > 0 then Some price else extractPrice patterns question)))"

definition months :: "string \<rightharpoonup> int" where
  "months = map_of
     [(''january'', 0), (''jan'', 0), (''february'', 1), (''feb'', 1), (''march'', 2), (''mar'', 2),
      (''april'', 3), (''apr'', 3), (''may'', 4), (''june'', 5), (''jun'', 5), (''july'', 6),
      (''jul'', 6), (''august'', 7), (''aug'', 7), (''september'', 8), (''sep'', 8), (''sept'', 8),
      (''october'', 9), (''oct'', 9), (''november'', 10), (''nov'', 10), (''december'', 11),
      (''dec'', 11)]"

definition fourDigits :: re where
  "fourDigits = seqs [Digit, Digit, Digit, Digit]"

definition ordinalSuffix :: re where
  "ordinalSuffix = Optional (alts [str ''st'', str ''nd'', str ''rd'', str ''th''])"

definition datePatterns :: "regex list" where
  "datePatterns =
     [ignoringCase (seqs [Group 1 (OneOrMore WordChar), OneOrMore Space,
                          Group 2 (Seq Digit (Optional Digit)), ordinalSuffix,
                          Optional (Lit (CHR '','')), Star Space, Group 3 fourDigits]),
      ignoringCase (seqs [Group 1 (Seq Digit (Optional Digit)), ordinalSuffix, OneOrMore Space,
                          Group 2 (OneOrMore WordChar), Optional (Lit (CHR '','')), Star Space,
                          Group 3 fourDigits]),
      caseSensitive (seqs [Group 1 (Seq Digit (Optional Digit)), Lit (CHR ''/''),
                           Group 2 (Seq Digit (Optional Digit)), Lit (CHR ''/''),
                           Group 3 fourDigits]),
      ignoringCase (seqs [str ''by'', OneOrMore Space,
                          Optional (seqs [str ''end'', OneOrMore Space, str ''of'', OneOrMore Space]),
                          Group 1 fourDigits]),
      ignoringCase (seqs [str ''before'', OneOrMore Space, Group 1 fourDigits]),
      ignoringCase (seqs [str ''in'', OneOrMore Space, Group 1 fourDigits])]"

text \<open>
  What one date pattern yields when it matches: \<open>Some\<close> date is returned by the function,
  \<open>None\<close> lets the loop go on to the next pattern. A match with one group has length 2.
  The table \<open>months\<close> is an object, so the names \<open>constructor\<close> and \<open>__proto__\<close> find
  an inherited member, which is not a number.
\<close>

definition dateFromMatch :: "(int \<Rightarrow> int) \<Rightarrow> string \<Rightarrow> regexMatch \<Rightarrow> jsDate option" where
  "dateFromMatch localTZA question m =
     (if length (rm_caps m) = 1
      then (let year = parseInt (the (matchGroup question m 1));
                effectiveYear = (if rxTest (ignoringCase (str ''before'')) (matched question m)
                                 then map_option (\<lambda>y. y - 1) year else year)
            in Some (newDate localTZA effectiveYear (Some 11) (Some 31) 23 59 59))
      else (let m1 = the (matchGroup question m 1);
                m2 = the (matchGroup question m 2);
                m3 = the (matchGroup question m 3)
            in if rxTest (caseSensitive (Seq Bol Digit)) m1 \<and> rxTest (caseSensitive (Seq Bol Digit)) m2
               then Some (newDate localTZA (parseInt m3) (map_option (\<lambda>x. x - 1) (parseInt m1))
                            (parseInt m2) 23 59 59)
               else (let digitsOnly = rxTest (caseSensitive (seqs [Bol, OneOrMore Digit, Eol])) m1;
                         monthStr = (if digitsOnly then toLowerCase m2 else toLowerCase m1);
                         day = (if digitsOnly then parseInt m1 else parseInt m2);
                         year = parseInt m3
                     in if monthStr \<in> set [''constructor'', ''__proto__'']
                        then Some InvalidDate
                        else (case months monthStr of
                                Some month \<Rightarrow> Some (newDate localTZA year (Some month) day 23 59 59)
                              | None \<Rightarrow> None))))"

fun parseDateLoop :: "(int \<Rightarrow> int) \<Rightarrow> regex list \<Rightarrow> string \<Rightarrow> jsDate option" where
  "parseDateLoop localTZA [] question =
     (case rxMatch question (caseSensitive (seqs [Lit (CHR ''2''), Lit (CHR ''0''), Digit, Digit])) of
        Some yearMatch \<Rightarrow>
          Some (newDate localTZA (parseInt (matched question yearMatch)) (Some 11) (Some 31) 23 59 59)
      | None \<Rightarrow> None)"
| "parseDateLoop localTZA (pattern # patterns) question =
     (case rxMatch question pattern of
        None \<Rightarrow> parseDateLoop localTZA patterns question
      | Some m \<Rightarrow>
          (case dateFromMatch localTZA question m of
             Some date \<Rightarrow> Some date
           | None \<Rightarrow> parseDateLoop localTZA patterns question))"

definition parseDateFromQuestion :: "(int \<Rightarrow> int) \<Rightarrow> string \<Rightarrow> jsDate option" where
  "parseDateFromQuestion localTZA question = parseDateLoop localTZA datePatterns question"

record parsedQuestion =
  pq_crypto :: string
  pq_targetPrice :: real
  pq_expiryDate :: "jsDate option"
  pq_betType :: betType
  pq_direction :: direction

definition parseCryptoMarketQuestion :: "(int \<Rightarrow> int) \<Rightarrow> string \<Rightarrow> parsedQuestion option" where
  "parseCryptoMarketQuestion localTZA question =
     (if list_ex (\<lambda>pattern. rxTest pattern question) exclusionPatterns then None
      else (case find (\<lambda>(pattern, symbol). rxTest pattern question) cryptoPatterns of
              None \<Rightarrow> None
            | Some (pattern, crypto) \<Rightarrow>
                if \<not> rxTest priceKeywords question then None
                else (case extractPrice pricePatterns question of
                        None \<Rightarrow> None
                      | Some targetPrice \<Rightarrow>
                          (let betType = (if rxTest oneTouchKeywords question then OneTouch else Binary);
                               direction = (if rxTest belowKeywords question then Below else Above);
                               expiryDate = parseDateFromQuestion localTZA question
                           in Some \<lparr> pq_crypto = crypto, pq_targetPrice = targetPrice,
                                      pq_expiryDate = expiryDate, pq_betType = betType,
                                      pq_direction = direction \<rparr>))))"

text \<open>The question of the acceptance scenario, and a host five hours west of UTC.\<close>

definition ex_question :: string where
  "ex_question = ''Will Bitcoin hit $200k by December 31, 2025?''"

definition ex_utc :: "int \<Rightarrow> int" where
  "ex_utc t = 0"

definition ex_newYork :: "int \<Rightarrow> int" where
  "ex_newYork t = - 18000000"

section \<open>Example inputs\<close>

text \<open>
  Concrete markets and feeds on which the theorems below are instantiated. The clock reads
  \<open>ex_now\<close>; every example market expires exactly one year (of \<open>365.25\<close> days) later.
\<close>

definition ex_now :: int where
  "ex_now = 1750000000000"

definition ex_expiry :: int where
  "ex_expiry = 1750000000000 + 31557600000"

definition ex_prices :: "string \<rightharpoonup> real" where
  "ex_prices = [''BTC'' \<mapsto> 100000, ''SOL'' \<mapsto> 200]"

definition ex_deribit :: "string \<rightharpoonup> deribitOptionsData" where
  "ex_deribit = [''BTC'' \<mapsto> \<lparr> d_atmIv = 0.55, d_ivByStrike =
       [(100000, \<lparr> k_callIv = 0.55, k_putIv = 0.55, k_callDelta = 0.6, k_putDelta = -0.4 \<rparr>)] \<rparr>]"

definition ex_btcBinary :: cryptoMarket where
  "ex_btcBinary = \<lparr> m_id = ''0xb1'', m_question = ''Will Bitcoin be above $100,000 on June 15, 2026?'',
      m_crypto = ''BTC'', m_targetPrice = 100000, m_expiryDate = ex_expiry, m_betType = Binary,
      m_direction = Above, m_polymarketPrice = 0.9, m_volume = None \<rparr>"

definition ex_solBinary :: cryptoMarket where
  "ex_solBinary = \<lparr> m_id = ''0xa1'', m_question = ''Will Solana be above $200 on June 15, 2026?'',
      m_crypto = ''SOL'', m_targetPrice = 200, m_expiryDate = ex_expiry, m_betType = Binary,
      m_direction = Above, m_polymarketPrice = 0.88, m_volume = None \<rparr>"

definition ex_btcTouchUp :: cryptoMarket where
  "ex_btcTouchUp = \<lparr> m_id = ''0xb2'', m_question = ''Will Bitcoin hit $101,000 by June 15, 2026?'',
      m_crypto = ''BTC'', m_targetPrice = 101000, m_expiryDate = ex_expiry, m_betType = OneTouch,
      m_direction = Above, m_polymarketPrice = 0.9, m_volume = None \<rparr>"

definition ex_btcTouchDown :: cryptoMarket where
  "ex_btcTouchDown = \<lparr> m_id = ''0xb3'', m_question = ''Will Bitcoin dip to $80,000 by June 15, 2026?'',
      m_crypto = ''BTC'', m_targetPrice = 80000, m_expiryDate = ex_expiry, m_betType = OneTouch,
      m_direction = Below, m_polymarketPrice = 0.3, m_volume = None \<rparr>"

text \<open>
  The paper bot on a one-touch market priced at 0.40 against a model probability of 0.30
  (edge 0.10), and one cycle later at 0.32 against 0.28 (edge 0.04).
\<close>

definition ex_botMarket :: cryptoMarket where
  "ex_botMarket = \<lparr> m_id = ''0xc1'', m_question = ''Will Bitcoin hit $150,000 by July 15, 2025?'',
      m_crypto = ''BTC'', m_targetPrice = 150000, m_expiryDate = 1750000000000 + 2592000000,
      m_betType = OneTouch, m_direction = Above, m_polymarketPrice = 0.40, m_volume = None \<rparr>"

definition ex_botVolatility :: volatilityData where
  "ex_botVolatility = \<lparr> v_symbol = ''BTC'', v_deribitIv = None, v_defaultVol = 0.55,
      v_source = FromDefault, v_volatility = 0.55 \<rparr>"

definition ex_opp1 :: arbitrageOpportunity where
  "ex_opp1 = \<lparr> o_market = ex_botMarket, o_currentPrice = 100000, o_volatility = ex_botVolatility,
      o_polymarketProb = 0.40,
      o_zscoreProb = \<lparr> e_method = Zscore, e_probability = 0.30, e_volatilityUsed = 0.55,
                       e_timeToExpiry = 0.0821, e_zScore = None, e_delta = None \<rparr>,
      o_deribitProb = None, o_edgeVsZscore = 0.10, o_edgeVsDeribit = None,
      o_signal = Sell, o_confidence = Medium \<rparr>"

definition ex_opp2 :: arbitrageOpportunity where
  "ex_opp2 = \<lparr> o_market = ex_botMarket\<lparr> m_polymarketPrice := 0.32 \<rparr>, o_currentPrice = 100000,
      o_volatility = ex_botVolatility, o_polymarketProb = 0.32,
      o_zscoreProb = \<lparr> e_method = Zscore, e_probability = 0.28, e_volatilityUsed = 0.55,
                       e_timeToExpiry = 0.0821, e_zScore = None, e_delta = None \<rparr>,
      o_deribitProb = None, o_edgeVsZscore = 0.04, o_edgeVsDeribit = None,
      o_signal = Sell, o_confidence = Low \<rparr>"

definition ex_env :: environment where
  "ex_env = \<lparr> exitClock = (\<lambda>i. 1750000000000), entryClock = (\<lambda>i. 1750000000000),
      freshId = (\<lambda>i. [''pos_a'', ''pos_b'', ''pos_c'', ''pos_d'', ''pos_e'', ''pos_f'', ''pos_g''] ! i) \<rparr>"

definition ex_env2 :: environment where
  "ex_env2 = \<lparr> exitClock = (\<lambda>i. 1750000060000), entryClock = (\<lambda>i. 1750000060000),
      freshId = (\<lambda>i. [''pos_h'', ''pos_i'', ''pos_j'', ''pos_k'', ''pos_l'', ''pos_m'', ''pos_n''] ! i) \<rparr>"

definition ex_run :: "(environment \<times> arbitrageOpportunity list) list" where
  "ex_run = [(ex_env, [ex_opp1]), (ex_env2, [ex_opp2])]"



text \<open>The opportunities on which the guards are examined: priced at 0.99 and at 0.97.\<close>

definition ex_opp99 :: arbitrageOpportunity where
  "ex_opp99 = \<lparr> o_market = ex_btcBinary\<lparr> m_polymarketPrice := 0.99, m_expiryDate := 1750000000000 + 2592000000 \<rparr>,
      o_currentPrice = 120000, o_volatility = ex_botVolatility, o_polymarketProb = 0.99,
      o_zscoreProb = \<lparr> e_method = Zscore, e_probability = 0.85, e_volatilityUsed = 0.55,
                       e_timeToExpiry = 0.0821, e_zScore = None, e_delta = None \<rparr>,
      o_deribitProb = None, o_edgeVsZscore = 0.14, o_edgeVsDeribit = None,
      o_signal = Sell, o_confidence = High \<rparr>"

definition ex_opp97 :: arbitrageOpportunity where
  "ex_opp97 = \<lparr> o_market = ex_btcBinary\<lparr> m_polymarketPrice := 0.97, m_expiryDate := 1750000000000 + 2592000000 \<rparr>,
      o_currentPrice = 120000, o_volatility = ex_botVolatility, o_polymarketProb = 0.97,
      o_zscoreProb = \<lparr> e_method = Zscore, e_probability = 0.85, e_volatilityUsed = 0.55,
                       e_timeToExpiry = 0.0821, e_zScore = None, e_delta = None \<rparr>,
      o_deribitProb = None, o_edgeVsZscore = 0.12, o_edgeVsDeribit = None,
      o_signal = Sell, o_confidence = High \<rparr>"

text \<open>
  The constants of \<open>CONFIG\<close> as doubles (all but the two thresholds of 0.05 are
  integers), and a run of the paper bot in doubles: a market priced at 0.03 against a model probability of 0.15, and one cycle
  later at 0.07 against 0.08. Each figure is the double its decimal text denotes, and each
  edge is the difference that \<open>calculateEdge\<close> computes.
\<close>

definition CONFIG_fl :: "(real \<Rightarrow> real) \<Rightarrow> botConfig" where
  "CONFIG_fl fl = \<lparr> c_startingBalance = 1000, c_minEdgeToEnter = fl 0.05,
      c_maxEdgeToExit = fl 0.05, c_basePositionSize = 25, c_edgeMultiplier = 500,
      c_maxPositionSize = 100, c_maxTotalExposure = 500, c_pollIntervalMs = 60000,
      c_maxPositionsPerMarket = 1, c_minTimeToExpiry = 1 \<rparr>"

definition ex_oppLow1 :: arbitrageOpportunity where
  "ex_oppLow1 = \<lparr> o_market = ex_botMarket\<lparr> m_polymarketPrice := roundDouble 0.03 \<rparr>,
      o_currentPrice = 100000, o_volatility = ex_botVolatility,
      o_polymarketProb = roundDouble 0.03,
      o_zscoreProb = \<lparr> e_method = Zscore, e_probability = roundDouble 0.15,
                       e_volatilityUsed = roundDouble 0.55, e_timeToExpiry = roundDouble 0.0821,
                       e_zScore = None, e_delta = None \<rparr>,
      o_deribitProb = None,
      o_edgeVsZscore = roundDouble (roundDouble 0.03 - roundDouble 0.15),
      o_edgeVsDeribit = None, o_signal = Buy, o_confidence = High \<rparr>"

definition ex_oppLow2 :: arbitrageOpportunity where
  "ex_oppLow2 = \<lparr> o_market = ex_botMarket\<lparr> m_polymarketPrice := roundDouble 0.07 \<rparr>,
      o_currentPrice = 100000, o_volatility = ex_botVolatility,
      o_polymarketProb = roundDouble 0.07,
      o_zscoreProb = \<lparr> e_method = Zscore, e_probability = roundDouble 0.08,
                       e_volatilityUsed = roundDouble 0.55, e_timeToExpiry = roundDouble 0.0821,
                       e_zScore = None, e_delta = None \<rparr>,
      o_deribitProb = None,
      o_edgeVsZscore = roundDouble (roundDouble 0.07 - roundDouble 0.08),
      o_edgeVsDeribit = None, o_signal = Neutral, o_confidence = Low \<rparr>"

definition ex_runLow :: "(environment \<times> arbitrageOpportunity list) list" where
  "ex_runLow = [(ex_env, [ex_oppLow1]), (ex_env2, [ex_oppLow2])]"

text \<open>
  Markets in double arithmetic. The options feed quotes one strike at an implied volatility
  of 0.55. Bitcoin trades at 100000: one market has its target at the spot price a year ahead,
  the two others have their target at 25000 and expire after a hundredth of a year, one
  asking for a price above the target and one for a price below it. The clock reads
  1750000000000; a year has 31557600000 milliseconds. In the second list a market has an
  Invalid Date as its expiry.
\<close>

definition ex_iv :: real where
  "ex_iv = roundDouble 0.55"

definition ex_deribit_fl :: "string \<rightharpoonup> deribitOptionsData" where
  "ex_deribit_fl = [''BTC'' \<mapsto> \<lparr> d_atmIv = ex_iv, d_ivByStrike =
       [(100000, \<lparr> k_callIv = ex_iv, k_putIv = ex_iv,
                    k_callDelta = 0.5, k_putDelta = -0.5 \<rparr>)] \<rparr>]"

definition ex_btcAtSpot :: cryptoMarket where
  "ex_btcAtSpot = \<lparr> m_id = ''0xb1'', m_question = ''Will Bitcoin be above $100,000 on June 15, 2026?'',
      m_crypto = ''BTC'', m_targetPrice = 100000, m_expiryDate = 1781557600000,
      m_betType = Binary, m_direction = Above, m_polymarketPrice = roundDouble 0.9,
      m_volume = None \<rparr>"

definition ex_btcDeepAbove :: cryptoMarket where
  "ex_btcDeepAbove = \<lparr> m_id = ''0xb4'', m_question = ''Will Bitcoin be above $25,000 on June 19, 2025?'',
      m_crypto = ''BTC'', m_targetPrice = 25000, m_expiryDate = 1750315576000,
      m_betType = Binary, m_direction = Above, m_polymarketPrice = roundDouble 0.9,
      m_volume = None \<rparr>"

definition ex_btcDeepBelow :: cryptoMarket where
  "ex_btcDeepBelow = \<lparr> m_id = ''0xb5'', m_question = ''Will Bitcoin be below $25,000 on June 19, 2025?'',
      m_crypto = ''BTC'', m_targetPrice = 25000, m_expiryDate = 1750315576000,
      m_betType = Binary, m_direction = Below, m_polymarketPrice = roundDouble 0.1,
      m_volume = None \<rparr>"

definition ex_fetched :: "fetchedMarket list" where
  "ex_fetched =
     [\<lparr> f_market = ex_btcAtSpot, f_expiryDate = ValidDate 1781557600000 \<rparr>,
      \<lparr> f_market = ex_btcDeepAbove, f_expiryDate = ValidDate 1750315576000 \<rparr>,
      \<lparr> f_market = ex_btcDeepBelow, f_expiryDate = ValidDate 1750315576000 \<rparr>]"

definition ex_fetchedInvalid :: "fetchedMarket list" where
  "ex_fetchedInvalid =
     [\<lparr> f_market = ex_btcAtSpot, f_expiryDate = ValidDate 1781557600000 \<rparr>,
      \<lparr> f_market = ex_btcDeepAbove, f_expiryDate = InvalidDate \<rparr>]"

section \<open>Properties of the rounding\<close>

lemma pow2_powr: "pow2 e = 2 powr (of_int e)"
proof (cases "0 \<le> e")
  case True
  then show ?thesis by (simp add: pow2_def powr_realpow[symmetric])
next
  case False
  then have r: "real_of_int e = - real (nat (- e))" by simp
  have "2 powr (of_int e) = 1 / 2 powr (real (nat (- e)))"
    unfolding r by (simp add: powr_minus_divide)
  also have "\<dots> = 1 / 2 ^ nat (- e)" by (simp add: powr_realpow)
  finally show ?thesis using False by (simp add: pow2_def)
qed

lemma pow2_pos: "0 < pow2 e"
  by (simp add: pow2_powr)

lemma pow2_add: "pow2 (a + b) = pow2 a * pow2 b"
  by (simp add: pow2_powr powr_add)

lemma pow2_less_iff: "pow2 a < pow2 b \<longleftrightarrow> a < b"
  by (simp add: pow2_powr)

lemma binade_bounds:
  assumes "x \<noteq> 0"
  shows "pow2 (binade x) \<le> \<bar>x\<bar>" and "\<bar>x\<bar> < pow2 (binade x + 1)"
proof -
  have p: "0 < \<bar>x\<bar>" using assms by simp
  have e: "2 powr (log 2 \<bar>x\<bar>) = \<bar>x\<bar>" using p by simp
  have "of_int (binade x) \<le> log 2 \<bar>x\<bar>" using assms by (simp add: binade_def)
  then have "2 powr (of_int (binade x)) \<le> 2 powr (log 2 \<bar>x\<bar>)" by simp
  then show "pow2 (binade x) \<le> \<bar>x\<bar>" unfolding pow2_powr e .
  have "log 2 \<bar>x\<bar> < of_int (binade x + 1)" using assms unfolding binade_def by simp
  then have "2 powr (log 2 \<bar>x\<bar>) < 2 powr (of_int (binade x + 1))" by simp
  then show "\<bar>x\<bar> < pow2 (binade x + 1)" unfolding pow2_powr e .
qed

lemma binade_unique:
  assumes "pow2 e \<le> \<bar>x\<bar>" and "\<bar>x\<bar> < pow2 (e + 1)"
  shows "binade x = e"
proof -
  have nz: "x \<noteq> 0" using assms(1) pow2_pos[of e] by auto
  have "pow2 e < pow2 (binade x + 1)"
    using assms(1) binade_bounds(2)[OF nz] by linarith
  then have a: "e < binade x + 1" by (simp add: pow2_less_iff)
  have "pow2 (binade x) < pow2 (e + 1)"
    using assms(2) binade_bounds(1)[OF nz] by linarith
  then have "binade x < e + 1" by (simp add: pow2_less_iff)
  then show ?thesis using a by simp
qed

lemma pow2_succ: "pow2 (e + 1) = 2 * pow2 e"
  using pow2_add[of e 1] by (simp add: pow2_def)

lemma binade_code [code]:
  "binade x = (if x = 0 then 0
               else if 2 \<le> \<bar>x\<bar> then binade (x / 2) + 1
               else if \<bar>x\<bar> < 1 then binade (x * 2) - 1
               else 0)"
proof -
  have z: "binade 0 = 0" by (simp add: binade_def)
  have one: "pow2 0 = 1" by (simp add: pow2_def)
  {
    assume nz: "x \<noteq> 0" and big: "2 \<le> \<bar>x\<bar>"
    have h: "x / 2 \<noteq> 0" using nz by simp
    have "pow2 (binade (x / 2) + 1) \<le> \<bar>x\<bar>"
      using binade_bounds(1)[OF h] unfolding pow2_succ by simp
    moreover have "\<bar>x\<bar> < pow2 ((binade (x / 2) + 1) + 1)"
      using binade_bounds(2)[OF h] unfolding pow2_succ by simp
    ultimately have "binade x = binade (x / 2) + 1" by (rule binade_unique)
  }
  moreover
  {
    assume nz: "x \<noteq> 0" and small: "\<bar>x\<bar> < 1"
    have h: "x * 2 \<noteq> 0" using nz by simp
    have a: "pow2 (binade (x * 2)) = 2 * pow2 (binade (x * 2) - 1)"
      using pow2_succ[of "binade (x * 2) - 1"] by simp
    have "pow2 (binade (x * 2) - 1) \<le> \<bar>x\<bar>"
      using binade_bounds(1)[OF h] unfolding a by (simp add: abs_mult)
    moreover have "\<bar>x\<bar> < pow2 ((binade (x * 2) - 1) + 1)"
      using binade_bounds(2)[OF h] unfolding pow2_succ a by (simp add: abs_mult)
    ultimately have "binade x = binade (x * 2) - 1" by (rule binade_unique)
  }
  moreover
  {
    assume "\<not> 2 \<le> \<bar>x\<bar>" and "\<not> \<bar>x\<bar> < 1"
    then have "pow2 0 \<le> \<bar>x\<bar>" and "\<bar>x\<bar> < pow2 (0 + 1)" unfolding pow2_succ by (simp_all add: one)
    then have "binade x = 0" by (rule binade_unique)
  }
  ultimately show ?thesis using z by auto
qed

lemma roundHalfEven_up:
  assumes "0 < w" and "w \<le> 1 / 2" and "odd n"
  shows "roundHalfEven (of_int n + 1 - w) = n + 1"
proof -
  have f: "\<lfloor>of_int n + 1 - w\<rfloor> = n" using assms(1,2) by (simp add: floor_eq_iff)
  show ?thesis using assms by (simp add: roundHalfEven_def Let_def f)
qed

lemma roundHalfEven_err: "\<bar>of_int (roundHalfEven y) - y\<bar> \<le> 1 / 2"
proof -
  have "of_int \<lfloor>y\<rfloor> \<le> y" and "y < of_int \<lfloor>y\<rfloor> + 1" by linarith+
  then show ?thesis by (auto simp add: roundHalfEven_def Let_def)
qed

lemma roundDouble_err: "\<bar>roundDouble x - x\<bar> \<le> \<bar>x\<bar> / 2 ^ 53"
proof (cases "x = 0")
  case True
  then show ?thesis by (simp add: roundDouble_def)
next
  case False
  define q where "q = pow2 (binade x - 52)"
  have qpos: "0 < q" by (simp add: q_def pow2_pos)
  have q52: "q * 2 ^ 52 = pow2 (binade x)"
    using pow2_add[of "binade x - 52" 52] by (simp add: q_def pow2_def)
  have r: "roundDouble x = of_int (roundHalfEven (x / q)) * q"
    using False by (simp add: roundDouble_def Let_def q_def)
  have "roundDouble x - x = (of_int (roundHalfEven (x / q)) - x / q) * q"
    using qpos by (simp add: r left_diff_distrib)
  then have "\<bar>roundDouble x - x\<bar> = \<bar>of_int (roundHalfEven (x / q)) - x / q\<bar> * q"
    using qpos by (simp add: abs_mult)
  also have "\<dots> \<le> (1 / 2) * q"
    using roundHalfEven_err[of "x / q"] qpos by (intro mult_right_mono) simp_all
  also have "\<dots> = pow2 (binade x) / 2 ^ 53" using q52 by simp
  also have "\<dots> \<le> \<bar>x\<bar> / 2 ^ 53"
    using binade_bounds(1)[OF False] by (simp add: divide_right_mono)
  finally show ?thesis .
qed

lemma roundDouble_below_one:
  assumes "0 \<le> z" and "z \<le> 1 / 2 ^ 54"
  shows "roundDouble (1 - z) = 1"
proof (cases "z = 0")
  case True
  have "binade 1 = 0" by code_simp
  then show ?thesis using True by (simp add: roundDouble_def Let_def pow2_def roundHalfEven_def)
next
  case False
  define x where "x = 1 - z"
  have zs: "z \<le> 1 / 2" using assms(2) by (rule order_trans) simp
  have xr: "1 / 2 \<le> x" "x < 1" using assms(1) False zs by (simp_all add: x_def)
  have b: "binade x = -1"
    by (rule binade_unique) (use xr in \<open>simp_all add: pow2_def\<close>)
  have q: "pow2 (binade x - 52) = 1 / 2 ^ 53" by (simp add: b pow2_def)
  define n :: int where "n = 2 ^ 53 - 1"
  define w where "w = z * 2 ^ 53"
  have y: "x / (1 / 2 ^ 53) = of_int n + 1 - w" by (simp add: x_def n_def w_def algebra_simps)
  have zl: "0 < w" "w \<le> 1 / 2" using assms False by (simp_all add: w_def)
  have "odd n" by (simp add: n_def)
  then have "roundHalfEven (of_int n + 1 - w) = n + 1" using zl by (intro roundHalfEven_up)
  then have "real_of_int (roundHalfEven (x / (1 / 2 ^ 53))) = 2 ^ 53" unfolding y by (simp add: n_def)
  then have "roundDouble x = 1"
    using xr unfolding roundDouble_def Let_def q by simp
  then show ?thesis by (simp add: x_def)
qed

lemma roundDouble_at:
  assumes "pow2 e \<le> \<bar>x\<bar>" and "\<bar>x\<bar> < pow2 (e + 1)"
  shows "roundDouble x = of_int (roundHalfEven (x / pow2 (e - 52))) * pow2 (e - 52)"
proof -
  have nz: "x \<noteq> 0" using assms(1) pow2_pos[of e] by auto
  have "binade x = e" using assms by (rule binade_unique)
  then show ?thesis using nz by (simp add: roundDouble_def Let_def)
qed

lemma roundDouble_small_integers:
  "roundDouble 0 = 0" "roundDouble 1 = 1" "roundDouble 2 = 2" "roundDouble 4 = 4"
proof -
  show "roundDouble 0 = 0" by (simp add: roundDouble_def)
  show "roundDouble 1 = 1"
    by (subst roundDouble_at[of 0]) (simp_all add: pow2_def roundHalfEven_def Let_def)
  show "roundDouble 2 = 2"
    by (subst roundDouble_at[of 1]) (simp_all add: pow2_def roundHalfEven_def Let_def)
  show "roundDouble 4 = 4"
    by (subst roundDouble_at[of 2]) (simp_all add: pow2_def roundHalfEven_def Let_def)
qed

lemma roundDouble_rel: "\<bar>roundDouble x - x\<bar> \<le> \<bar>x\<bar> / 10 ^ 6"
proof -
  have "\<bar>x\<bar> / 2 ^ 53 \<le> \<bar>x\<bar> / 10 ^ 6" by (intro divide_left_mono) simp_all
  then show ?thesis using roundDouble_err[of x] by linarith
qed

lemma roundDouble_lower:
  assumes "a \<le> x" and "x \<le> b" and "lo \<le> a - max \<bar>a\<bar> \<bar>b\<bar> / 10 ^ 6"
  shows "lo \<le> roundDouble x"
proof -
  have xm: "\<bar>x\<bar> \<le> max \<bar>a\<bar> \<bar>b\<bar>" using assms(1,2) by linarith
  then have "\<bar>x\<bar> / 10 ^ 6 \<le> max \<bar>a\<bar> \<bar>b\<bar> / 10 ^ 6" by (simp add: divide_right_mono)
  then have "\<bar>roundDouble x - x\<bar> \<le> max \<bar>a\<bar> \<bar>b\<bar> / 10 ^ 6"
    using roundDouble_rel[of x] by linarith
  then show ?thesis using assms(1,3) by linarith
qed

lemma roundDouble_upper:
  assumes "a \<le> x" and "x \<le> b" and "b + max \<bar>a\<bar> \<bar>b\<bar> / 10 ^ 6 \<le> hi"
  shows "roundDouble x \<le> hi"
proof -
  have xm: "\<bar>x\<bar> \<le> max \<bar>a\<bar> \<bar>b\<bar>" using assms(1,2) by linarith
  then have "\<bar>x\<bar> / 10 ^ 6 \<le> max \<bar>a\<bar> \<bar>b\<bar> / 10 ^ 6" by (simp add: divide_right_mono)
  then have "\<bar>roundDouble x - x\<bar> \<le> max \<bar>a\<bar> \<bar>b\<bar> / 10 ^ 6"
    using roundDouble_rel[of x] by linarith
  then show ?thesis using assms(2,3) by linarith
qed

lemma roundDouble_sign: "(roundDouble x \<le> 0) = (x \<le> 0)"
proof -
  have h: "\<bar>x\<bar> / 10 ^ 6 \<le> \<bar>x\<bar> / 2" by (intro divide_left_mono) simp_all
  have e: "\<bar>roundDouble x - x\<bar> \<le> \<bar>x\<bar> / 2" using roundDouble_rel[of x] h by linarith
  show ?thesis
  proof (cases "x \<le> 0")
    case True
    have "roundDouble x \<le> 0" using e True by linarith
    then show ?thesis using True by simp
  next
    case False
    have "0 < roundDouble x" using e False by linarith
    then show ?thesis using False by simp
  qed
qed

lemma roundHalfEven_down:
  assumes "0 \<le> w" and "w < 1 / 2"
  shows "roundHalfEven (of_int n + w) = n"
proof -
  have f: "\<lfloor>of_int n + w\<rfloor> = n" using assms by (simp add: floor_eq_iff)
  show ?thesis using assms by (simp add: roundHalfEven_def Let_def f)
qed

lemma roundDouble_near_one:
  assumes "\<bar>z\<bar> \<le> 1 / 2 ^ 54"
  shows "roundDouble (1 - z) = 1"
proof (cases "0 \<le> z")
  case True
  then show ?thesis using assms by (intro roundDouble_below_one) simp_all
next
  case False
  define w where "w = - z * 2 ^ 52"
  define n :: int where "n = 2 ^ 52"
  have wl: "0 \<le> w" "w < 1 / 2" using False assms by (simp_all add: w_def)
  have b: "binade (1 - z) = 0"
    by (rule binade_unique) (use False assms in \<open>simp_all add: pow2_def\<close>)
  have q: "pow2 (binade (1 - z) - 52) = 1 / 2 ^ 52" by (simp add: b pow2_def)
  have y: "(1 - z) / (1 / 2 ^ 52) = of_int n + w" by (simp add: w_def n_def algebra_simps)
  have "roundHalfEven (of_int n + w) = n" using wl by (rule roundHalfEven_down)
  then have "real_of_int (roundHalfEven ((1 - z) / (1 / 2 ^ 52))) = 2 ^ 52"
    unfolding y by (simp add: n_def)
  then show ?thesis
    using False unfolding roundDouble_def Let_def q by simp
qed

lemma mult_bounds_pp:
  fixes x y :: real
  assumes "0 \<le> a" "a \<le> x" "x \<le> b" "0 \<le> c" "c \<le> y" "y \<le> d"
  shows "a * c \<le> x * y" and "x * y \<le> b * d"
  using assms by (auto intro!: mult_mono)

lemma mult_bounds_np:
  fixes x y :: real
  assumes "a \<le> x" "x \<le> b" "b \<le> 0" "0 \<le> c" "c \<le> y" "y \<le> d"
  shows "a * d \<le> x * y" and "x * y \<le> b * c"
proof -
  have "(- x) * y \<le> (- a) * d" using assms by (intro mult_mono) auto
  then show "a * d \<le> x * y" by simp
  have "(- b) * c \<le> (- x) * y" using assms by (intro mult_mono) auto
  then show "x * y \<le> b * c" by simp
qed

lemma mult_bounds_abs:
  fixes x y :: real
  assumes "\<bar>x\<bar> \<le> bx" and "\<bar>y\<bar> \<le> by"
  shows "- (bx * by) \<le> x * y" and "x * y \<le> bx * by"
proof -
  have "\<bar>x * y\<bar> \<le> bx * by"
    unfolding abs_mult using assms by (intro mult_mono) auto
  then show "- (bx * by) \<le> x * y" and "x * y \<le> bx * by" by linarith+
qed

lemma div_lower:
  fixes x y :: real
  assumes "a \<le> x" and "0 < c" and "c \<le> y" and "y \<le> d" and "0 \<le> lo" and "lo * d \<le> a"
  shows "lo \<le> x / y"
proof -
  have y: "0 < y" using assms by linarith
  have "lo * y \<le> lo * d" using assms by (intro mult_left_mono) auto
  then have "lo * y \<le> x" using assms by linarith
  then show ?thesis using y by (simp add: pos_le_divide_eq)
qed

lemma div_upper:
  fixes x y :: real
  assumes "x \<le> b" and "0 < c" and "c \<le> y" and "0 \<le> hi" and "b \<le> hi * c"
  shows "x / y \<le> hi"
proof -
  have y: "0 < y" using assms by linarith
  have "hi * c \<le> hi * y" using assms by (intro mult_left_mono) auto
  then have "x \<le> hi * y" using assms by linarith
  then show ?thesis using y by (simp add: pos_divide_le_eq)
qed

lemma sqrt_lower:
  assumes "0 \<le> lo" and "lo * lo \<le> x"
  shows "lo \<le> sqrt x"
  using assms by (intro real_le_rsqrt) (simp add: power2_eq_square)

lemma sqrt_upper:
  assumes "0 \<le> hi" and "x \<le> hi * hi"
  shows "sqrt x \<le> hi"
  using assms by (intro real_le_lsqrt) (simp_all add: power2_eq_square)

lemma exp_le_pow2:
  fixes z :: real
  assumes "z \<le> - real k"
  shows "exp z \<le> 1 / 2 ^ k"
proof -
  have "(2::real) \<le> exp 1" using exp_ge_add_one_self[of "1::real"] by simp
  then have "(2::real) ^ k \<le> exp 1 ^ k" by (intro power_mono) simp_all
  also have "\<dots> = exp (real k)" by (simp add: exp_of_nat_mult[symmetric])
  finally have "1 / exp (real k) \<le> 1 / 2 ^ k" by (intro divide_left_mono) simp_all
  moreover have "exp z \<le> exp (- real k)" using assms by simp
  ultimately show ?thesis by (simp add: exp_minus inverse_eq_divide)
qed

lemma exp_bounds_nonpos:
  fixes z :: real
  assumes "zl \<le> z" and "z \<le> 0"
  shows "1 + zl \<le> exp z" and "exp z \<le> 1"
proof -
  have "1 + z \<le> exp z" by (rule exp_ge_add_one_self)
  then show "1 + zl \<le> exp z" using assms(1) by linarith
  show "exp z \<le> 1" using assms(2) by simp
qed

lemma ln_4_bounds: "1 \<le> ln (4::real)" "ln (4::real) \<le> 3"
proof -
  have "exp 1 \<le> (4::real)" using exp_le by simp
  then show "1 \<le> ln (4::real)" by (simp add: ln_ge_iff)
  show "ln (4::real) \<le> 3" using ln_le_minus_one[of "4::real"] by simp
qed

section \<open>Properties of the probability engine\<close>

lemma quadratic_pos:
  fixes a b c t :: real
  assumes "0 < a" and "b * b < 4 * a * c"
  shows "0 < a * t * t + b * t + c"
proof -
  have eq: "4 * a * (a * t * t + b * t + c) = (2 * a * t + b)\<^sup>2 + (4 * a * c - b * b)"
    by (simp add: power2_eq_square algebra_simps)
  have "0 < (2 * a * t + b)\<^sup>2 + (4 * a * c - b * b)"
    using assms(2) by (simp add: add_nonneg_pos)
  then have "0 < 4 * a * (a * t * t + b * t + c)"
    using eq by simp
  then show ?thesis
    using assms(1) by (simp add: zero_less_mult_iff)
qed

lemma cdfPoly_expand:
  "cdfPoly t = t * (0.254829592 + (-0.284496736) * t
                 + t * t * (1.061405429 * t * t + (-1.453152027) * t + 1.421413741))"
  by (simp add: cdfPoly_def algebra_simps)

lemma cdfPoly_pos:
  assumes "0 < t"
  shows "0 < cdfPoly t"
proof -
  have q: "0 < 1.061405429 * t * t + (-1.453152027) * t + (1.421413741 - 0.9)"
    by (rule quadratic_pos) simp_all
  have "0 \<le> t * t * (1.061405429 * t * t + (-1.453152027) * t + (1.421413741 - 0.9))"
    using q by (simp add: zero_le_mult_iff)
  then have ge: "0.9 * t * t \<le> t * t * (1.061405429 * t * t + (-1.453152027) * t + 1.421413741)"
    by (simp add: algebra_simps)
  have r: "0 < 0.9 * t * t + (-0.284496736) * t + 0.254829592"
    by (rule quadratic_pos) simp_all
  have "0 < 0.254829592 + (-0.284496736) * t
                 + t * t * (1.061405429 * t * t + (-1.453152027) * t + 1.421413741)"
    using ge r by linarith
  then show ?thesis
    unfolding cdfPoly_expand using assms by (simp add: zero_less_mult_iff)
qed

lemma cdfPoly_le:
  assumes "0 \<le> t" and "t \<le> 1"
  shows "cdfPoly t \<le> 0.999999999 * t"
proof -
  define H where "H = 0.745170407 + 1.029667143 * t + (-0.391746598) * (t * t) + 1.061405429 * (t * t * t)"
  have eq: "0.999999999 * t - cdfPoly t = t * ((1 - t) * H)"
    unfolding cdfPoly_def H_def by algebra
  have tt: "t * t \<le> t" using assms by (simp add: mult_left_le)
  have "0 \<le> 1.061405429 * (t * t * t)" using assms by simp
  then have "0 \<le> H" unfolding H_def using tt assms(1) by simp
  then have "0 \<le> t * ((1 - t) * H)" using assms by simp
  then show ?thesis using eq by simp
qed

lemma cdfPoly_upper:
  assumes "0 < t" and "t \<le> 1"
  shows "cdfPoly t < 1"
  using cdfPoly_le[of t] assms by simp

lemma normalCDF_bounds: "0 < normalCDF x \<and> normalCDF x < 1"
proof -
  define u where "u = \<bar>x\<bar> / sqrt 2"
  define t where "t = 1.0 / (1.0 + 0.3275911 * u)"
  define E where "E = exp (- u * u)"
  have u0: "0 \<le> u" by (simp add: u_def)
  have den: "1 \<le> 1.0 + 0.3275911 * u" using u0 by simp
  have t0: "0 < t" using den by (simp add: t_def)
  have t1: "t \<le> 1" using den by (simp add: t_def)
  have E0: "0 < E" by (simp add: E_def)
  have E1: "E \<le> 1" using u0 by (simp add: E_def)
  have p0: "0 < cdfPoly t * E" using cdfPoly_pos[OF t0] E0 by simp
  have "cdfPoly t * E \<le> cdfPoly t * 1"
    using E1 cdfPoly_pos[OF t0] by (intro mult_left_mono) simp_all
  then have p2: "cdfPoly t * E < 1" using cdfPoly_upper[OF t0 t1] by simp
  have eq: "normalCDF x = 0.5 * (1.0 + (if x < 0 then -1 else 1) * (1.0 - cdfPoly t * E))"
    unfolding normalCDF_def Let_def u_def t_def E_def ..
  show ?thesis
    unfolding eq using p0 p2 by auto
qed

lemma normalCDF_nonneg:
  assumes "0 \<le> x"
  shows "normalCDF x = 1 - 0.5 * (cdfPoly (1 / (1 + 0.3275911 * (x / sqrt 2))) * exp (- ((x * x) / 2)))"
proof -
  have "(x / sqrt 2) * (x / sqrt 2) = (x * x) / 2" by simp
  then have e: "- (x / sqrt 2) * (x / sqrt 2) = - ((x * x) / 2)" by simp
  show ?thesis using assms unfolding normalCDF_def Let_def e by simp
qed

lemma normalCDF_ge_half:
  assumes "0 \<le> x"
  shows "0.5000000005 \<le> normalCDF x"
proof -
  define t where "t = 1 / (1 + 0.3275911 * (x / sqrt 2))"
  define E where "E = exp (- ((x * x) / 2))"
  have den: "1 \<le> 1 + 0.3275911 * (x / sqrt 2)" using assms by simp
  have t0: "0 < t" and t1: "t \<le> 1" using den by (simp_all add: t_def)
  have E0: "0 < E" and E1: "E \<le> 1" using assms by (simp_all add: E_def)
  have "cdfPoly t \<le> 0.999999999 * t" using cdfPoly_le[of t] t0 t1 by simp
  then have c: "cdfPoly t \<le> 0.999999999" using t1 by simp
  have "cdfPoly t * E \<le> 0.999999999 * 1"
    using c E0 E1 cdfPoly_pos[OF t0] by (intro mult_mono) simp_all
  then have "cdfPoly t * E \<le> 0.999999999" by simp
  moreover define P where "P = cdfPoly t * E"
  ultimately have "P \<le> 0.999999999" by simp
  then have "0.5000000005 \<le> 1 - 0.5 * P" by simp
  then show ?thesis
    unfolding normalCDF_nonneg[OF assms] t_def[symmetric] E_def[symmetric] P_def .
qed

lemma normalCDF_zero: "normalCDF 0 = 0.5000000005"
  by (simp add: normalCDF_def cdfPoly_def)

lemma normalCDF_lower:
  assumes "0 \<le> x"
  shows "1 - 0.5 * ((1 / (1 + 0.3275911 * (x / 1.5))) * (1 / (1 + (x * x) / 2))) \<le> normalCDF x"
proof -
  define t where "t = 1 / (1 + 0.3275911 * (x / sqrt 2))"
  define E where "E = exp (- ((x * x) / 2))"
  define t' where "t' = 1 / (1 + 0.3275911 * (x / 1.5))"
  define E' where "E' = 1 / (1 + (x * x) / 2)"
  have s2: "sqrt 2 \<le> 1.5" by (rule real_le_lsqrt) (simp_all add: power2_eq_square)
  have s0: "0 < sqrt 2" by simp
  have "x / 1.5 \<le> x / sqrt 2"
    using assms s2 s0 by (intro divide_left_mono) simp_all
  then have d: "1 + 0.3275911 * (x / 1.5) \<le> 1 + 0.3275911 * (x / sqrt 2)" by simp
  have d0: "0 < 1 + 0.3275911 * (x / 1.5)" using assms by (simp add: add_pos_nonneg)
  have tt: "t \<le> t'" unfolding t_def t'_def using d d0 by (intro divide_left_mono) (simp_all add: add_pos_nonneg assms)
  have t0: "0 < t" unfolding t_def using assms by (simp add: add_pos_nonneg)
  have t1: "t \<le> 1" unfolding t_def using assms by (simp add: divide_le_eq_1 add_pos_nonneg)
  have y0: "0 \<le> (x * x) / 2" by simp
  have "1 + (x * x) / 2 \<le> exp ((x * x) / 2)" using exp_ge_add_one_self[of "(x * x) / 2"] by simp
  then have "1 / exp ((x * x) / 2) \<le> 1 / (1 + (x * x) / 2)"
    using y0 by (intro divide_left_mono) (simp_all add: add_pos_nonneg)
  then have EE: "E \<le> E'" unfolding E_def E'_def by (simp add: exp_minus inverse_eq_divide)
  have E0: "0 < E" by (simp add: E_def)
  have c: "cdfPoly t \<le> t" using cdfPoly_le[of t] t0 t1 by simp
  have "cdfPoly t * E \<le> t' * E'"
    using c tt EE E0 t0 cdfPoly_pos[OF t0] by (intro mult_mono) simp_all
  then have "1 - 0.5 * (t' * E') \<le> 1 - 0.5 * (cdfPoly t * E)" by simp
  then show ?thesis
    unfolding normalCDF_nonneg[OF assms] t_def[symmetric] E_def[symmetric] t'_def E'_def .
qed

lemma calculateD1_nonneg:
  assumes "0 < K" and "K \<le> S" and "0 < iv" and "0 < T"
  shows "0 \<le> calculateD1 S K iv T"
proof -
  have "1 \<le> S / K" using assms by simp
  then have "0 \<le> ln (S / K)" by simp
  moreover have "0 \<le> (0 + 0.5 * iv * iv) * T" using assms by simp
  moreover have "0 < iv * sqrt T" using assms by simp
  ultimately show ?thesis
    using assms by (simp add: calculateD1_def Let_def)
qed

lemma zscore_at_the_money:
  assumes "0 < S" and "0 < vol"
  shows "e_probability (calculateZScoreProbability S S vol 1) = 0.4999999995"
  using assms by (simp add: calculateZScoreProbability_def calculateZScore_def Let_def normalCDF_zero)

section \<open>Properties of the opportunity pipeline\<close>

lemma insertBy_insort_key:
  "insertBy (\<lambda>a b. f b - f a) x ys = insort_key (\<lambda>a. - f a) x ys"
  by (induction ys) simp_all

lemma sortBy_sort_key: "sortBy (\<lambda>a b. f b - f a) xs = sort_key (\<lambda>a. - f a) xs"
  by (induction xs) (simp_all add: sortBy_def sort_key_def insertBy_insort_key)

lemma compareOpportunities_key:
  "compareOpportunities = (\<lambda>a b. \<bar>primaryEdge b\<bar> - \<bar>primaryEdge a\<bar>)"
  by (simp add: compareOpportunities_def fun_eq_iff)

lemma sortBy_sorted: "sorted_wrt (\<lambda>a b. f b \<le> f a) (sortBy (\<lambda>a b. f b - f a) xs)"
proof -
  have "sorted (map (\<lambda>a. - f a) (sort_key (\<lambda>a. - f a) xs))" by (rule sorted_sort_key)
  then show ?thesis
    unfolding sortBy_sort_key by (simp add: sorted_map)
qed

lemma ex_T: "timeToExpiryYears ex_expiry ex_now = 1"
  by (simp add: timeToExpiryYears_def ex_expiry_def ex_now_def)

lemma deribitProbOf_Some:
  assumes "deribitData (m_crypto market) = Some deribit"
    and "m_crypto market \<in> set DERIBIT_SUPPORTED"
    and "fc_iv (findClosestStrikeIV deribit (m_targetPrice market) (m_expiryDate market)) = iv"
    and "0 < iv"
    and "deribitProbability market S iv T = P"
    and "0 < P" and "P < 1"
  shows "deribitProbOf deribitData market S T
     = Some \<lparr> e_method = DeribitDelta, e_probability = P, e_volatilityUsed = iv,
              e_timeToExpiry = T, e_zScore = None,
              e_delta = Some (if m_targetPrice market > S
                              then calculateCallDelta S (m_targetPrice market) iv T
                              else 1 - calculateCallDelta S (m_targetPrice market) iv T) \<rparr>"
  using assms by (simp add: deribitProbOf_def effectiveTarget_def Let_def)

lemma deribitProbability_touch:
  assumes "m_betType market = OneTouch"
  shows "deribitProbability market S iv T
     = min 1 (2 * (if m_targetPrice market > S
                   then calculateCallDelta S (m_targetPrice market) iv T
                   else 1 - calculateCallDelta S (m_targetPrice market) iv T))"
  using assms by (simp add: deribitProbability_def effectiveTarget_def Let_def)

lemma deribitProbability_binary:
  assumes "m_betType market = Binary"
  shows "deribitProbability market S iv T
     = (if m_direction market = Above
        then calculateCallDelta S (m_targetPrice market) iv T
        else 1 - calculateCallDelta S (m_targetPrice market) iv T)"
  using assms by (simp add: deribitProbability_def effectiveTarget_def Let_def)

lemma ex_deribit_BTC:
  "ex_deribit ''BTC'' = Some \<lparr> d_atmIv = 0.55, d_ivByStrike =
       [(100000, \<lparr> k_callIv = 0.55, k_putIv = 0.55, k_callDelta = 0.6, k_putDelta = -0.4 \<rparr>)] \<rparr>"
  by (simp add: ex_deribit_def)

lemma ex_strikeIv:
  "fc_iv (findClosestStrikeIV \<lparr> d_atmIv = 0.55, d_ivByStrike =
       [(100000, \<lparr> k_callIv = 0.55, k_putIv = 0.55, k_callDelta = 0.6, k_putDelta = -0.4 \<rparr>)] \<rparr> K e) = 0.55"
  by (simp add: findClosestStrikeIV_def orElse_def Let_def)

lemma touchDown_estimate:
  "deribitProbOf ex_deribit ex_btcTouchDown 100000 1
     = Some \<lparr> e_method = DeribitDelta,
              e_probability = 2 * (1 - calculateCallDelta 100000 80000 0.55 1),
              e_volatilityUsed = 0.55, e_timeToExpiry = 1, e_zScore = None,
              e_delta = Some (1 - calculateCallDelta 100000 80000 0.55 1) \<rparr>"
proof -
  define cd where "cd = calculateCallDelta 100000 80000 0.55 1"
  have d1: "0 \<le> calculateD1 100000 80000 0.55 1"
    by (rule calculateD1_nonneg) simp_all
  have lo: "0.5000000005 \<le> cd"
    unfolding cd_def calculateCallDelta_def by (rule normalCDF_ge_half[OF d1])
  have hi: "cd < 1"
    unfolding cd_def calculateCallDelta_def using normalCDF_bounds by simp
  have tp: "m_targetPrice ex_btcTouchDown = 80000" and bt: "m_betType ex_btcTouchDown = OneTouch"
    by (simp_all add: ex_btcTouchDown_def)
  have m: "min 1 (2 * (1 - cd)) = 2 * (1 - cd)" using lo by simp
  have "deribitProbability ex_btcTouchDown 100000 0.55 1 = min 1 (2 * (1 - cd))"
    unfolding deribitProbability_touch[OF bt] tp cd_def by simp
  then have P: "deribitProbability ex_btcTouchDown 100000 0.55 1 = 2 * (1 - cd)"
    unfolding m .
  have "deribitProbOf ex_deribit ex_btcTouchDown 100000 1
     = Some \<lparr> e_method = DeribitDelta, e_probability = 2 * (1 - cd), e_volatilityUsed = 0.55,
              e_timeToExpiry = 1, e_zScore = None,
              e_delta = Some (if m_targetPrice ex_btcTouchDown > 100000
                              then calculateCallDelta 100000 (m_targetPrice ex_btcTouchDown) 0.55 1
                              else 1 - calculateCallDelta 100000 (m_targetPrice ex_btcTouchDown) 0.55 1) \<rparr>"
  proof (rule deribitProbOf_Some)
    show "ex_deribit (m_crypto ex_btcTouchDown) = Some \<lparr> d_atmIv = 0.55, d_ivByStrike =
       [(100000, \<lparr> k_callIv = 0.55, k_putIv = 0.55, k_callDelta = 0.6, k_putDelta = -0.4 \<rparr>)] \<rparr>"
      by (simp add: ex_btcTouchDown_def ex_deribit_BTC)
    show "m_crypto ex_btcTouchDown \<in> set DERIBIT_SUPPORTED"
      by (simp add: ex_btcTouchDown_def DERIBIT_SUPPORTED_def)
    show "fc_iv (findClosestStrikeIV \<lparr> d_atmIv = 0.55, d_ivByStrike =
       [(100000, \<lparr> k_callIv = 0.55, k_putIv = 0.55, k_callDelta = 0.6, k_putDelta = -0.4 \<rparr>)] \<rparr>
          (m_targetPrice ex_btcTouchDown) (m_expiryDate ex_btcTouchDown)) = 0.55"
      by (rule ex_strikeIv)
    show "(0::real) < 0.55" by simp
    show "deribitProbability ex_btcTouchDown 100000 0.55 1 = 2 * (1 - cd)" by (rule P)
    show "0 < 2 * (1 - cd)" using hi by simp
    show "2 * (1 - cd) < 1" using lo by simp
  qed
  then show ?thesis
    unfolding cd_def by (simp add: ex_btcTouchDown_def)
qed

lemma calculateEdge_edge: "r_edge (calculateEdge p q) = p - q"
  by (simp add: calculateEdge_def Let_def)

lemma processMarket_Some:
  assumes "prices (m_crypto market) = Some S" and "0 < S"
    and "timeToExpiryYears (m_expiryDate market) now = T" and "0 < T"
  shows "\<exists>opp. processMarket prices deribitData now market = Some opp
           \<and> o_market opp = market \<and> o_currentPrice opp = S
           \<and> o_zscoreProb opp
               = zscoreProbOf market S (v_volatility (getVolatilityData (m_crypto market) deribitData)) T
           \<and> o_deribitProb opp = deribitProbOf deribitData market S T
           \<and> o_edgeVsZscore opp = m_polymarketPrice market - e_probability (o_zscoreProb opp)
           \<and> o_edgeVsDeribit opp
               = map_option (\<lambda>d. m_polymarketPrice market - e_probability d) (o_deribitProb opp)"
  using assms
  by (simp add: processMarket_def Let_def calculateEdge_edge option.map_comp comp_def)

lemma ex_callDelta_binary:
  "0.54 \<le> calculateCallDelta 100000 100000 0.55 1 \<and> calculateCallDelta 100000 100000 0.55 1 < 1"
proof -
  have d: "calculateD1 100000 100000 0.55 1 = 0.275"
    by (simp add: calculateD1_def Let_def)
  have "1 - 0.5 * ((1 / (1 + 0.3275911 * (0.275 / 1.5))) * (1 / (1 + (0.275 * 0.275) / 2)))
          \<le> normalCDF 0.275"
    by (rule normalCDF_lower) simp
  moreover have "(0.54::real) \<le> 1 - 0.5 * ((1 / (1 + 0.3275911 * (0.275 / 1.5))) * (1 / (1 + (0.275 * 0.275) / 2)))"
    by simp
  ultimately have "0.54 \<le> normalCDF 0.275" by (rule order_trans[rotated])
  then show ?thesis
    unfolding calculateCallDelta_def d using normalCDF_bounds[of "0.275"] by simp
qed

lemma ex_vol_BTC: "v_volatility (getVolatilityData ''BTC'' ex_deribit) = 0.55"
  by (simp add: getVolatilityData_def ex_deribit_def Let_def)

lemma ex_vol_SOL: "v_volatility (getVolatilityData ''SOL'' ex_deribit) = 0.85"
  by (simp add: getVolatilityData_def ex_deribit_def DEFAULT_VOLATILITY_def orElse_def Let_def)

lemma ex_btcBinary_estimate:
  "deribitProbOf ex_deribit ex_btcBinary 100000 1
     = Some \<lparr> e_method = DeribitDelta,
              e_probability = calculateCallDelta 100000 100000 0.55 1,
              e_volatilityUsed = 0.55, e_timeToExpiry = 1, e_zScore = None,
              e_delta = Some (1 - calculateCallDelta 100000 100000 0.55 1) \<rparr>"
proof -
  define cd where "cd = calculateCallDelta 100000 100000 0.55 1"
  have b: "0.54 \<le> cd" "cd < 1" using ex_callDelta_binary by (simp_all add: cd_def)
  have tp: "m_targetPrice ex_btcBinary = 100000" and bt: "m_betType ex_btcBinary = Binary"
    and dr: "m_direction ex_btcBinary = Above"
    by (simp_all add: ex_btcBinary_def)
  have P: "deribitProbability ex_btcBinary 100000 0.55 1 = cd"
    unfolding deribitProbability_binary[OF bt] tp dr cd_def by simp
  have "deribitProbOf ex_deribit ex_btcBinary 100000 1
     = Some \<lparr> e_method = DeribitDelta, e_probability = cd, e_volatilityUsed = 0.55,
              e_timeToExpiry = 1, e_zScore = None,
              e_delta = Some (if m_targetPrice ex_btcBinary > 100000
                              then calculateCallDelta 100000 (m_targetPrice ex_btcBinary) 0.55 1
                              else 1 - calculateCallDelta 100000 (m_targetPrice ex_btcBinary) 0.55 1) \<rparr>"
  proof (rule deribitProbOf_Some)
    show "ex_deribit (m_crypto ex_btcBinary) = Some \<lparr> d_atmIv = 0.55, d_ivByStrike =
       [(100000, \<lparr> k_callIv = 0.55, k_putIv = 0.55, k_callDelta = 0.6, k_putDelta = -0.4 \<rparr>)] \<rparr>"
      by (simp add: ex_btcBinary_def ex_deribit_BTC)
    show "m_crypto ex_btcBinary \<in> set DERIBIT_SUPPORTED"
      by (simp add: ex_btcBinary_def DERIBIT_SUPPORTED_def)
    show "fc_iv (findClosestStrikeIV \<lparr> d_atmIv = 0.55, d_ivByStrike =
       [(100000, \<lparr> k_callIv = 0.55, k_putIv = 0.55, k_callDelta = 0.6, k_putDelta = -0.4 \<rparr>)] \<rparr>
          (m_targetPrice ex_btcBinary) (m_expiryDate ex_btcBinary)) = 0.55"
      by (rule ex_strikeIv)
    show "(0::real) < 0.55" by simp
    show "deribitProbability ex_btcBinary 100000 0.55 1 = cd" by (rule P)
    show "0 < cd" using b by simp
    show "cd < 1" using b by simp
  qed
  then show ?thesis
    unfolding cd_def by (simp add: ex_btcBinary_def)
qed

lemma ex_process:
  assumes "m \<in> {ex_btcBinary, ex_solBinary, ex_btcTouchUp, ex_btcTouchDown}"
  shows "\<exists>opp. processMarket ex_prices ex_deribit ex_now m = Some opp
           \<and> o_market opp = m \<and> o_currentPrice opp = the (ex_prices (m_crypto m))
           \<and> o_zscoreProb opp
               = zscoreProbOf m (the (ex_prices (m_crypto m)))
                   (v_volatility (getVolatilityData (m_crypto m) ex_deribit)) 1
           \<and> o_deribitProb opp = deribitProbOf ex_deribit m (the (ex_prices (m_crypto m))) 1
           \<and> o_edgeVsZscore opp = m_polymarketPrice m - e_probability (o_zscoreProb opp)
           \<and> o_edgeVsDeribit opp
               = map_option (\<lambda>d. m_polymarketPrice m - e_probability d) (o_deribitProb opp)"
proof (rule processMarket_Some)
  show "ex_prices (m_crypto m) = Some (the (ex_prices (m_crypto m)))"
    using assms
    by (auto simp add: ex_prices_def ex_btcBinary_def ex_solBinary_def ex_btcTouchUp_def
          ex_btcTouchDown_def)
  show "0 < the (ex_prices (m_crypto m))"
    using assms
    by (auto simp add: ex_prices_def ex_btcBinary_def ex_solBinary_def ex_btcTouchUp_def
          ex_btcTouchDown_def)
  show "timeToExpiryYears (m_expiryDate m) ex_now = 1"
    using assms
    by (auto simp add: ex_T ex_btcBinary_def ex_solBinary_def ex_btcTouchUp_def
          ex_btcTouchDown_def)
  show "(0::real) < 1" by simp
qed

section \<open>Properties of the engine and the pipeline in double arithmetic\<close>

lemma insertBy_sign:
  assumes "\<forall>x y. (cmp x y \<le> 0) = (cmp' x y \<le> 0)"
  shows "insertBy cmp x ys = insertBy cmp' x ys"
  using assms by (induction ys) simp_all

lemma sortBy_sign:
  assumes "\<forall>x y. (cmp x y \<le> 0) = (cmp' x y \<le> 0)"
  shows "sortBy cmp xs = sortBy cmp' xs"
  by (induction xs) (simp_all add: sortBy_def insertBy_sign[OF assms])

lemma sortBy_compareOpportunities_fl:
  assumes "\<forall>x. (rnd ar x \<le> 0) = (x \<le> 0)"
  shows "sortBy (compareOpportunities_fl ar) xs = sortBy compareOpportunities xs"
  by (rule sortBy_sign) (simp add: compareOpportunities_fl_def compareOpportunities_def assms)

lemma collectItems_fl_valid:
  assumes "list_all (\<lambda>f. f_expiryDate f \<noteq> InvalidDate) fetched"
  shows "NotANumber \<notin> set (collectItems_fl ar prices deribitData clock i fetched)"
  using assms
proof (induction fetched arbitrary: i)
  case Nil
  show ?case by simp
next
  case (Cons f fetched)
  have "processFetchedMarket_fl ar prices deribitData (clock i) f \<noteq> NotANumber"
    using Cons.prems
    by (cases "f_expiryDate f")
       (auto simp add: processFetchedMarket_fl_def split: option.splits)
  then show ?case
    using Cons.IH[of "Suc i"] Cons.prems
    by (cases "processFetchedMarket_fl ar prices deribitData (clock i) f") auto
qed

lemma rankFetchedMarkets_fl_valid:
  assumes "list_all (\<lambda>f. f_expiryDate f \<noteq> InvalidDate) fetched"
  shows "rankFetchedMarkets_fl ar prices deribitData clock fetched
           = Some (sortBy (compareOpportunities_fl ar)
                     (computedOpportunities (collectItems_fl ar prices deribitData clock 0 fetched)))"
  using collectItems_fl_valid[OF assms, of ar prices deribitData clock 0]
  by (simp add: rankFetchedMarkets_fl_def Let_def)

lemma calculateEdge_fl_edge: "r_edge (calculateEdge_fl ar p q) = rnd ar (p - q)"
  by (simp add: calculateEdge_fl_def Let_def)

lemma processMarket_fl_fields:
  assumes "processMarket_fl ar prices deribitData now market = Some opp"
  shows "prices (m_crypto market) = Some (o_currentPrice opp)"
    and "0 < o_currentPrice opp"
    and "0 < timeToExpiryYears_fl ar (m_expiryDate market) now"
    and "o_market opp = market"
    and "o_zscoreProb opp
          = zscoreProbOf_fl ar market (o_currentPrice opp)
              (v_volatility (getVolatilityData_fl ar (m_crypto market) deribitData))
              (timeToExpiryYears_fl ar (m_expiryDate market) now)"
    and "o_deribitProb opp
          = deribitProbOf_fl ar deribitData market (o_currentPrice opp)
              (timeToExpiryYears_fl ar (m_expiryDate market) now)"
    and "o_edgeVsZscore opp = rnd ar (m_polymarketPrice market - e_probability (o_zscoreProb opp))"
    and "o_edgeVsDeribit opp
          = map_option (\<lambda>d. rnd ar (m_polymarketPrice market - e_probability d)) (o_deribitProb opp)"
  using assms
  by (auto simp add: processMarket_fl_def Let_def calculateEdge_fl_edge option.map_comp comp_def
        split: option.splits if_splits)

lemma processMarket_fl_Some:
  assumes "prices (m_crypto market) = Some S" and "0 < S"
    and "0 < timeToExpiryYears_fl ar (m_expiryDate market) now"
  shows "\<exists>opp. processMarket_fl ar prices deribitData now market = Some opp"
  using assms by (simp add: processMarket_fl_def Let_def)

lemma zscoreProbOf_fl_method: "e_method (zscoreProbOf_fl ar market S vol T) = Zscore"
  by (simp add: zscoreProbOf_fl_def calculateOneTouchProbability_fl_def
        calculateZScoreProbability_fl_def Let_def)

lemma deribitProbOf_fl_cases:
  "deribitProbOf_fl ar deribitData market S T = Some est \<Longrightarrow>
     \<exists>deribit. deribitData (m_crypto market) = Some deribit
       \<and> m_crypto market \<in> set DERIBIT_SUPPORTED
       \<and> 0 < fc_iv (findClosestStrikeIV_fl ar deribit (m_targetPrice market) (m_expiryDate market))
       \<and> e_volatilityUsed est
            = fc_iv (findClosestStrikeIV_fl ar deribit (m_targetPrice market) (m_expiryDate market))
       \<and> e_probability est = deribitProbability_fl ar market S (e_volatilityUsed est) T
       \<and> 0 < e_probability est \<and> e_probability est < 1 \<and> e_method est = DeribitDelta"
  by (auto simp add: deribitProbOf_fl_def effectiveTarget_def Let_def split: option.splits if_splits)

lemma deribitProbOf_fl_None:
  assumes "deribitData (m_crypto market) = Some deribit"
    and "deribitProbability_fl ar market S
           (fc_iv (findClosestStrikeIV_fl ar deribit (m_targetPrice market) (m_expiryDate market))) T = P"
    and "P \<le> 0 \<or> 1 \<le> P"
  shows "deribitProbOf_fl ar deribitData market S T = None"
  using assms by (auto simp add: deribitProbOf_fl_def effectiveTarget_def Let_def)

lemma ex_iv_lo: "0.5499 \<le> ex_iv" and ex_iv_hi: "ex_iv \<le> 0.5501"
proof -
  have e: "(0.55::real) \<le> 0.55" "(0.55::real) \<le> 0.55" by simp_all
  show "0.5499 \<le> ex_iv" unfolding ex_iv_def by (rule roundDouble_lower[OF e]) simp
  show "ex_iv \<le> 0.5501" unfolding ex_iv_def by (rule roundDouble_upper[OF e]) simp
qed

lemma normalCDF_fl_mid:
  assumes d_lo: "0.27 \<le> d" and d_hi: "d \<le> 0.28"
  shows "0.59 \<le> normalCDF_fl ieeeDouble d" and "normalCDF_fl ieeeDouble d \<le> 0.62"
proof -
  define a1 where "a1 = roundDouble 0.254829592"
  have a1_e: "(0.254829592::real) \<le> 0.254829592" "(0.254829592::real) \<le> 0.254829592" by simp_all
  have a1_lo: "0.254829337 \<le> a1" unfolding a1_def by (rule roundDouble_lower[OF a1_e]) simp
  have a1_hi: "a1 \<le> 0.254829847" unfolding a1_def by (rule roundDouble_upper[OF a1_e]) simp
  define a2 where "a2 = roundDouble (- 0.284496736)"
  have a2_e: "((- 0.284496736)::real) \<le> (- 0.284496736)" "((- 0.284496736)::real) \<le> (- 0.284496736)" by simp_all
  have a2_lo: "(- 0.284497021) \<le> a2" unfolding a2_def by (rule roundDouble_lower[OF a2_e]) simp
  have a2_hi: "a2 \<le> (- 0.284496451)" unfolding a2_def by (rule roundDouble_upper[OF a2_e]) simp
  define a3 where "a3 = roundDouble 1.421413741"
  have a3_e: "(1.421413741::real) \<le> 1.421413741" "(1.421413741::real) \<le> 1.421413741" by simp_all
  have a3_lo: "1.421412319 \<le> a3" unfolding a3_def by (rule roundDouble_lower[OF a3_e]) simp
  have a3_hi: "a3 \<le> 1.421415163" unfolding a3_def by (rule roundDouble_upper[OF a3_e]) simp
  define a4 where "a4 = roundDouble (- 1.453152027)"
  have a4_e: "((- 1.453152027)::real) \<le> (- 1.453152027)" "((- 1.453152027)::real) \<le> (- 1.453152027)" by simp_all
  have a4_lo: "(- 1.453153481) \<le> a4" unfolding a4_def by (rule roundDouble_lower[OF a4_e]) simp
  have a4_hi: "a4 \<le> (- 1.453150573)" unfolding a4_def by (rule roundDouble_upper[OF a4_e]) simp
  define a5 where "a5 = roundDouble 1.061405429"
  have a5_e: "(1.061405429::real) \<le> 1.061405429" "(1.061405429::real) \<le> 1.061405429" by simp_all
  have a5_lo: "1.061404367 \<le> a5" unfolding a5_def by (rule roundDouble_lower[OF a5_e]) simp
  have a5_hi: "a5 \<le> 1.061406491" unfolding a5_def by (rule roundDouble_upper[OF a5_e]) simp
  define p where "p = roundDouble 0.3275911"
  have p_e: "(0.3275911::real) \<le> 0.3275911" "(0.3275911::real) \<le> 0.3275911" by simp_all
  have p_lo: "0.327590772 \<le> p" unfolding p_def by (rule roundDouble_lower[OF p_e]) simp
  have p_hi: "p \<le> 0.327591428" unfolding p_def by (rule roundDouble_upper[OF p_e]) simp
  define s2 where "s2 = roundDouble (sqrt 2)"
  have s2_e: "1.4142 \<le> sqrt 2" "sqrt 2 \<le> 1.4143"
    by (rule sqrt_lower, simp, simp, rule sqrt_upper, simp, simp)
  have s2_lo: "1.414198 \<le> s2" unfolding s2_def by (rule roundDouble_lower[OF s2_e]) simp
  have s2_hi: "s2 \<le> 1.414302" unfolding s2_def by (rule roundDouble_upper[OF s2_e]) simp
  define x where "x = roundDouble (\<bar>d\<bar> / s2)"
  have x_e: "0.1909068 \<le> \<bar>d\<bar> / s2" "\<bar>d\<bar> / s2 \<le> 0.1979921"
  proof -
    show "0.1909068 \<le> \<bar>d\<bar> / s2"
      by (rule div_lower[of "0.27" _ "1.414198" _ "1.414302"]) (use d_lo d_hi s2_lo s2_hi in simp_all)
    show "\<bar>d\<bar> / s2 \<le> 0.1979921"
      by (rule div_upper[of _ "0.28" "1.414198" _]) (use d_lo d_hi s2_lo s2_hi in simp_all)
  qed
  have x_lo: "0.190906 \<le> x" unfolding x_def by (rule roundDouble_lower[OF x_e]) simp
  have x_hi: "x \<le> 0.197993" unfolding x_def by (rule roundDouble_upper[OF x_e]) simp
  define px where "px = roundDouble (p * x)"
  have px_e: "0.062539043919432 \<le> p * x" "p * x \<le> 0.064860809604004"
    using mult_bounds_pp[of "0.327590772" p "0.327591428" "0.190906" x "0.197993"] p_lo p_hi x_lo x_hi by simp_all
  have px_lo: "0.062538 \<le> px" unfolding px_def by (rule roundDouble_lower[OF px_e]) simp
  have px_hi: "px \<le> 0.064861" unfolding px_def by (rule roundDouble_upper[OF px_e]) simp
  define den where "den = roundDouble (1 + px)"
  have den_e: "1.062538 \<le> 1 + px" "1 + px \<le> 1.064861"
    using px_lo px_hi by simp_all
  have den_lo: "1.062536 \<le> den" unfolding den_def by (rule roundDouble_lower[OF den_e]) simp
  have den_hi: "den \<le> 1.064863" unfolding den_def by (rule roundDouble_upper[OF den_e]) simp
  define t where "t = roundDouble (1 / den)"
  have t_e: "0.9390879 \<le> 1 / den" "1 / den \<le> 0.9411446"
  proof -
    show "0.9390879 \<le> 1 / den"
      by (rule div_lower[of 1 _ "1.062536" _ "1.064863"]) (use den_lo den_hi in simp_all)
    show "1 / den \<le> 0.9411446"
      by (rule div_upper[of _ 1 "1.062536" _]) (use den_lo den_hi in simp_all)
  qed
  have t_lo: "0.939086 \<le> t" unfolding t_def by (rule roundDouble_lower[OF t_e]) simp
  have t_hi: "t \<le> 0.941146" unfolding t_def by (rule roundDouble_upper[OF t_e]) simp
  define u1 where "u1 = roundDouble (a5 * t)"
  have u1_e: "0.996749981388562 \<le> a5 * t" "a5 * t \<le> 0.998938473378686"
    using mult_bounds_pp[of "1.061404367" a5 "1.061406491" "0.939086" t "0.941146"] a5_lo a5_hi t_lo t_hi by simp_all
  have u1_lo: "0.996748 \<le> u1" unfolding u1_def by (rule roundDouble_lower[OF u1_e]) simp
  have u1_hi: "u1 \<le> 0.99894" unfolding u1_def by (rule roundDouble_upper[OF u1_e]) simp
  define u2 where "u2 = roundDouble (u1 + a4)"
  have u2_e: "(- 0.456405481) \<le> u1 + a4" "u1 + a4 \<le> (- 0.454210573)"
    using u1_lo u1_hi a4_lo a4_hi by simp_all
  have u2_lo: "(- 0.456406) \<le> u2" unfolding u2_def by (rule roundDouble_lower[OF u2_e]) simp
  have u2_hi: "u2 \<le> (- 0.45421)" unfolding u2_def by (rule roundDouble_upper[OF u2_e]) simp
  define u3 where "u3 = roundDouble (u2 * t)"
  have u3_e: "(- 0.429544681276) \<le> u2 * t" "u2 * t \<le> (- 0.42654225206)"
    using mult_bounds_np[of "(- 0.456406)" u2 "(- 0.45421)" "0.939086" t "0.941146"] u2_lo u2_hi t_lo t_hi by simp_all
  have u3_lo: "(- 0.429546) \<le> u3" unfolding u3_def by (rule roundDouble_lower[OF u3_e]) simp
  have u3_hi: "u3 \<le> (- 0.426541)" unfolding u3_def by (rule roundDouble_upper[OF u3_e]) simp
  define u4 where "u4 = roundDouble (u3 + a3)"
  have u4_e: "0.991866319 \<le> u3 + a3" "u3 + a3 \<le> 0.994874163"
    using u3_lo u3_hi a3_lo a3_hi by simp_all
  have u4_lo: "0.991865 \<le> u4" unfolding u4_def by (rule roundDouble_lower[OF u4_e]) simp
  have u4_hi: "u4 \<le> 0.994876" unfolding u4_def by (rule roundDouble_upper[OF u4_e]) simp
  define u5 where "u5 = roundDouble (u4 * t)"
  have u5_e: "0.93144653539 \<le> u4 * t" "u4 * t \<le> 0.936323567896"
    using mult_bounds_pp[of "0.991865" u4 "0.994876" "0.939086" t "0.941146"] u4_lo u4_hi t_lo t_hi by simp_all
  have u5_lo: "0.931445 \<le> u5" unfolding u5_def by (rule roundDouble_lower[OF u5_e]) simp
  have u5_hi: "u5 \<le> 0.936325" unfolding u5_def by (rule roundDouble_upper[OF u5_e]) simp
  define u6 where "u6 = roundDouble (u5 + a2)"
  have u6_e: "0.646947979 \<le> u5 + a2" "u5 + a2 \<le> 0.651828549"
    using u5_lo u5_hi a2_lo a2_hi by simp_all
  have u6_lo: "0.646947 \<le> u6" unfolding u6_def by (rule roundDouble_lower[OF u6_e]) simp
  have u6_hi: "u6 \<le> 0.65183" unfolding u6_def by (rule roundDouble_upper[OF u6_e]) simp
  define u7 where "u7 = roundDouble (u6 * t)"
  have u7_e: "0.607538870442 \<le> u6 * t" "u6 * t \<le> 0.61346719718"
    using mult_bounds_pp[of "0.646947" u6 "0.65183" "0.939086" t "0.941146"] u6_lo u6_hi t_lo t_hi by simp_all
  have u7_lo: "0.607538 \<le> u7" unfolding u7_def by (rule roundDouble_lower[OF u7_e]) simp
  have u7_hi: "u7 \<le> 0.613468" unfolding u7_def by (rule roundDouble_upper[OF u7_e]) simp
  define u8 where "u8 = roundDouble (u7 + a1)"
  have u8_e: "0.862367337 \<le> u7 + a1" "u7 + a1 \<le> 0.868297847"
    using u7_lo u7_hi a1_lo a1_hi by simp_all
  have u8_lo: "0.862366 \<le> u8" unfolding u8_def by (rule roundDouble_lower[OF u8_e]) simp
  have u8_hi: "u8 \<le> 0.868299" unfolding u8_def by (rule roundDouble_upper[OF u8_e]) simp
  define u9 where "u9 = roundDouble (u8 * t)"
  have u9_e: "0.809835837476 \<le> u8 * t" "u8 * t \<le> 0.817196130654"
    using mult_bounds_pp[of "0.862366" u8 "0.868299" "0.939086" t "0.941146"] u8_lo u8_hi t_lo t_hi by simp_all
  have u9_lo: "0.809835 \<le> u9" unfolding u9_def by (rule roundDouble_lower[OF u9_e]) simp
  have u9_hi: "u9 \<le> 0.817197" unfolding u9_def by (rule roundDouble_upper[OF u9_e]) simp
  define nx where "nx = roundDouble (- x * x)"
  have nx_sq: "0.036445100836 \<le> x * x" "x * x \<le> 0.039201228049"
    using mult_bounds_pp[of "0.190906" x "0.197993" "0.190906" x "0.197993"] x_lo x_hi by simp_all
  have nx_e: "(- 0.039201228049) \<le> - x * x" "- x * x \<le> (- 0.036445100836)"
    using nx_sq by simp_all
  have nx_lo: "(- 0.039202) \<le> nx" unfolding nx_def by (rule roundDouble_lower[OF nx_e]) simp
  have nx_hi: "nx \<le> (- 0.036445)" unfolding nx_def by (rule roundDouble_upper[OF nx_e]) simp
  define ex where "ex = roundDouble (exp nx)"
  have ex_e: "0.960798 \<le> exp nx" "exp nx \<le> 1"
    using exp_bounds_nonpos[of "(- 0.039202)" nx] nx_lo nx_hi by simp_all
  have ex_lo: "0.960797 \<le> ex" unfolding ex_def by (rule roundDouble_lower[OF ex_e]) simp
  have ex_hi: "ex \<le> 1.000001" unfolding ex_def by (rule roundDouble_upper[OF ex_e]) simp
  define pr where "pr = roundDouble (u9 * ex)"
  have pr_e: "0.778087038495 \<le> u9 * ex" "u9 * ex \<le> 0.817197817197"
    using mult_bounds_pp[of "0.809835" u9 "0.817197" "0.960797" ex "1.000001"] u9_lo u9_hi ex_lo ex_hi by simp_all
  have pr_lo: "0.778086 \<le> pr" unfolding pr_def by (rule roundDouble_lower[OF pr_e]) simp
  have pr_hi: "pr \<le> 0.817199" unfolding pr_def by (rule roundDouble_upper[OF pr_e]) simp
  define y where "y = roundDouble (1 - pr)"
  have y_e: "0.182801 \<le> 1 - pr" "1 - pr \<le> 0.221914"
    using pr_lo pr_hi by simp_all
  have y_lo: "0.1828 \<le> y" unfolding y_def by (rule roundDouble_lower[OF y_e]) simp
  have y_hi: "y \<le> 0.221915" unfolding y_def by (rule roundDouble_upper[OF y_e]) simp
  define sy where "sy = roundDouble y"
  have sy_e: "0.1828 \<le> y" "y \<le> 0.221915"
    using y_lo y_hi by simp_all
  have sy_lo: "0.182799 \<le> sy" unfolding sy_def by (rule roundDouble_lower[OF sy_e]) simp
  have sy_hi: "sy \<le> 0.221916" unfolding sy_def by (rule roundDouble_upper[OF sy_e]) simp
  define w where "w = roundDouble (1 + sy)"
  have w_e: "1.182799 \<le> 1 + sy" "1 + sy \<le> 1.221916"
    using sy_lo sy_hi by simp_all
  have w_lo: "1.182797 \<le> w" unfolding w_def by (rule roundDouble_lower[OF w_e]) simp
  have w_hi: "w \<le> 1.221918" unfolding w_def by (rule roundDouble_upper[OF w_e]) simp
  define res where "res = roundDouble (w / 2)"
  have res_e: "0.5913985 \<le> w / 2" "w / 2 \<le> 0.610959"
    using w_lo w_hi by simp_all
  have res_lo: "0.591397 \<le> res" unfolding res_def by (rule roundDouble_lower[OF res_e]) simp
  have res_hi: "res \<le> 0.61096" unfolding res_def by (rule roundDouble_upper[OF res_e]) simp
  have eq: "normalCDF_fl ieeeDouble d = res"
    unfolding normalCDF_fl_def Let_def res_def w_def sy_def a1_def a2_def a3_def a4_def a5_def p_def s2_def x_def px_def den_def t_def u1_def u2_def u3_def u4_def u5_def u6_def u7_def u8_def u9_def nx_def ex_def pr_def y_def
    using d_lo by (simp add: ieeeDouble_def)
  show "0.59 \<le> normalCDF_fl ieeeDouble d" unfolding eq using res_lo by simp
  show "normalCDF_fl ieeeDouble d \<le> 0.62" unfolding eq using res_hi by simp
qed

lemma normalCDF_fl_saturates:
  assumes d_lo: "12 \<le> d" and d_hi: "d \<le> 100"
  shows "normalCDF_fl ieeeDouble d = 1"
proof -
  define a1 where "a1 = roundDouble 0.254829592"
  have a1_e: "(0.254829592::real) \<le> 0.254829592" "(0.254829592::real) \<le> 0.254829592" by simp_all
  have a1_lo: "0.254829337 \<le> a1" unfolding a1_def by (rule roundDouble_lower[OF a1_e]) simp
  have a1_hi: "a1 \<le> 0.254829847" unfolding a1_def by (rule roundDouble_upper[OF a1_e]) simp
  define a2 where "a2 = roundDouble (- 0.284496736)"
  have a2_e: "((- 0.284496736)::real) \<le> (- 0.284496736)" "((- 0.284496736)::real) \<le> (- 0.284496736)" by simp_all
  have a2_lo: "(- 0.284497021) \<le> a2" unfolding a2_def by (rule roundDouble_lower[OF a2_e]) simp
  have a2_hi: "a2 \<le> (- 0.284496451)" unfolding a2_def by (rule roundDouble_upper[OF a2_e]) simp
  define a3 where "a3 = roundDouble 1.421413741"
  have a3_e: "(1.421413741::real) \<le> 1.421413741" "(1.421413741::real) \<le> 1.421413741" by simp_all
  have a3_lo: "1.421412319 \<le> a3" unfolding a3_def by (rule roundDouble_lower[OF a3_e]) simp
  have a3_hi: "a3 \<le> 1.421415163" unfolding a3_def by (rule roundDouble_upper[OF a3_e]) simp
  define a4 where "a4 = roundDouble (- 1.453152027)"
  have a4_e: "((- 1.453152027)::real) \<le> (- 1.453152027)" "((- 1.453152027)::real) \<le> (- 1.453152027)" by simp_all
  have a4_lo: "(- 1.453153481) \<le> a4" unfolding a4_def by (rule roundDouble_lower[OF a4_e]) simp
  have a4_hi: "a4 \<le> (- 1.453150573)" unfolding a4_def by (rule roundDouble_upper[OF a4_e]) simp
  define a5 where "a5 = roundDouble 1.061405429"
  have a5_e: "(1.061405429::real) \<le> 1.061405429" "(1.061405429::real) \<le> 1.061405429" by simp_all
  have a5_lo: "1.061404367 \<le> a5" unfolding a5_def by (rule roundDouble_lower[OF a5_e]) simp
  have a5_hi: "a5 \<le> 1.061406491" unfolding a5_def by (rule roundDouble_upper[OF a5_e]) simp
  define p where "p = roundDouble 0.3275911"
  have p_e: "(0.3275911::real) \<le> 0.3275911" "(0.3275911::real) \<le> 0.3275911" by simp_all
  have p_lo: "0.327590772 \<le> p" unfolding p_def by (rule roundDouble_lower[OF p_e]) simp
  have p_hi: "p \<le> 0.327591428" unfolding p_def by (rule roundDouble_upper[OF p_e]) simp
  define s2 where "s2 = roundDouble (sqrt 2)"
  have s2_e: "1.4142 \<le> sqrt 2" "sqrt 2 \<le> 1.4143"
    by (rule sqrt_lower, simp, simp, rule sqrt_upper, simp, simp)
  have s2_lo: "1.414198 \<le> s2" unfolding s2_def by (rule roundDouble_lower[OF s2_e]) simp
  have s2_hi: "s2 \<le> 1.414302" unfolding s2_def by (rule roundDouble_upper[OF s2_e]) simp
  define x where "x = roundDouble (\<bar>d\<bar> / s2)"
  have x_e: "8.4847507 \<le> \<bar>d\<bar> / s2" "\<bar>d\<bar> / s2 \<le> 70.7114563"
  proof -
    show "8.4847507 \<le> \<bar>d\<bar> / s2"
      by (rule div_lower[of "12" _ "1.414198" _ "1.414302"]) (use d_lo d_hi s2_lo s2_hi in simp_all)
    show "\<bar>d\<bar> / s2 \<le> 70.7114563"
      by (rule div_upper[of _ "100" "1.414198" _]) (use d_lo d_hi s2_lo s2_hi in simp_all)
  qed
  have x_lo: "8.484679 \<le> x" unfolding x_def by (rule roundDouble_lower[OF x_e]) simp
  have x_hi: "x \<le> 70.711528" unfolding x_def by (rule roundDouble_upper[OF x_e]) simp
  define px where "px = roundDouble (p * x)"
  have px_e: "2.779502543782188 \<le> p * x" "p * x \<le> 23.164490433581984"
    using mult_bounds_pp[of "0.327590772" p "0.327591428" "8.484679" x "70.711528"] p_lo p_hi x_lo x_hi by simp_all
  have px_lo: "2.779479 \<le> px" unfolding px_def by (rule roundDouble_lower[OF px_e]) simp
  have px_hi: "px \<le> 23.164514" unfolding px_def by (rule roundDouble_upper[OF px_e]) simp
  define den where "den = roundDouble (1 + px)"
  have den_e: "3.779479 \<le> 1 + px" "1 + px \<le> 24.164514"
    using px_lo px_hi by simp_all
  have den_lo: "3.779454 \<le> den" unfolding den_def by (rule roundDouble_lower[OF den_e]) simp
  have den_hi: "den \<le> 24.164539" unfolding den_def by (rule roundDouble_upper[OF den_e]) simp
  define t where "t = roundDouble (1 / den)"
  have t_e: "0.0413829 \<le> 1 / den" "1 / den \<le> 0.2645885"
  proof -
    show "0.0413829 \<le> 1 / den"
      by (rule div_lower[of 1 _ "3.779454" _ "24.164539"]) (use den_lo den_hi in simp_all)
    show "1 / den \<le> 0.2645885"
      by (rule div_upper[of _ 1 "3.779454" _]) (use den_lo den_hi in simp_all)
  qed
  have t_lo: "0.041382 \<le> t" unfolding t_def by (rule roundDouble_lower[OF t_e]) simp
  have t_hi: "t \<le> 0.264589" unfolding t_def by (rule roundDouble_upper[OF t_e]) simp
  define u1 where "u1 = roundDouble (a5 * t)"
  have u1_e: "0.043923035515194 \<le> a5 * t" "a5 * t \<le> 0.280836482047199"
    using mult_bounds_pp[of "1.061404367" a5 "1.061406491" "0.041382" t "0.264589"] a5_lo a5_hi t_lo t_hi by simp_all
  have u1_lo: "0.043922 \<le> u1" unfolding u1_def by (rule roundDouble_lower[OF u1_e]) simp
  have u1_hi: "u1 \<le> 0.280837" unfolding u1_def by (rule roundDouble_upper[OF u1_e]) simp
  define u2 where "u2 = roundDouble (u1 + a4)"
  have u2_e: "(- 1.409231481) \<le> u1 + a4" "u1 + a4 \<le> (- 1.172313573)"
    using u1_lo u1_hi a4_lo a4_hi by simp_all
  have u2_lo: "(- 1.409233) \<le> u2" unfolding u2_def by (rule roundDouble_lower[OF u2_e]) simp
  have u2_hi: "u2 \<le> (- 1.172312)" unfolding u2_def by (rule roundDouble_upper[OF u2_e]) simp
  define u3 where "u3 = roundDouble (u2 * t)"
  have u3_e: "(- 0.372867550237) \<le> u2 * t" "u2 * t \<le> (- 0.048512615184)"
    using mult_bounds_np[of "(- 1.409233)" u2 "(- 1.172312)" "0.041382" t "0.264589"] u2_lo u2_hi t_lo t_hi by simp_all
  have u3_lo: "(- 0.372868) \<le> u3" unfolding u3_def by (rule roundDouble_lower[OF u3_e]) simp
  have u3_hi: "u3 \<le> (- 0.048512)" unfolding u3_def by (rule roundDouble_upper[OF u3_e]) simp
  define u4 where "u4 = roundDouble (u3 + a3)"
  have u4_e: "1.048544319 \<le> u3 + a3" "u3 + a3 \<le> 1.372903163"
    using u3_lo u3_hi a3_lo a3_hi by simp_all
  have u4_lo: "1.048542 \<le> u4" unfolding u4_def by (rule roundDouble_lower[OF u4_e]) simp
  have u4_hi: "u4 \<le> 1.372905" unfolding u4_def by (rule roundDouble_upper[OF u4_e]) simp
  define u5 where "u5 = roundDouble (u4 * t)"
  have u5_e: "0.043390765044 \<le> u4 * t" "u4 * t \<le> 0.363255561045"
    using mult_bounds_pp[of "1.048542" u4 "1.372905" "0.041382" t "0.264589"] u4_lo u4_hi t_lo t_hi by simp_all
  have u5_lo: "0.04339 \<le> u5" unfolding u5_def by (rule roundDouble_lower[OF u5_e]) simp
  have u5_hi: "u5 \<le> 0.363256" unfolding u5_def by (rule roundDouble_upper[OF u5_e]) simp
  define u6 where "u6 = roundDouble (u5 + a2)"
  have u6_e: "(- 0.241107021) \<le> u5 + a2" "u5 + a2 \<le> 0.078759549"
    using u5_lo u5_hi a2_lo a2_hi by simp_all
  have u6_lo: "(- 0.241108) \<le> u6" unfolding u6_def by (rule roundDouble_lower[OF u6_e]) simp
  have u6_hi: "u6 \<le> 0.07876" unfolding u6_def by (rule roundDouble_upper[OF u6_e]) simp
  define u7 where "u7 = roundDouble (u6 * t)"
  have u7_e: "(- 0.063794524612) \<le> u6 * t" "u6 * t \<le> 0.063794524612"
    using mult_bounds_abs[of u6 "0.241108" t "0.264589"] u6_lo u6_hi t_lo t_hi by simp_all
  have u7_lo: "(- 0.063795) \<le> u7" unfolding u7_def by (rule roundDouble_lower[OF u7_e]) simp
  have u7_hi: "u7 \<le> 0.063795" unfolding u7_def by (rule roundDouble_upper[OF u7_e]) simp
  define u8 where "u8 = roundDouble (u7 + a1)"
  have u8_e: "0.191034337 \<le> u7 + a1" "u7 + a1 \<le> 0.318624847"
    using u7_lo u7_hi a1_lo a1_hi by simp_all
  have u8_lo: "0.191034 \<le> u8" unfolding u8_def by (rule roundDouble_lower[OF u8_e]) simp
  have u8_hi: "u8 \<le> 0.318626" unfolding u8_def by (rule roundDouble_upper[OF u8_e]) simp
  define u9 where "u9 = roundDouble (u8 * t)"
  have u9_e: "0.007905368988 \<le> u8 * t" "u8 * t \<le> 0.084304934714"
    using mult_bounds_pp[of "0.191034" u8 "0.318626" "0.041382" t "0.264589"] u8_lo u8_hi t_lo t_hi by simp_all
  have u9_lo: "0.007905 \<le> u9" unfolding u9_def by (rule roundDouble_lower[OF u9_e]) simp
  have u9_hi: "u9 \<le> 0.084306" unfolding u9_def by (rule roundDouble_upper[OF u9_e]) simp
  define nx where "nx = roundDouble (- x * x)"
  have nx_sq: "71.989777733041 \<le> x * x" "x * x \<le> 5000.120192094784"
    using mult_bounds_pp[of "8.484679" x "70.711528" "8.484679" x "70.711528"] x_lo x_hi by simp_all
  have nx_e: "(- 5000.120192094784) \<le> - x * x" "- x * x \<le> (- 71.989777733041)"
    using nx_sq by simp_all
  have nx_lo: "(- 5000.125193) \<le> nx" unfolding nx_def by (rule roundDouble_lower[OF nx_e]) simp
  have nx_hi: "nx \<le> (- 71.984777)" unfolding nx_def by (rule roundDouble_upper[OF nx_e]) simp
  define ex where "ex = roundDouble (exp nx)"
  have ex_e: "0 \<le> exp nx" "exp nx \<le> 0.000000000000000000001"
  proof -
    show "0 \<le> exp nx" by simp
    have "exp nx \<le> 1 / 2 ^ 71" by (rule exp_le_pow2) (use nx_hi in simp)
    then show "exp nx \<le> 0.000000000000000000001" by simp
  qed
  have ex_lo: "(- 0.000000000000000000000000001) \<le> ex" unfolding ex_def by (rule roundDouble_lower[OF ex_e]) simp
  have ex_hi: "ex \<le> 0.000000000000000000001000001" unfolding ex_def by (rule roundDouble_upper[OF ex_e]) simp
  define pr where "pr = roundDouble (u9 * ex)"
  have pr_e: "(- 0.000000000000000000000084306084306) \<le> u9 * ex" "u9 * ex \<le> 0.000000000000000000000084306084306"
    using mult_bounds_abs[of u9 "0.084306" ex "0.000000000000000000001000001"] u9_lo u9_hi ex_lo ex_hi by simp_all
  have pr_lo: "(- 0.000000000000000000000084306169) \<le> pr" unfolding pr_def by (rule roundDouble_lower[OF pr_e]) simp
  have pr_hi: "pr \<le> 0.000000000000000000000084306169" unfolding pr_def by (rule roundDouble_upper[OF pr_e]) simp
  define y where "y = roundDouble (1 - pr)"
  have "\<bar>pr\<bar> \<le> 1 / 2 ^ 54" using pr_lo pr_hi by simp
  then have y: "y = 1" unfolding y_def by (rule roundDouble_near_one)
  have "normalCDF_fl ieeeDouble d = roundDouble (roundDouble (1 + roundDouble y) / 2)"
    unfolding normalCDF_fl_def Let_def a1_def a2_def a3_def a4_def a5_def p_def s2_def x_def px_def den_def t_def u1_def u2_def u3_def u4_def u5_def u6_def u7_def u8_def u9_def nx_def ex_def pr_def y_def
    using d_lo by (simp add: ieeeDouble_def)
  then show ?thesis unfolding y by (simp add: roundDouble_small_integers)
qed

lemma ex_d1_mid:
  "0.27 \<le> calculateD1_fl ieeeDouble 100000 100000 ex_iv 1"
  "calculateD1_fl ieeeDouble 100000 100000 ex_iv 1 \<le> 0.28"
proof -
  define h where "h = roundDouble (ex_iv / 2)"
  have h_e: "0.27495 \<le> ex_iv / 2" "ex_iv / 2 \<le> 0.27505"
    using ex_iv_lo ex_iv_hi by simp_all
  have h_lo: "0.274949 \<le> h" unfolding h_def by (rule roundDouble_lower[OF h_e]) simp
  have h_hi: "h \<le> 0.275051" unfolding h_def by (rule roundDouble_upper[OF h_e]) simp
  define hv where "hv = roundDouble (h * ex_iv)"
  have hv_e: "0.1511944551 \<le> h * ex_iv" "h * ex_iv \<le> 0.1513055551"
    using mult_bounds_pp[of "0.274949" h "0.275051" "0.5499" ex_iv "0.5501"] h_lo h_hi ex_iv_lo ex_iv_hi by simp_all
  have hv_lo: "0.151194 \<le> hv" unfolding hv_def by (rule roundDouble_lower[OF hv_e]) simp
  have hv_hi: "hv \<le> 0.151306" unfolding hv_def by (rule roundDouble_upper[OF hv_e]) simp
  define z0 where "z0 = roundDouble hv"
  have z0_e: "0.151194 \<le> hv" "hv \<le> 0.151306"
    using hv_lo hv_hi by simp_all
  have z0_lo: "0.151193 \<le> z0" unfolding z0_def by (rule roundDouble_lower[OF z0_e]) simp
  have z0_hi: "z0 \<le> 0.151307" unfolding z0_def by (rule roundDouble_upper[OF z0_e]) simp
  define wv where "wv = roundDouble z0"
  have wv_e: "0.151193 \<le> z0" "z0 \<le> 0.151307"
    using z0_lo z0_hi by simp_all
  have wv_lo: "0.151192 \<le> wv" unfolding wv_def by (rule roundDouble_lower[OF wv_e]) simp
  have wv_hi: "wv \<le> 0.151308" unfolding wv_def by (rule roundDouble_upper[OF wv_e]) simp
  define num where "num = roundDouble wv"
  have num_e: "0.151192 \<le> wv" "wv \<le> 0.151308"
    using wv_lo wv_hi by simp_all
  have num_lo: "0.151191 \<le> num" unfolding num_def by (rule roundDouble_lower[OF num_e]) simp
  have num_hi: "num \<le> 0.151309" unfolding num_def by (rule roundDouble_upper[OF num_e]) simp
  define dn where "dn = roundDouble ex_iv"
  have dn_e: "0.5499 \<le> ex_iv" "ex_iv \<le> 0.5501"
    using ex_iv_lo ex_iv_hi by simp_all
  have dn_lo: "0.549899 \<le> dn" unfolding dn_def by (rule roundDouble_lower[OF dn_e]) simp
  have dn_hi: "dn \<le> 0.550101" unfolding dn_def by (rule roundDouble_upper[OF dn_e]) simp
  define d1 where "d1 = roundDouble (num / dn)"
  have d1_e: "0.2748422 \<le> num / dn" "num / dn \<le> 0.2751579"
  proof -
    show "0.2748422 \<le> num / dn"
      by (rule div_lower[of "0.151191" _ "0.549899" _ "0.550101"]) (use num_lo num_hi dn_lo dn_hi in simp_all)
    show "num / dn \<le> 0.2751579"
      by (rule div_upper[of _ "0.151309" "0.549899" _]) (use num_lo num_hi dn_lo dn_hi in simp_all)
  qed
  have d1_lo: "0.274841 \<le> d1" unfolding d1_def by (rule roundDouble_lower[OF d1_e]) simp
  have d1_hi: "d1 \<le> 0.275159" unfolding d1_def by (rule roundDouble_upper[OF d1_e]) simp
  have eq: "calculateD1_fl ieeeDouble 100000 100000 ex_iv 1 = d1"
    unfolding calculateD1_fl_def Let_def d1_def dn_def num_def wv_def z0_def hv_def h_def
    using ex_iv_lo by (simp add: ieeeDouble_def roundDouble_small_integers)
  show "0.27 \<le> calculateD1_fl ieeeDouble 100000 100000 ex_iv 1"
    unfolding eq using d1_lo by simp
  show "calculateD1_fl ieeeDouble 100000 100000 ex_iv 1 \<le> 0.28"
    unfolding eq using d1_hi by simp
qed

lemma ex_d1_deep:
  "12 \<le> calculateD1_fl ieeeDouble 100000 25000 ex_iv (5764607523034235 / 576460752303423488)"
  "calculateD1_fl ieeeDouble 100000 25000 ex_iv (5764607523034235 / 576460752303423488) \<le> 100"
proof -
  define h where "h = roundDouble (ex_iv / 2)"
  have h_e: "0.27495 \<le> ex_iv / 2" "ex_iv / 2 \<le> 0.27505"
    using ex_iv_lo ex_iv_hi by simp_all
  have h_lo: "0.274949 \<le> h" unfolding h_def by (rule roundDouble_lower[OF h_e]) simp
  have h_hi: "h \<le> 0.275051" unfolding h_def by (rule roundDouble_upper[OF h_e]) simp
  define hv where "hv = roundDouble (h * ex_iv)"
  have hv_e: "0.1511944551 \<le> h * ex_iv" "h * ex_iv \<le> 0.1513055551"
    using mult_bounds_pp[of "0.274949" h "0.275051" "0.5499" ex_iv "0.5501"] h_lo h_hi ex_iv_lo ex_iv_hi by simp_all
  have hv_lo: "0.151194 \<le> hv" unfolding hv_def by (rule roundDouble_lower[OF hv_e]) simp
  have hv_hi: "hv \<le> 0.151306" unfolding hv_def by (rule roundDouble_upper[OF hv_e]) simp
  define z0 where "z0 = roundDouble hv"
  have z0_e: "0.151194 \<le> hv" "hv \<le> 0.151306"
    using hv_lo hv_hi by simp_all
  have z0_lo: "0.151193 \<le> z0" unfolding z0_def by (rule roundDouble_lower[OF z0_e]) simp
  have z0_hi: "z0 \<le> 0.151307" unfolding z0_def by (rule roundDouble_upper[OF z0_e]) simp
  define T :: real where "T = 5764607523034235 / 576460752303423488"
  have T_lo: "0.0099 \<le> T" and T_hi: "T \<le> 0.0101" by (simp_all add: T_def)
  define wv where "wv = roundDouble (z0 * T)"
  have wv_e: "0.0014968107 \<le> z0 * T" "z0 * T \<le> 0.0015282007"
    using mult_bounds_pp[of "0.151193" z0 "0.151307" "0.0099" T "0.0101"] z0_lo z0_hi T_lo T_hi by simp_all
  have wv_lo: "0.001496 \<le> wv" unfolding wv_def by (rule roundDouble_lower[OF wv_e]) simp
  have wv_hi: "wv \<le> 0.001529" unfolding wv_def by (rule roundDouble_upper[OF wv_e]) simp
  define lg where "lg = roundDouble (ln 4)"
  have lg_e: "1 \<le> ln (4::real)" "ln (4::real) \<le> 3" by (rule ln_4_bounds)+
  have lg_lo: "0.999997 \<le> lg" unfolding lg_def by (rule roundDouble_lower[OF lg_e]) simp
  have lg_hi: "lg \<le> 3.000003" unfolding lg_def by (rule roundDouble_upper[OF lg_e]) simp
  define num where "num = roundDouble (lg + wv)"
  have num_e: "1.001493 \<le> lg + wv" "lg + wv \<le> 3.001532"
    using lg_lo lg_hi wv_lo wv_hi by simp_all
  have num_lo: "1.001489 \<le> num" unfolding num_def by (rule roundDouble_lower[OF num_e]) simp
  have num_hi: "num \<le> 3.001536" unfolding num_def by (rule roundDouble_upper[OF num_e]) simp
  define sq where "sq = roundDouble (sqrt T)"
  have sq_e: "0.099497 \<le> sqrt T" "sqrt T \<le> 0.1005"
  proof -
    show "0.099497 \<le> sqrt T" by (rule sqrt_lower) (use T_lo T_hi in simp_all)
    show "sqrt T \<le> 0.1005" by (rule sqrt_upper) (use T_lo T_hi in simp_all)
  qed
  have sq_lo: "0.099496 \<le> sq" unfolding sq_def by (rule roundDouble_lower[OF sq_e]) simp
  have sq_hi: "sq \<le> 0.100501" unfolding sq_def by (rule roundDouble_upper[OF sq_e]) simp
  define dn where "dn = roundDouble (ex_iv * sq)"
  have dn_e: "0.0547128504 \<le> ex_iv * sq" "ex_iv * sq \<le> 0.0552856001"
    using mult_bounds_pp[of "0.5499" ex_iv "0.5501" "0.099496" sq "0.100501"] ex_iv_lo ex_iv_hi sq_lo sq_hi by simp_all
  have dn_lo: "0.054712 \<le> dn" unfolding dn_def by (rule roundDouble_lower[OF dn_e]) simp
  have dn_hi: "dn \<le> 0.055286" unfolding dn_def by (rule roundDouble_upper[OF dn_e]) simp
  define d1 where "d1 = roundDouble (num / dn)"
  have d1_e: "18.1146944 \<le> num / dn" "num / dn \<le> 54.8606522"
  proof -
    show "18.1146944 \<le> num / dn"
      by (rule div_lower[of "1.001489" _ "0.054712" _ "0.055286"]) (use num_lo num_hi dn_lo dn_hi in simp_all)
    show "num / dn \<le> 54.8606522"
      by (rule div_upper[of _ "3.001536" "0.054712" _]) (use num_lo num_hi dn_lo dn_hi in simp_all)
  qed
  have d1_lo: "18.114639 \<le> d1" unfolding d1_def by (rule roundDouble_lower[OF d1_e]) simp
  have d1_hi: "d1 \<le> 54.860708" unfolding d1_def by (rule roundDouble_upper[OF d1_e]) simp
  have eq: "calculateD1_fl ieeeDouble 100000 25000 ex_iv T = d1"
    unfolding calculateD1_fl_def Let_def d1_def dn_def sq_def num_def lg_def wv_def z0_def hv_def h_def
    using ex_iv_lo T_lo by (simp add: ieeeDouble_def roundDouble_small_integers)
  show "12 \<le> calculateD1_fl ieeeDouble 100000 25000 ex_iv (5764607523034235 / 576460752303423488)"
    using eq d1_lo unfolding T_def by simp
  show "calculateD1_fl ieeeDouble 100000 25000 ex_iv (5764607523034235 / 576460752303423488) \<le> 100"
    using eq d1_hi unfolding T_def by simp
qed

lemma ex_time_roundings:
  shows "roundDouble (8766) = 8766"
    and "roundDouble (525960) = 525960"
    and "roundDouble (31557600) = 31557600"
    and "roundDouble (31557600000) = 31557600000"
    and "roundDouble (1) = 1"
    and "roundDouble (315576000) = 315576000"
    and "roundDouble (1 / 100) = 5764607523034235 / 576460752303423488"
proof -
  show "roundDouble (8766) = 8766"
    by (subst roundDouble_at[of "13"]) (simp_all add: pow2_def roundHalfEven_def Let_def)
  show "roundDouble (525960) = 525960"
    by (subst roundDouble_at[of "19"]) (simp_all add: pow2_def roundHalfEven_def Let_def)
  show "roundDouble (31557600) = 31557600"
    by (subst roundDouble_at[of "24"]) (simp_all add: pow2_def roundHalfEven_def Let_def)
  show "roundDouble (31557600000) = 31557600000"
    by (subst roundDouble_at[of "34"]) (simp_all add: pow2_def roundHalfEven_def Let_def)
  show "roundDouble (1) = 1"
    by (subst roundDouble_at[of "0"]) (simp_all add: pow2_def roundHalfEven_def Let_def)
  show "roundDouble (315576000) = 315576000"
    by (subst roundDouble_at[of "28"]) (simp_all add: pow2_def roundHalfEven_def Let_def)
  show "roundDouble (1 / 100) = 5764607523034235 / 576460752303423488"
    by (subst roundDouble_at[of "-7"]) (simp_all add: pow2_def roundHalfEven_def Let_def)
qed

lemma ex_timeToExpiry_fl:
  "timeToExpiryYears_fl ieeeDouble 1781557600000 ex_now = 1"
  "timeToExpiryYears_fl ieeeDouble 1750315576000 ex_now
     = 5764607523034235 / 576460752303423488"
  by (simp_all add: timeToExpiryYears_fl_def ieeeDouble_def ex_now_def Let_def ex_time_roundings)

lemma findClosestStrikeIV_fl_single:
  "fc_iv (findClosestStrikeIV_fl ar \<lparr> d_atmIv = a, d_ivByStrike = [(k, data)] \<rparr> target expiry)
     = orElse (Some (k_callIv data)) a"
  by (simp add: findClosestStrikeIV_fl_def)

lemma ex_callDelta_fl_mid:
  "0.59 \<le> calculateCallDelta_fl ieeeDouble 100000 100000 ex_iv 1"
  "calculateCallDelta_fl ieeeDouble 100000 100000 ex_iv 1 \<le> 0.62"
  unfolding calculateCallDelta_fl_def
  by (rule normalCDF_fl_mid[OF ex_d1_mid], rule normalCDF_fl_mid[OF ex_d1_mid])

lemma ex_callDelta_fl_deep:
  "calculateCallDelta_fl ieeeDouble 100000 25000 ex_iv
     (5764607523034235 / 576460752303423488) = 1"
  unfolding calculateCallDelta_fl_def
  by (rule normalCDF_fl_saturates[OF ex_d1_deep])

lemma processFetchedMarket_fl_NotANumber:
  "processFetchedMarket_fl ar prices deribitData now f = NotANumber
     \<longleftrightarrow> f_expiryDate f = InvalidDate
         \<and> (\<exists>S. prices (m_crypto (f_market f)) = Some S \<and> 0 < S)"
  by (cases "f_expiryDate f")
     (auto simp add: processFetchedMarket_fl_def split: option.splits)

lemma collectItems_fl_NotANumber:
  "NotANumber \<in> set (collectItems_fl ar prices deribitData clock i fetched)
     \<longleftrightarrow> (\<exists>f \<in> set fetched. f_expiryDate f = InvalidDate
            \<and> (\<exists>S. prices (m_crypto (f_market f)) = Some S \<and> 0 < S))"
proof (induction fetched arbitrary: i)
  case Nil
  show ?case by simp
next
  case (Cons f fetched)
  show ?case
    using Cons.IH[of "Suc i"] processFetchedMarket_fl_NotANumber[of ar prices deribitData "clock i" f]
    by (cases "processFetchedMarket_fl ar prices deribitData (clock i) f") auto
qed

lemma rankFetchedMarkets_fl_None:
  "rankFetchedMarkets_fl ar prices deribitData clock fetched = None
     \<longleftrightarrow> (\<exists>f \<in> set fetched. f_expiryDate f = InvalidDate
            \<and> (\<exists>S. prices (m_crypto (f_market f)) = Some S \<and> 0 < S))"
  using collectItems_fl_NotANumber[of ar prices deribitData clock 0 fetched]
  by (simp add: rankFetchedMarkets_fl_def Let_def)

lemma ex_process_fl:
  assumes "m_crypto market = ''BTC''"
    and "0 < timeToExpiryYears_fl ieeeDouble (m_expiryDate market) ex_now"
  shows "\<exists>opp. processMarket_fl ieeeDouble ex_prices ex_deribit_fl ex_now market = Some opp"
  using assms by (intro processMarket_fl_Some[of _ _ 100000]) (simp_all add: ex_prices_def)

lemma ex_deribitProbOf_fl:
  assumes "m_crypto market = ''BTC''"
  shows "deribitProbOf_fl ieeeDouble ex_deribit_fl market S T
     = (if 0 < deribitProbability_fl ieeeDouble market S ex_iv T
           \<and> deribitProbability_fl ieeeDouble market S ex_iv T < 1
        then Some \<lparr> e_method = DeribitDelta,
                    e_probability = deribitProbability_fl ieeeDouble market S ex_iv T,
                    e_volatilityUsed = ex_iv, e_timeToExpiry = T, e_zScore = None,
                    e_delta = Some (if m_targetPrice market > S
                       then calculateCallDelta_fl ieeeDouble S (m_targetPrice market) ex_iv T
                       else rnd ieeeDouble (1 - calculateCallDelta_fl ieeeDouble S (m_targetPrice market)
                                                    ex_iv T)) \<rparr>
        else None)"
  using assms ex_iv_lo
  by (simp add: deribitProbOf_fl_def ex_deribit_fl_def DERIBIT_SUPPORTED_def
        findClosestStrikeIV_fl_single orElse_def effectiveTarget_def Let_def)

lemma ex_probability_atSpot:
  "0 < deribitProbability_fl ieeeDouble ex_btcAtSpot 100000 ex_iv 1"
  "deribitProbability_fl ieeeDouble ex_btcAtSpot 100000 ex_iv 1 < 1"
  using ex_callDelta_fl_mid
  by (simp_all add: deribitProbability_fl_def ex_btcAtSpot_def effectiveTarget_def Let_def)

lemma ex_probability_deepAbove:
  "deribitProbability_fl ieeeDouble ex_btcDeepAbove 100000 ex_iv
     (5764607523034235 / 576460752303423488) = 1"
  using ex_callDelta_fl_deep
  by (simp add: deribitProbability_fl_def ex_btcDeepAbove_def effectiveTarget_def Let_def)

lemma ex_probability_deepBelow:
  "deribitProbability_fl ieeeDouble ex_btcDeepBelow 100000 ex_iv
     (5764607523034235 / 576460752303423488) = 0"
  using ex_callDelta_fl_deep
  by (simp add: deribitProbability_fl_def ex_btcDeepBelow_def effectiveTarget_def Let_def
        ieeeDouble_def roundDouble_small_integers)

text \<open>
  With no rounding the functions of this section are those of the exact model.
\<close>

lemma exactArith_sel [simp]:
  "rnd exactArith = (\<lambda>x. x)" "mathSqrt exactArith = sqrt"
  "mathExp exactArith = exp" "mathLog exactArith = ln"
  by (simp_all add: exactArith_def)

lemma normalCDF_fl_exact: "normalCDF_fl exactArith x = normalCDF x"
  by (simp add: normalCDF_fl_def normalCDF_def cdfPoly_def Let_def mult.commute)

lemma normalCDF_js_fl_exact: "normalCDF_js_fl exactArith z = normalCDF_js z"
  by (cases z) (simp_all add: normalCDF_fl_exact)

lemma calculateZScore_fl_exact: "calculateZScore_fl exactArith S K v T = calculateZScore S K v T"
  by (simp add: calculateZScore_fl_def calculateZScore_def Let_def)

lemma zscoreProbOf_fl_exact: "zscoreProbOf_fl exactArith m S v T = zscoreProbOf m S v T"
  by (simp add: zscoreProbOf_fl_def zscoreProbOf_def calculateOneTouchProbability_fl_def
      calculateOneTouchProbability_def calculateZScoreProbability_fl_def
      calculateZScoreProbability_def calculateZScore_fl_exact normalCDF_js_fl_exact Let_def)

lemma calculateCallDelta_fl_exact:
  "calculateCallDelta_fl exactArith S K v T = calculateCallDelta S K v T"
  by (simp add: calculateCallDelta_fl_def calculateCallDelta_def calculateD1_fl_def
      calculateD1_def normalCDF_fl_exact Let_def)

lemma calculateEdge_fl_exact: "calculateEdge_fl exactArith p q = calculateEdge p q"
  by (simp add: calculateEdge_fl_def calculateEdge_def Let_def)

lemma getVolatilityData_fl_exact: "getVolatilityData_fl exactArith s d = getVolatilityData s d"
  by (simp add: getVolatilityData_fl_def getVolatilityData_def Let_def option.map_ident
      cong: option.case_cong)

lemma findClosestStrikeIV_fl_exact:
  "findClosestStrikeIV_fl exactArith d k e = findClosestStrikeIV d k e"
  unfolding findClosestStrikeIV_fl_def findClosestStrikeIV_def exactArith_sel by simp

lemma timeToExpiryYears_fl_exact: "timeToExpiryYears_fl exactArith e n = timeToExpiryYears e n"
  by (simp add: timeToExpiryYears_fl_def timeToExpiryYears_def Let_def)

lemma deribitProbOf_fl_exact:
  "deribitProbOf_fl exactArith d m S T = deribitProbOf d m S T"
  unfolding deribitProbOf_fl_def deribitProbOf_def deribitProbability_fl_def
    deribitProbability_def findClosestStrikeIV_fl_exact calculateCallDelta_fl_exact
    exactArith_sel
  by simp

lemma processMarket_fl_exact:
  "processMarket_fl exactArith prices d now m = processMarket prices d now m"
  unfolding processMarket_fl_def processMarket_def zscoreProbOf_fl_exact deribitProbOf_fl_exact
    calculateEdge_fl_exact getVolatilityData_fl_exact timeToExpiryYears_fl_exact
  by simp

lemma processFetchedMarket_fl_exact:
  "processFetchedMarket_fl exactArith prices d now
       \<lparr> f_market = m, f_expiryDate = ValidDate (m_expiryDate m) \<rparr>
     = (case processMarket prices d now m of None \<Rightarrow> Skipped | Some opp \<Rightarrow> Computed opp)"
  by (simp add: processFetchedMarket_fl_def processMarket_fl_exact processMarket_def
      split: option.splits)

lemma collectItems_fl_exact:
  "collectItems_fl exactArith prices d clock i
       (map (\<lambda>m. \<lparr> f_market = m, f_expiryDate = ValidDate (m_expiryDate m) \<rparr>) markets)
     = map Computed (collectOpportunities prices d clock i markets)"
proof (induction markets arbitrary: i)
  case Nil
  show ?case by simp
next
  case (Cons m markets)
  show ?case
    using Cons.IH[of "Suc i"]
    by (simp add: processFetchedMarket_fl_exact split: option.splits)
qed

lemma computedOpportunities_Computed: "computedOpportunities (map Computed xs) = xs"
  by (induction xs) simp_all

lemma rankFetchedMarkets_fl_exact:
  "rankFetchedMarkets_fl exactArith prices d clock
       (map (\<lambda>m. \<lparr> f_market = m, f_expiryDate = ValidDate (m_expiryDate m) \<rparr>) markets)
     = Some (rankOpportunities prices d clock markets)"
proof -
  have c: "compareOpportunities_fl exactArith = compareOpportunities"
    by (intro ext) (simp add: compareOpportunities_fl_def compareOpportunities_def)
  show ?thesis
    unfolding rankFetchedMarkets_fl_def rankOpportunities_def collectItems_fl_exact c
    by (auto simp add: computedOpportunities_Computed)
qed

section \<open>Claims about the opportunity pipeline and the probability engine\<close>

text \<open>
  Claim C6, as the code has it. The comparator of the final \<open>sort\<close> reads one edge per
  opportunity, \<open>edgeVsDeribit ?? edgeVsZscore\<close>: the delta-based edge when it is present and
  the z-score edge otherwise. When \<open>GET\<close> returns a ranked list, that is, when no market
  that was processed has an Invalid Date as its expiry (such a market yields an opportunity
  whose edge is \<open>NaN\<close>, and the order of the list is then implementation-defined), the list
  is in descending order of the absolute value of that edge, it is a rearrangement of the
  opportunities collected, and opportunities of equal absolute edge keep the order in which
  the markets were processed (no tie-break on volume or expiry is made). This holds in every
  arithmetic in which the rounded difference of two numbers has the sign of the exact
  difference, as it has in doubles.
\<close>

theorem ranking_by_primary_edge:
  assumes "rankFetchedMarkets_fl ar prices deribitData clock fetched = Some ranked"
    and "\<forall>x. (rnd ar x \<le> 0) = (x \<le> 0)"
  shows "sorted_wrt (\<lambda>a b. \<bar>primaryEdge b\<bar> \<le> \<bar>primaryEdge a\<bar>) ranked
       \<and> mset ranked
           = mset (computedOpportunities (collectItems_fl ar prices deribitData clock 0 fetched))
       \<and> filter (\<lambda>a. \<bar>primaryEdge a\<bar> = k) ranked
           = filter (\<lambda>a. \<bar>primaryEdge a\<bar> = k)
               (computedOpportunities (collectItems_fl ar prices deribitData clock 0 fetched))
       \<and> NotANumber \<notin> set (collectItems_fl ar prices deribitData clock 0 fetched)"
proof -
  define xs where "xs = computedOpportunities (collectItems_fl ar prices deribitData clock 0 fetched)"
  have n: "NotANumber \<notin> set (collectItems_fl ar prices deribitData clock 0 fetched)"
    using assms(1) by (simp add: rankFetchedMarkets_fl_def Let_def split: if_splits)
  have "ranked = sortBy (compareOpportunities_fl ar) xs"
    using assms(1) by (simp add: rankFetchedMarkets_fl_def Let_def xs_def split: if_splits)
  then have r: "ranked = sortBy (\<lambda>a b. \<bar>primaryEdge b\<bar> - \<bar>primaryEdge a\<bar>) xs"
    unfolding sortBy_compareOpportunities_fl[OF assms(2)] compareOpportunities_key .
  have st: "filter (\<lambda>a. - \<bar>primaryEdge a\<bar> = - k) (sort_key (\<lambda>a. - \<bar>primaryEdge a\<bar>) xs)
        = filter (\<lambda>a. - \<bar>primaryEdge a\<bar> = - k) xs"
    by (rule sort_key_stable)
  show ?thesis
    unfolding xs_def[symmetric] r
    using sortBy_sorted[of "\<lambda>a. \<bar>primaryEdge a\<bar>" xs] st n
    by (simp add: sortBy_sort_key)
qed

text \<open>
  Witness for C6 as amended, in doubles. Three markets with valid expiry dates are ranked;
  with an Invalid Date among the expiry dates no order is guaranteed.
\<close>

theorem ranking_by_primary_edge_witness:
  "rankFetchedMarkets_fl ieeeDouble ex_prices ex_deribit_fl (\<lambda>i. ex_now) ex_fetched \<noteq> None
   \<and> sorted_wrt (\<lambda>a b. \<bar>primaryEdge b\<bar> \<le> \<bar>primaryEdge a\<bar>)
        (the (rankFetchedMarkets_fl ieeeDouble ex_prices ex_deribit_fl (\<lambda>i. ex_now) ex_fetched))
   \<and> mset (the (rankFetchedMarkets_fl ieeeDouble ex_prices ex_deribit_fl (\<lambda>i. ex_now) ex_fetched))
       = mset (computedOpportunities
                 (collectItems_fl ieeeDouble ex_prices ex_deribit_fl (\<lambda>i. ex_now) 0 ex_fetched))
   \<and> rankFetchedMarkets_fl ieeeDouble ex_prices ex_deribit_fl (\<lambda>i. ex_now) ex_fetchedInvalid = None"
proof -
  have v: "list_all (\<lambda>f. f_expiryDate f \<noteq> InvalidDate) ex_fetched"
    by (simp add: ex_fetched_def)
  obtain ranked where r: "rankFetchedMarkets_fl ieeeDouble ex_prices ex_deribit_fl (\<lambda>i. ex_now)
                            ex_fetched = Some ranked"
    using rankFetchedMarkets_fl_valid[OF v] by simp
  have s: "\<forall>x. (rnd ieeeDouble x \<le> 0) = (x \<le> 0)"
    by (simp add: ieeeDouble_def roundDouble_sign)
  have n: "rankFetchedMarkets_fl ieeeDouble ex_prices ex_deribit_fl (\<lambda>i. ex_now) ex_fetchedInvalid
             = None"
    unfolding rankFetchedMarkets_fl_None
    by (simp add: ex_fetchedInvalid_def ex_btcDeepAbove_def ex_prices_def)
  show ?thesis
    using ranking_by_primary_edge[OF r s] r n by simp
qed

text \<open>
  Claim C6, as stated, fails. Bitcoin trades at its target with a market price of 0.9: its
  z-score edge is 0.4000000005 and its delta-based edge stays below 0.37. Solana trades at its
  target with a market price of 0.88 and has no options data: its only edge is 0.3800000005.
  The code ranks Solana first, although the larger of Bitcoin's two absolute edges exceeds
  Solana's.
\<close>

theorem ranking_not_by_max_edge:
  "\<not> sorted_wrt (\<lambda>a b. spec_rankKey b \<le> spec_rankKey a)
       (rankOpportunities ex_prices ex_deribit (\<lambda>i. ex_now) [ex_btcBinary, ex_solBinary])"
proof -
  define cd where "cd = calculateCallDelta 100000 100000 0.55 1"
  have cdb: "0.54 \<le> cd" "cd < 1" using ex_callDelta_binary by (simp_all add: cd_def)
  obtain oB where oB: "processMarket ex_prices ex_deribit ex_now ex_btcBinary = Some oB"
    and zB: "o_zscoreProb oB = zscoreProbOf ex_btcBinary (the (ex_prices (m_crypto ex_btcBinary)))
                   (v_volatility (getVolatilityData (m_crypto ex_btcBinary) ex_deribit)) 1"
    and dB: "o_deribitProb oB = deribitProbOf ex_deribit ex_btcBinary (the (ex_prices (m_crypto ex_btcBinary))) 1"
    and ezB: "o_edgeVsZscore oB = m_polymarketPrice ex_btcBinary - e_probability (o_zscoreProb oB)"
    and edB: "o_edgeVsDeribit oB
               = map_option (\<lambda>d. m_polymarketPrice ex_btcBinary - e_probability d) (o_deribitProb oB)"
    using ex_process[of ex_btcBinary] by auto
  obtain oA where oA: "processMarket ex_prices ex_deribit ex_now ex_solBinary = Some oA"
    and zA: "o_zscoreProb oA = zscoreProbOf ex_solBinary (the (ex_prices (m_crypto ex_solBinary)))
                   (v_volatility (getVolatilityData (m_crypto ex_solBinary) ex_deribit)) 1"
    and dA: "o_deribitProb oA = deribitProbOf ex_deribit ex_solBinary (the (ex_prices (m_crypto ex_solBinary))) 1"
    and ezA: "o_edgeVsZscore oA = m_polymarketPrice ex_solBinary - e_probability (o_zscoreProb oA)"
    and edA: "o_edgeVsDeribit oA
               = map_option (\<lambda>d. m_polymarketPrice ex_solBinary - e_probability d) (o_deribitProb oA)"
    using ex_process[of ex_solBinary] by auto
  have pB: "the (ex_prices (m_crypto ex_btcBinary)) = 100000"
    and pA: "the (ex_prices (m_crypto ex_solBinary)) = 200"
    by (simp_all add: ex_prices_def ex_btcBinary_def ex_solBinary_def)
  have zpB: "e_probability (o_zscoreProb oB) = 0.4999999995"
    unfolding zB pB
    by (simp add: zscoreProbOf_def effectiveTarget_def ex_btcBinary_def zscore_at_the_money
          ex_vol_BTC)
  have zpA: "e_probability (o_zscoreProb oA) = 0.4999999995"
    unfolding zA pA
    by (simp add: zscoreProbOf_def effectiveTarget_def ex_solBinary_def zscore_at_the_money
          ex_vol_SOL)
  have eZB: "o_edgeVsZscore oB = 0.4000000005"
    unfolding ezB zpB by (simp add: ex_btcBinary_def)
  have eZA: "o_edgeVsZscore oA = 0.3800000005"
    unfolding ezA zpA by (simp add: ex_solBinary_def)
  have eDB: "o_edgeVsDeribit oB = Some (0.9 - cd)"
    unfolding edB dB pB ex_btcBinary_estimate cd_def by (simp add: ex_btcBinary_def)
  have "deribitProbOf ex_deribit ex_solBinary 200 1 = None"
    by (simp add: deribitProbOf_def ex_deribit_def ex_solBinary_def)
  then have eDA: "o_edgeVsDeribit oA = None"
    unfolding edA dA pA by simp
  have "0.9 - cd < 0.37" and "- (0.9 - cd) < 0.37" using cdb by simp_all
  then have "\<bar>0.9 - cd\<bar> < 0.37" unfolding abs_less_iff by (rule conjI)
  then have kB: "\<bar>primaryEdge oB\<bar> < 0.37"
    by (simp add: primaryEdge_def eDB)
  have kA: "\<bar>primaryEdge oA\<bar> = 0.3800000005"
    by (simp add: primaryEdge_def eDA eZA)
  have cmp: "\<not> compareOpportunities oB oA \<le> 0"
    using kA kB by (simp add: compareOpportunities_def Let_def)
  have r: "rankOpportunities ex_prices ex_deribit (\<lambda>i. ex_now) [ex_btcBinary, ex_solBinary] = [oA, oB]"
    using cmp by (simp add: rankOpportunities_def sortBy_def oA oB)
  have sA: "spec_rankKey oA = 0.3800000005"
    by (simp add: spec_rankKey_def eDA eZA)
  have sB: "0.4000000005 \<le> spec_rankKey oB"
    by (simp add: spec_rankKey_def eDB eZB)
  show ?thesis
    unfolding r using sA sB by simp
qed

text \<open>
  Claim C7, in the arithmetic of the program. An opportunity carries an options-delta
  estimate only if the probability computed for it lies strictly between 0 and 1, and then
  the estimate holds exactly that probability. When options data exists for the symbol and
  the computed probability is at most 0 or at least 1, the opportunity has neither the
  estimate nor the delta-based edge; the z-score estimate is always present. The statement
  holds for every arithmetic \<open>ar\<close>, in particular for the doubles, on which \<open>normalCDF\<close>
  returns exactly 1 and the put delta is then exactly 0. (The opportunity of a market whose
  expiry is an Invalid Date has \<open>NaN\<close> as its probability and no estimate either: it is the
  item \<open>NotANumber\<close> of \<open>processFetchedMarket_fl\<close>.)
\<close>

theorem deribit_estimate_strictly_inside:
  assumes "processMarket_fl ar prices deribitData now market = Some opp"
  shows "(\<forall>est. o_deribitProb opp = Some est \<longrightarrow>
            0 < e_probability est \<and> e_probability est < 1 \<and> e_method est = DeribitDelta
            \<and> e_probability est
                = deribitProbability_fl ar market (o_currentPrice opp) (e_volatilityUsed est)
                    (timeToExpiryYears_fl ar (m_expiryDate market) now))
       \<and> (\<forall>deribit P. deribitData (m_crypto market) = Some deribit
             \<and> deribitProbability_fl ar market (o_currentPrice opp)
                  (fc_iv (findClosestStrikeIV_fl ar deribit (m_targetPrice market)
                            (m_expiryDate market)))
                  (timeToExpiryYears_fl ar (m_expiryDate market) now) = P
             \<and> (P \<le> 0 \<or> 1 \<le> P)
           \<longrightarrow> o_deribitProb opp = None \<and> o_edgeVsDeribit opp = None)
       \<and> e_method (o_zscoreProb opp) = Zscore"
proof (intro conjI allI impI)
  fix est assume "o_deribitProb opp = Some est"
  then have "deribitProbOf_fl ar deribitData market (o_currentPrice opp)
               (timeToExpiryYears_fl ar (m_expiryDate market) now) = Some est"
    using processMarket_fl_fields(6)[OF assms] by simp
  from deribitProbOf_fl_cases[OF this]
  show "0 < e_probability est" and "e_probability est < 1" and "e_method est = DeribitDelta"
    and "e_probability est
           = deribitProbability_fl ar market (o_currentPrice opp) (e_volatilityUsed est)
               (timeToExpiryYears_fl ar (m_expiryDate market) now)"
    by auto
next
  fix deribit P
  assume h: "deribitData (m_crypto market) = Some deribit
             \<and> deribitProbability_fl ar market (o_currentPrice opp)
                  (fc_iv (findClosestStrikeIV_fl ar deribit (m_targetPrice market)
                            (m_expiryDate market)))
                  (timeToExpiryYears_fl ar (m_expiryDate market) now) = P
             \<and> (P \<le> 0 \<or> 1 \<le> P)"
  have n: "deribitProbOf_fl ar deribitData market (o_currentPrice opp)
            (timeToExpiryYears_fl ar (m_expiryDate market) now) = None"
    using h by (intro deribitProbOf_fl_None[where P = P]) auto
  show "o_deribitProb opp = None"
    using n processMarket_fl_fields(6)[OF assms] by simp
  then show "o_edgeVsDeribit opp = None"
    using processMarket_fl_fields(8)[OF assms] by simp
next
  show "e_method (o_zscoreProb opp) = Zscore"
    using processMarket_fl_fields(5)[OF assms] by (simp add: zscoreProbOf_fl_method)
qed

text \<open>
  Witness for C7, in doubles. A binary Bitcoin market at its target gets an estimate strictly
  inside \<open>(0, 1)\<close>. With the target at a quarter of the spot price and a hundredth of a year
  to expiry, \<open>normalCDF\<close> returns exactly 1: the market asking for a price above the target
  has the computed probability 1, the market asking for a price below it has the computed
  probability \<open>1 - 1 = 0\<close>, and neither opportunity has an options-delta estimate.
\<close>

theorem deribit_estimate_strictly_inside_witness:
  "processMarket_fl ieeeDouble ex_prices ex_deribit_fl ex_now ex_btcAtSpot \<noteq> None
   \<and> o_deribitProb (the (processMarket_fl ieeeDouble ex_prices ex_deribit_fl ex_now ex_btcAtSpot)) \<noteq> None
   \<and> 0 < e_probability (the (o_deribitProb (the (processMarket_fl ieeeDouble ex_prices ex_deribit_fl
                                                 ex_now ex_btcAtSpot))))
   \<and> e_probability (the (o_deribitProb (the (processMarket_fl ieeeDouble ex_prices ex_deribit_fl
                                             ex_now ex_btcAtSpot)))) < 1
   \<and> processMarket_fl ieeeDouble ex_prices ex_deribit_fl ex_now ex_btcDeepAbove \<noteq> None
   \<and> deribitProbability_fl ieeeDouble ex_btcDeepAbove 100000 ex_iv
        (timeToExpiryYears_fl ieeeDouble (m_expiryDate ex_btcDeepAbove) ex_now) = 1
   \<and> o_deribitProb (the (processMarket_fl ieeeDouble ex_prices ex_deribit_fl ex_now ex_btcDeepAbove)) = None
   \<and> o_edgeVsDeribit (the (processMarket_fl ieeeDouble ex_prices ex_deribit_fl ex_now ex_btcDeepAbove)) = None
   \<and> processMarket_fl ieeeDouble ex_prices ex_deribit_fl ex_now ex_btcDeepBelow \<noteq> None
   \<and> deribitProbability_fl ieeeDouble ex_btcDeepBelow 100000 ex_iv
        (timeToExpiryYears_fl ieeeDouble (m_expiryDate ex_btcDeepBelow) ex_now) = 0
   \<and> o_deribitProb (the (processMarket_fl ieeeDouble ex_prices ex_deribit_fl ex_now ex_btcDeepBelow)) = None
   \<and> o_edgeVsDeribit (the (processMarket_fl ieeeDouble ex_prices ex_deribit_fl ex_now ex_btcDeepBelow)) = None"
proof -
  have TA: "timeToExpiryYears_fl ieeeDouble (m_expiryDate ex_btcAtSpot) ex_now = 1"
    by (simp add: ex_btcAtSpot_def ex_timeToExpiry_fl)
  have TU: "timeToExpiryYears_fl ieeeDouble (m_expiryDate ex_btcDeepAbove) ex_now
              = 5764607523034235 / 576460752303423488"
    by (simp add: ex_btcDeepAbove_def ex_timeToExpiry_fl)
  have TD: "timeToExpiryYears_fl ieeeDouble (m_expiryDate ex_btcDeepBelow) ex_now
              = 5764607523034235 / 576460752303423488"
    by (simp add: ex_btcDeepBelow_def ex_timeToExpiry_fl)
  obtain oA where oA: "processMarket_fl ieeeDouble ex_prices ex_deribit_fl ex_now ex_btcAtSpot = Some oA"
    using ex_process_fl[of ex_btcAtSpot] unfolding TA by (auto simp add: ex_btcAtSpot_def)
  obtain oU where oU: "processMarket_fl ieeeDouble ex_prices ex_deribit_fl ex_now ex_btcDeepAbove = Some oU"
    using ex_process_fl[of ex_btcDeepAbove] unfolding TU by (auto simp add: ex_btcDeepAbove_def)
  obtain oD where oD: "processMarket_fl ieeeDouble ex_prices ex_deribit_fl ex_now ex_btcDeepBelow = Some oD"
    using ex_process_fl[of ex_btcDeepBelow] unfolding TD by (auto simp add: ex_btcDeepBelow_def)
  have pA: "o_currentPrice oA = 100000"
    using processMarket_fl_fields(1)[OF oA] by (simp add: ex_prices_def ex_btcAtSpot_def)
  have pU: "o_currentPrice oU = 100000"
    using processMarket_fl_fields(1)[OF oU] by (simp add: ex_prices_def ex_btcDeepAbove_def)
  have pD: "o_currentPrice oD = 100000"
    using processMarket_fl_fields(1)[OF oD] by (simp add: ex_prices_def ex_btcDeepBelow_def)
  have cA: "m_crypto ex_btcAtSpot = ''BTC''" by (simp add: ex_btcAtSpot_def)
  have eA: "o_deribitProb oA \<noteq> None"
    using processMarket_fl_fields(6)[OF oA] ex_probability_atSpot
    unfolding pA TA ex_deribitProbOf_fl[OF cA] by simp
  have dU: "ex_deribit_fl (m_crypto ex_btcDeepAbove)
              = Some \<lparr> d_atmIv = ex_iv, d_ivByStrike =
       [(100000, \<lparr> k_callIv = ex_iv, k_putIv = ex_iv,
                    k_callDelta = 0.5, k_putDelta = -0.5 \<rparr>)] \<rparr>"
    by (simp add: ex_btcDeepAbove_def ex_deribit_fl_def)
  have dD: "ex_deribit_fl (m_crypto ex_btcDeepBelow)
              = Some \<lparr> d_atmIv = ex_iv, d_ivByStrike =
       [(100000, \<lparr> k_callIv = ex_iv, k_putIv = ex_iv,
                    k_callDelta = 0.5, k_putDelta = -0.5 \<rparr>)] \<rparr>"
    by (simp add: ex_btcDeepBelow_def ex_deribit_fl_def)
  have PU: "deribitProbability_fl ieeeDouble ex_btcDeepAbove (o_currentPrice oU)
              (fc_iv (findClosestStrikeIV_fl ieeeDouble \<lparr> d_atmIv = ex_iv, d_ivByStrike =
       [(100000, \<lparr> k_callIv = ex_iv, k_putIv = ex_iv,
                    k_callDelta = 0.5, k_putDelta = -0.5 \<rparr>)] \<rparr>
                 (m_targetPrice ex_btcDeepAbove) (m_expiryDate ex_btcDeepAbove)))
              (timeToExpiryYears_fl ieeeDouble (m_expiryDate ex_btcDeepAbove) ex_now) = 1"
    unfolding pU findClosestStrikeIV_fl_single TU
    using ex_probability_deepAbove ex_iv_lo by (simp add: orElse_def)
  have PD: "deribitProbability_fl ieeeDouble ex_btcDeepBelow (o_currentPrice oD)
              (fc_iv (findClosestStrikeIV_fl ieeeDouble \<lparr> d_atmIv = ex_iv, d_ivByStrike =
       [(100000, \<lparr> k_callIv = ex_iv, k_putIv = ex_iv,
                    k_callDelta = 0.5, k_putDelta = -0.5 \<rparr>)] \<rparr>
                 (m_targetPrice ex_btcDeepBelow) (m_expiryDate ex_btcDeepBelow)))
              (timeToExpiryYears_fl ieeeDouble (m_expiryDate ex_btcDeepBelow) ex_now) = 0"
    unfolding pD findClosestStrikeIV_fl_single TD
    using ex_probability_deepBelow ex_iv_lo by (simp add: orElse_def)
  show ?thesis
    using deribit_estimate_strictly_inside[OF oA] deribit_estimate_strictly_inside[OF oU]
      deribit_estimate_strictly_inside[OF oD]
      oA eA oU dU PU oD dD PD ex_probability_deepAbove ex_probability_deepBelow
    unfolding TU TD
    by auto
qed

text \<open>
  Claim C8. For positive spot price, target, volatility and time, the one-touch probability is
  \<open>min 1 (2 q)\<close>, where \<open>q\<close> is \<open>1 - normalCDF z\<close> if the target is above the spot price and
  \<open>normalCDF z\<close> otherwise, with \<open>z = ln (K / S) / (sigma * sqrt T)\<close>. An options-delta estimate
  emitted for a one-touch market is \<open>min 1 (2 * baseDelta)\<close> for the call delta (target above
  spot) or one minus it, whatever strike volatility was used.
\<close>

theorem one_touch_min_rule:
  assumes "0 < S" and "0 < K" and "0 < sigma" and "0 < T"
  shows "e_probability (calculateOneTouchProbability S K sigma T)
           = min 1 (2 * (if K > S then 1 - normalCDF (ln (K / S) / (sigma * sqrt T))
                         else normalCDF (ln (K / S) / (sigma * sqrt T))))
       \<and> (m_targetPrice market = K \<and> m_betType market = OneTouch
            \<and> deribitProbOf deribitData market S T = Some est
          \<longrightarrow> e_probability est
                = min 1 (2 * (if K > S then calculateCallDelta S K (e_volatilityUsed est) T
                              else 1 - calculateCallDelta S K (e_volatilityUsed est) T)))"
proof
  have z: "calculateZScore S K sigma T = Fin (ln (K / S) / (sigma * sqrt T))"
    using assms by (simp add: calculateZScore_def Let_def)
  show "e_probability (calculateOneTouchProbability S K sigma T)
           = min 1 (2 * (if K > S then 1 - normalCDF (ln (K / S) / (sigma * sqrt T))
                         else normalCDF (ln (K / S) / (sigma * sqrt T))))"
    by (simp add: calculateOneTouchProbability_def Let_def z)
next
  show "m_targetPrice market = K \<and> m_betType market = OneTouch
            \<and> deribitProbOf deribitData market S T = Some est
          \<longrightarrow> e_probability est
                = min 1 (2 * (if K > S then calculateCallDelta S K (e_volatilityUsed est) T
                              else 1 - calculateCallDelta S K (e_volatilityUsed est) T))"
    by (auto simp add: deribitProbOf_def deribitProbability_def effectiveTarget_def Let_def
             split: option.splits if_splits)
qed

text \<open>Witness for C8: a one-touch market on Bitcoin at 100000 with the target at 80000.\<close>

theorem one_touch_min_rule_witness:
  "(0::real) < 100000 \<and> (0::real) < 80000 \<and> (0::real) < 0.55 \<and> (0::real) < 1
   \<and> e_probability (calculateOneTouchProbability 100000 80000 0.55 1)
        = min 1 (2 * normalCDF (ln (80000 / 100000) / (0.55 * sqrt 1)))
   \<and> m_targetPrice ex_btcTouchDown = 80000 \<and> m_betType ex_btcTouchDown = OneTouch
   \<and> deribitProbOf ex_deribit ex_btcTouchDown 100000 1 \<noteq> None
   \<and> e_probability (the (deribitProbOf ex_deribit ex_btcTouchDown 100000 1))
        = min 1 (2 * (1 - calculateCallDelta 100000 80000 0.55 1))"
  using one_touch_min_rule[of 100000 80000 "0.55" 1 ex_btcTouchDown ex_deribit
          "the (deribitProbOf ex_deribit ex_btcTouchDown 100000 1)"]
        touchDown_estimate
  by (simp add: ex_btcTouchDown_def)

text \<open>
  Claim C10. For a one-touch market the outcome of the pipeline does not depend on the
  \<open>direction\<close> field: the opportunities computed for direction above and for direction below
  differ in that field only, so both estimates, both edges, the signal and the confidence are
  the same. The z-score probability is determined by whether the target is above the spot
  price.
\<close>

theorem one_touch_ignores_direction:
  assumes "m_betType market = OneTouch"
  shows "processMarket prices deribitData now (market\<lparr> m_direction := Below \<rparr>)
           = map_option (\<lambda>opp. opp\<lparr> o_market := (o_market opp)\<lparr> m_direction := Below \<rparr> \<rparr>)
               (processMarket prices deribitData now (market\<lparr> m_direction := Above \<rparr>))
       \<and> zscoreProbOf (market\<lparr> m_direction := Below \<rparr>) S vol T
           = zscoreProbOf (market\<lparr> m_direction := Above \<rparr>) S vol T
       \<and> deribitProbOf deribitData (market\<lparr> m_direction := Below \<rparr>) S T
           = deribitProbOf deribitData (market\<lparr> m_direction := Above \<rparr>) S T
       \<and> e_probability (zscoreProbOf market S vol T)
           = min 1 (2 * (if m_targetPrice market > S
                         then 1 - normalCDF_js (calculateZScore S (m_targetPrice market) vol T)
                         else normalCDF_js (calculateZScore S (m_targetPrice market) vol T)))"
proof -
  have z: "zscoreProbOf (market\<lparr> m_direction := d \<rparr>) S' vol' T'
             = calculateOneTouchProbability S' (m_targetPrice market) vol' T'" for d S' vol' T'
    using assms by (simp add: zscoreProbOf_def effectiveTarget_def)
  have p: "deribitProbability (market\<lparr> m_direction := d \<rparr>) S' iv T'
             = deribitProbability market S' iv T'" for d S' iv T'
    using assms by (simp add: deribitProbability_def effectiveTarget_def Let_def)
  have d: "deribitProbOf deribitData (market\<lparr> m_direction := d \<rparr>) S' T'
             = deribitProbOf deribitData market S' T'" for d S' T'
    by (simp add: deribitProbOf_def p effectiveTarget_def Let_def split: option.splits)
  have pm: "processMarket prices deribitData now (market\<lparr> m_direction := Below \<rparr>)
           = map_option (\<lambda>opp. opp\<lparr> o_market := (o_market opp)\<lparr> m_direction := Below \<rparr> \<rparr>)
               (processMarket prices deribitData now (market\<lparr> m_direction := Above \<rparr>))"
    by (simp add: processMarket_def z d Let_def split: option.splits)
  have zp: "e_probability (zscoreProbOf market S vol T)
           = min 1 (2 * (if m_targetPrice market > S
                         then 1 - normalCDF_js (calculateZScore S (m_targetPrice market) vol T)
                         else normalCDF_js (calculateZScore S (m_targetPrice market) vol T)))"
    using assms
    by (simp add: zscoreProbOf_def effectiveTarget_def calculateOneTouchProbability_def Let_def)
  show ?thesis using pm zp by (simp add: z d)
qed

text \<open>Witness for C10: the one-touch market on Bitcoin with the target at 80000.\<close>

theorem one_touch_ignores_direction_witness:
  "m_betType ex_btcTouchDown = OneTouch
   \<and> processMarket ex_prices ex_deribit ex_now (ex_btcTouchDown\<lparr> m_direction := Above \<rparr>) \<noteq> None
   \<and> processMarket ex_prices ex_deribit ex_now (ex_btcTouchDown\<lparr> m_direction := Below \<rparr>)
       = map_option (\<lambda>opp. opp\<lparr> o_market := (o_market opp)\<lparr> m_direction := Below \<rparr> \<rparr>)
           (processMarket ex_prices ex_deribit ex_now (ex_btcTouchDown\<lparr> m_direction := Above \<rparr>))
   \<and> e_probability (zscoreProbOf ex_btcTouchDown 100000 0.55 1)
       = min 1 (2 * normalCDF_js (calculateZScore 100000 80000 0.55 1))"
proof -
  have bt: "m_betType ex_btcTouchDown = OneTouch" by (simp add: ex_btcTouchDown_def)
  have "\<exists>opp. processMarket ex_prices ex_deribit ex_now (ex_btcTouchDown\<lparr> m_direction := Above \<rparr>) = Some opp"
    by (simp add: processMarket_def ex_prices_def ex_btcTouchDown_def ex_T Let_def)
  then have ne: "processMarket ex_prices ex_deribit ex_now (ex_btcTouchDown\<lparr> m_direction := Above \<rparr>) \<noteq> None"
    by auto
  have tp: "m_targetPrice ex_btcTouchDown = 80000" by (simp add: ex_btcTouchDown_def)
  show ?thesis
    using one_touch_ignores_direction[OF bt, of ex_prices ex_deribit ex_now 100000 "0.55" 1] ne bt
    by (simp add: tp)
qed

section \<open>Properties of the paper trading bot\<close>

lemma distinct_map_Cons_neq:
  assumes "distinct (map f (x # xs))" and "y \<in> set xs"
  shows "f y \<noteq> f x"
proof
  assume "f y = f x"
  then have "f x \<in> f ` set xs" using assms(2) by (metis imageI)
  then show False using assms(1) by simp
qed

lemma distinct_map_Cons_tl:
  assumes "distinct (map f (x # xs))"
  shows "distinct (map f xs)"
  using assms by simp



lemma updatePosition_keeps [simp]:
  "p_id (updatePosition opps p) = p_id p"
  "p_size (updatePosition opps p) = p_size p"
  "p_shares (updatePosition opps p) = p_shares p"
  "p_entryPrice (updatePosition opps p) = p_entryPrice p"
  "p_side (updatePosition opps p) = p_side p"
  "p_marketId (updatePosition opps p) = p_marketId p"
  by (simp_all add: updatePosition_def Let_def split: option.splits)

lemma updateOpenPositions_fields [simp]:
  "s_currentBalance (updateOpenPositions opps st) = s_currentBalance st"
  "s_startingBalance (updateOpenPositions opps st) = s_startingBalance st"
  "s_totalPnl (updateOpenPositions opps st) = s_totalPnl st"
  "map p_id (s_openPositions (updateOpenPositions opps st)) = map p_id (s_openPositions st)"
  "map p_size (s_openPositions (updateOpenPositions opps st)) = map p_size (s_openPositions st)"
  by (simp_all add: updateOpenPositions_def comp_def)

lemma closePosition_fields [simp]:
  "s_startingBalance (closePosition p cp ce r st) = s_startingBalance st"
  "s_openPositions (closePosition p cp ce r st)
     = filter (\<lambda>q. p_id q \<noteq> p_id p) (s_openPositions st)"
  "s_currentBalance (closePosition p cp ce r st) - s_totalPnl (closePosition p cp ce r st)
     = s_currentBalance st - s_totalPnl st + p_size p"
  by (simp_all add: closePosition_def Let_def)

lemma sum_sizes_remove:
  assumes "p \<in> set ps" and "distinct (map p_id ps)"
  shows "sum_list (map p_size (filter (\<lambda>q. p_id q \<noteq> p_id p) ps))
           = sum_list (map p_size ps) - p_size p"
  using assms
proof (induction ps)
  case Nil
  then show ?case by simp
next
  case (Cons a ps)
  show ?case
  proof (cases "a = p")
    case True
    then have "\<forall>q \<in> set ps. p_id q \<noteq> p_id p"
      using distinct_map_Cons_neq[of p_id p ps] Cons.prems(2) by blast
    then have "filter (\<lambda>q. p_id q \<noteq> p_id p) ps = ps" by (simp add: filter_id_conv)
    then show ?thesis using True by simp
  next
    case False
    then have mem: "p \<in> set ps" using Cons.prems(1) by simp
    then have "p_id a \<noteq> p_id p" using Cons.prems(2) by auto
    then show ?thesis using Cons.IH[OF mem] Cons.prems(2) by simp
  qed
qed









section \<open>Properties of the paper trading bot in double arithmetic\<close>

lemma ledgerOf_snoc: "ledgerOf fl s (ts @ [t]) = ledgerStep fl (ledgerOf fl s ts) t"
  by (simp add: ledgerOf_def)

lemma ledgerStep_bound:
  assumes "\<forall>x. \<bar>fl x - x\<bar> \<le> u * \<bar>x\<bar>"
  shows "\<bar>l_drift (ledgerStep fl l t)\<bar>
           \<le> \<bar>l_drift l\<bar> + u * (l_volume (ledgerStep fl l t) - l_volume l)"
proof (cases "t_action t")
  case ActionOpen
  define exact where "exact = l_balance l - t_size t"
  have d: "l_drift (ledgerStep fl l t) = l_drift l + (fl exact - exact)"
    and v: "l_volume (ledgerStep fl l t) = l_volume l + \<bar>exact\<bar>"
    using ActionOpen by (simp_all add: ledgerStep_def Let_def exact_def)
  have "\<bar>fl exact - exact\<bar> \<le> u * \<bar>exact\<bar>" using assms by blast
  then show ?thesis unfolding d v by simp
next
  case ActionClose
  define credit where "credit = t_size t + tradePnl t"
  define exact where "exact = l_balance l + fl credit"
  define total where "total = l_totalPnl l + tradePnl t"
  have d: "l_drift (ledgerStep fl l t)
             = l_drift l + (fl exact - exact) + (fl credit - credit) - (fl total - total)"
    and v: "l_volume (ledgerStep fl l t) = l_volume l + \<bar>exact\<bar> + \<bar>credit\<bar> + \<bar>total\<bar>"
    using ActionClose by (simp_all add: ledgerStep_def Let_def exact_def credit_def total_def)
  have "\<bar>fl exact - exact\<bar> \<le> u * \<bar>exact\<bar>" "\<bar>fl credit - credit\<bar> \<le> u * \<bar>credit\<bar>"
    "\<bar>fl total - total\<bar> \<le> u * \<bar>total\<bar>" using assms by blast+
  moreover have "u * (l_volume l + \<bar>exact\<bar> + \<bar>credit\<bar> + \<bar>total\<bar> - l_volume l)
                   = u * \<bar>exact\<bar> + u * \<bar>credit\<bar> + u * \<bar>total\<bar>"
    by (simp add: algebra_simps)
  ultimately show ?thesis unfolding d v by linarith
qed

lemma ledger_drift_bound:
  assumes "\<forall>x. \<bar>fl x - x\<bar> \<le> u * \<bar>x\<bar>"
  shows "\<bar>l_drift (foldl (ledgerStep fl) l ts)\<bar>
           \<le> \<bar>l_drift l\<bar> + u * (l_volume (foldl (ledgerStep fl) l ts) - l_volume l)"
proof (induction ts arbitrary: l)
  case Nil
  show ?case by simp
next
  case (Cons t ts)
  have "\<bar>l_drift (foldl (ledgerStep fl) (ledgerStep fl l t) ts)\<bar>
          \<le> \<bar>l_drift (ledgerStep fl l t)\<bar>
             + u * (l_volume (foldl (ledgerStep fl) (ledgerStep fl l t) ts)
                     - l_volume (ledgerStep fl l t))"
    by (rule Cons.IH)
  also have "\<dots> \<le> (\<bar>l_drift l\<bar> + u * (l_volume (ledgerStep fl l t) - l_volume l))
             + u * (l_volume (foldl (ledgerStep fl) (ledgerStep fl l t) ts)
                     - l_volume (ledgerStep fl l t))"
    using ledgerStep_bound[OF assms, of l t] by simp
  also have "\<dots> = \<bar>l_drift l\<bar>
             + u * (l_volume (foldl (ledgerStep fl) (ledgerStep fl l t) ts) - l_volume l)"
    by (simp add: algebra_simps)
  finally show ?case by simp
qed

lemma ledgerOf_drift_bound:
  assumes "\<forall>x. \<bar>fl x - x\<bar> \<le> u * \<bar>x\<bar>"
  shows "\<bar>l_drift (ledgerOf fl s ts)\<bar> \<le> u * l_volume (ledgerOf fl s ts)"
  using ledger_drift_bound[OF assms, of "\<lparr> l_balance = s, l_totalPnl = 0, l_drift = 0, l_volume = 0 \<rparr>" ts]
  by (simp add: ledgerOf_def)

lemma updatePosition_fl_keeps [simp]:
  "p_id (updatePosition_fl fl opps p) = p_id p"
  "p_size (updatePosition_fl fl opps p) = p_size p"
  by (simp_all add: updatePosition_fl_def Let_def split: option.splits)

lemma updateOpenPositions_fl_fields [simp]:
  "s_currentBalance (updateOpenPositions_fl fl opps st) = s_currentBalance st"
  "s_startingBalance (updateOpenPositions_fl fl opps st) = s_startingBalance st"
  "s_totalPnl (updateOpenPositions_fl fl opps st) = s_totalPnl st"
  "s_trades (updateOpenPositions_fl fl opps st) = s_trades st"
  "map p_id (s_openPositions (updateOpenPositions_fl fl opps st)) = map p_id (s_openPositions st)"
  "map p_size (s_openPositions (updateOpenPositions_fl fl opps st)) = map p_size (s_openPositions st)"
  by (simp_all add: updateOpenPositions_fl_def comp_def)

lemma closePosition_fl_open [simp]:
  "s_openPositions (closePosition_fl fl p cp ce r st)
     = filter (\<lambda>q. p_id q \<noteq> p_id p) (s_openPositions st)"
  by (simp add: closePosition_fl_def Let_def)

lemma closePosition_fl_booked:
  assumes "booked fl st" and "p \<in> set (s_openPositions st)"
    and "distinct (map p_id (s_openPositions st))"
  shows "booked fl (closePosition_fl fl p cp ce r st)"
proof -
  define pnl where "pnl = (if p_side p = Long
                 then fl (p_shares p * fl (cp - p_entryPrice p))
                 else fl (p_shares p * fl (p_entryPrice p - cp)))"
  define tr where "tr = \<lparr> t_positionId = p_id p, t_marketId = p_marketId p,
                    t_action = ActionClose, t_side = p_side p, t_price = cp,
                    t_size = p_size p, t_shares = p_shares p,
                    t_edge = ce, t_zscoreProb = 0, t_deribitProb = None,
                    t_cryptoPrice = 0, t_pnl = Some pnl \<rparr>"
  define L where "L = ledgerOf fl (s_startingBalance st) (s_trades st)"
  define st' where "st' = closePosition_fl fl p cp ce r st"
  have f: "s_trades st' = s_trades st @ [tr]"
    "s_startingBalance st' = s_startingBalance st"
    "s_currentBalance st' = fl (s_currentBalance st + fl (p_size p + pnl))"
    "s_totalPnl st' = fl (s_totalPnl st + pnl)"
    by (simp_all add: st'_def closePosition_fl_def Let_def pnl_def tr_def)
  have b: "s_currentBalance st = l_balance L" "s_totalPnl st = l_totalPnl L"
    "s_currentBalance st + sum_list (map p_size (s_openPositions st))
         = s_startingBalance st + s_totalPnl st + l_drift L"
    using assms(1) by (simp_all add: booked_def L_def)
  have L': "ledgerOf fl (s_startingBalance st) (s_trades st') = ledgerStep fl L tr"
    by (simp add: f ledgerOf_snoc L_def)
  have s: "l_balance (ledgerStep fl L tr) = fl (l_balance L + fl (p_size p + pnl))"
    "l_totalPnl (ledgerStep fl L tr) = fl (l_totalPnl L + pnl)"
    "l_drift (ledgerStep fl L tr)
       = l_drift L + (fl (l_balance L + fl (p_size p + pnl))
                       - (l_balance L + fl (p_size p + pnl)))
         + (fl (p_size p + pnl) - (p_size p + pnl))
         - (fl (l_totalPnl L + pnl) - (l_totalPnl L + pnl))"
    by (simp_all add: ledgerStep_def Let_def tr_def tradePnl_def)
  have sm: "sum_list (map p_size (s_openPositions st'))
          = sum_list (map p_size (s_openPositions st)) - p_size p"
    using sum_sizes_remove[OF assms(2,3)] by (simp add: st'_def)
  have "booked fl st'"
    unfolding booked_def f(2,3,4) sm L' s using b by simp
  then show ?thesis by (simp add: st'_def)
qed

lemma exitLoop_fl_booked:
  assumes "booked fl st" and "distinct (map p_id (s_openPositions st))"
    and "set ps \<subseteq> set (s_openPositions st)" and "distinct (map p_id ps)"
  shows "booked fl (exitLoop_fl fl config opps clock i ps st)
       \<and> distinct (map p_id (s_openPositions (exitLoop_fl fl config opps clock i ps st)))
       \<and> set (s_openPositions (exitLoop_fl fl config opps clock i ps st)) \<subseteq> set (s_openPositions st)"
  using assms
proof (induction ps arbitrary: st i)
  case Nil
  then show ?case by simp
next
  case (Cons p ps)
  define chk where "chk = shouldExitPosition p (find (\<lambda>a. m_id (o_market a) = p_marketId p) opps) config (clock i)"
  define st' where "st' = (if x_shouldExit chk
       then closePosition_fl fl p (x_currentPrice chk) (x_currentEdge chk) (x_reason chk) st else st)"
  have step: "exitLoop_fl fl config opps clock i (p # ps) st = exitLoop_fl fl config opps clock (Suc i) ps st'"
    by (simp add: Let_def chk_def st'_def)
  have pin: "p \<in> set (s_openPositions st)" using Cons.prems(3) by simp
  have a': "booked fl st'"
    unfolding st'_def using Cons.prems(1,2) pin by (simp add: closePosition_fl_booked)
  have d': "distinct (map p_id (s_openPositions st'))"
    unfolding st'_def using Cons.prems(2) by (simp add: distinct_map_filter)
  have sub': "set (s_openPositions st') \<subseteq> set (s_openPositions st)"
    unfolding st'_def by auto
  have "set ps \<subseteq> set (s_openPositions st')"
  proof
    fix q assume q: "q \<in> set ps"
    then have "p_id q \<noteq> p_id p" using Cons.prems(4) by (rule distinct_map_Cons_neq[rotated])
    moreover have "q \<in> set (s_openPositions st)" using q Cons.prems(3) by auto
    ultimately show "q \<in> set (s_openPositions st')" unfolding st'_def by simp
  qed
  moreover have "distinct (map p_id ps)" using Cons.prems(4) by simp
  ultimately have IH: "booked fl (exitLoop_fl fl config opps clock (Suc i) ps st')
       \<and> distinct (map p_id (s_openPositions (exitLoop_fl fl config opps clock (Suc i) ps st')))
       \<and> set (s_openPositions (exitLoop_fl fl config opps clock (Suc i) ps st')) \<subseteq> set (s_openPositions st')"
    using Cons.IH[OF a' d'] by simp
  show ?case unfolding step using IH sub' by auto
qed

lemma entryLoop_fl_step:
  "entryLoop_fl fl config clock ids i (opp # opps) st
     = entryLoop_fl fl config clock ids (Suc i) opps (enterStep_fl fl config (clock i) (ids i) opp st)"
  by (simp add: enterStep_fl_def Let_def)

lemma enterStep_fl_cases:
  "enterStep_fl fl config now newId opp st = st
   \<or> (\<exists>pos tr. p_id pos = newId
            \<and> s_openPositions (enterStep_fl fl config now newId opp st) = s_openPositions st @ [pos]
            \<and> s_trades (enterStep_fl fl config now newId opp st) = s_trades st @ [tr]
            \<and> t_action tr = ActionOpen \<and> t_size tr = p_size pos
            \<and> s_currentBalance (enterStep_fl fl config now newId opp st)
                = fl (s_currentBalance st - p_size pos)
            \<and> s_totalPnl (enterStep_fl fl config now newId opp st) = s_totalPnl st
            \<and> s_startingBalance (enterStep_fl fl config now newId opp st) = s_startingBalance st)"
  by (simp add: enterStep_fl_def openPosition_fl_def Let_def)

lemma enterStep_fl_booked:
  assumes "booked fl st"
  shows "booked fl (enterStep_fl fl config now newId opp st)"
proof -
  define st' where "st' = enterStep_fl fl config now newId opp st"
  consider "st' = st"
    | pos tr where "s_openPositions st' = s_openPositions st @ [pos]"
        "s_trades st' = s_trades st @ [tr]" "t_action tr = ActionOpen" "t_size tr = p_size pos"
        "s_currentBalance st' = fl (s_currentBalance st - p_size pos)"
        "s_totalPnl st' = s_totalPnl st" "s_startingBalance st' = s_startingBalance st"
    using enterStep_fl_cases[of fl config now newId opp st] unfolding st'_def by blast
  then have "booked fl st'"
  proof cases
    case 1
    then show ?thesis using assms by simp
  next
    case 2
    define L where "L = ledgerOf fl (s_startingBalance st) (s_trades st)"
    have b: "s_currentBalance st = l_balance L" "s_totalPnl st = l_totalPnl L"
      "s_currentBalance st + sum_list (map p_size (s_openPositions st))
         = s_startingBalance st + s_totalPnl st + l_drift L"
      using assms by (simp_all add: booked_def L_def)
    have L': "ledgerOf fl (s_startingBalance st) (s_trades st') = ledgerStep fl L tr"
      by (simp add: 2 ledgerOf_snoc L_def)
    have s: "l_balance (ledgerStep fl L tr) = fl (l_balance L - p_size pos)"
      "l_totalPnl (ledgerStep fl L tr) = l_totalPnl L"
      "l_drift (ledgerStep fl L tr)
         = l_drift L + (fl (l_balance L - p_size pos) - (l_balance L - p_size pos))"
      using 2(3,4) by (simp_all add: ledgerStep_def Let_def)
    show ?thesis
      unfolding booked_def 2(1,5,6,7) L' s using b by simp
  qed
  then show ?thesis by (simp add: st'_def)
qed

lemma enterStep_fl_ids:
  "set (map p_id (s_openPositions (enterStep_fl fl config now newId opp st)))
     \<subseteq> insert newId (set (map p_id (s_openPositions st)))"
  using enterStep_fl_cases[of fl config now newId opp st] by auto

lemma enterStep_fl_distinct:
  assumes "distinct (map p_id (s_openPositions st))"
    and "newId \<notin> set (map p_id (s_openPositions st))"
  shows "distinct (map p_id (s_openPositions (enterStep_fl fl config now newId opp st)))"
  using enterStep_fl_cases[of fl config now newId opp st] assms by auto

lemma entryLoop_fl_booked:
  assumes "booked fl st" and "distinct (map p_id (s_openPositions st))"
    and "distinct (map ids [i ..< i + length opps])"
    and "\<forall>j \<in> set [i ..< i + length opps]. ids j \<notin> set (map p_id (s_openPositions st))"
  shows "booked fl (entryLoop_fl fl config clock ids i opps st)
       \<and> distinct (map p_id (s_openPositions (entryLoop_fl fl config clock ids i opps st)))"
  using assms
proof (induction opps arbitrary: st i)
  case Nil
  then show ?case by simp
next
  case (Cons opp opps)
  define st' where "st' = enterStep_fl fl config (clock i) (ids i) opp st"
  have up: "[i ..< i + length (opp # opps)] = i # [Suc i ..< Suc i + length opps]"
    by (simp add: upt_rec)
  have a': "booked fl st'" unfolding st'_def using Cons.prems(1) by (rule enterStep_fl_booked)
  have all: "\<forall>j \<in> set (i # [Suc i ..< Suc i + length opps]).
               ids j \<notin> set (map p_id (s_openPositions st))"
    using Cons.prems(4) unfolding up .
  have fresh: "ids i \<notin> set (map p_id (s_openPositions st))"
    using all by (metis list.set_intros(1))
  have d': "distinct (map p_id (s_openPositions st'))"
    unfolding st'_def using Cons.prems(2) fresh by (rule enterStep_fl_distinct)
  have dc: "distinct (map ids (i # [Suc i ..< Suc i + length opps]))"
    using Cons.prems(3) unfolding up .
  have di: "distinct (map ids [Suc i ..< Suc i + length opps])"
    using dc by (rule distinct_map_Cons_tl)
  have f': "\<forall>j \<in> set [Suc i ..< Suc i + length opps]. ids j \<notin> set (map p_id (s_openPositions st'))"
  proof
    fix j assume j: "j \<in> set [Suc i ..< Suc i + length opps]"
    then have "ids j \<noteq> ids i" by (rule distinct_map_Cons_neq[OF dc])
    moreover have "ids j \<notin> set (map p_id (s_openPositions st))"
      using all j by (metis list.set_intros(2))
    ultimately show "ids j \<notin> set (map p_id (s_openPositions st'))"
      using enterStep_fl_ids[of fl config "clock i" "ids i" opp st] unfolding st'_def by auto
  qed
  show ?case
    unfolding entryLoop_fl_step st'_def[symmetric]
    using Cons.IH[OF a' d' di f'] .
qed

lemma runBotCycle_fl_booked:
  assumes "booked fl st" and "distinct (map p_id (s_openPositions st))"
    and "cycleInputOk env opps st"
  shows "booked fl (runBotCycle_fl fl config env opps st)
       \<and> distinct (map p_id (s_openPositions (runBotCycle_fl fl config env opps st)))"
proof (cases "length opps = 0")
  case True
  then show ?thesis using assms by (simp add: runBotCycle_fl_def)
next
  case False
  define st1 where "st1 = updateOpenPositions_fl fl opps st"
  define st2 where "st2 = exitLoop_fl fl config opps (exitClock env) 0 (s_openPositions st1) st1"
  define st3 where "st3 = entryLoop_fl fl config (entryClock env) (freshId env) 0 opps st2"
  have r: "runBotCycle_fl fl config env opps st = st3\<lparr> s_lastError := None \<rparr>"
    using False by (simp add: runBotCycle_fl_def Let_def st1_def st2_def st3_def)
  have a1: "booked fl st1" using assms(1) by (simp add: booked_def st1_def)
  have d1: "distinct (map p_id (s_openPositions st1))" using assms(2) by (simp add: st1_def)
  have e: "booked fl st2 \<and> distinct (map p_id (s_openPositions st2))
        \<and> set (s_openPositions st2) \<subseteq> set (s_openPositions st1)"
    unfolding st2_def by (rule exitLoop_fl_booked[OF a1 d1 _ d1]) simp
  have ids2: "set (map p_id (s_openPositions st2)) \<subseteq> set (map p_id (s_openPositions st))"
  proof -
    have "set (map p_id (s_openPositions st2)) \<subseteq> set (map p_id (s_openPositions st1))"
      using e by auto
    then show ?thesis by (simp add: st1_def)
  qed
  have di: "distinct (map (freshId env) [0 ..< 0 + length opps])"
    using assms(3) by (simp add: cycleInputOk_def)
  have fr: "\<forall>j \<in> set [0 ..< 0 + length opps]. freshId env j \<notin> set (map p_id (s_openPositions st2))"
    using assms(3) ids2 by (auto simp add: cycleInputOk_def list_all_iff)
  have "booked fl st3 \<and> distinct (map p_id (s_openPositions st3))"
    unfolding st3_def using e di fr by (intro entryLoop_fl_booked) simp_all
  then show ?thesis unfolding r by (simp add: booked_def)
qed

lemma runCycles_fl_booked:
  assumes "booked fl st" and "distinct (map p_id (s_openPositions st))"
    and "inputsOk_fl fl config inputs st"
  shows "booked fl (runCycles_fl fl config inputs st)"
  using assms
proof (induction inputs arbitrary: st)
  case Nil
  then show ?case by simp
next
  case (Cons a inputs)
  obtain env opps where a: "a = (env, opps)" by (cases a)
  have ok: "cycleInputOk env opps st"
    and rest: "inputsOk_fl fl config inputs (runBotCycle_fl fl config env opps st)"
    using Cons.prems(3) unfolding a by simp_all
  from runBotCycle_fl_booked[OF Cons.prems(1,2) ok]
  show ?case unfolding a using Cons.IH rest by simp
qed

lemma ex_runLow_roundings:
  shows "roundDouble (1 / 20) = 3602879701896397 / 72057594037927936"
    and "roundDouble (3 / 100) = 1080863910568919 / 36028797018963968"
    and "roundDouble (3 / 20) = 5404319552844595 / 36028797018963968"
    and "roundDouble (7 / 100) = 1261007895663739 / 18014398509481984"
    and "roundDouble (2 / 25) = 5764607523034235 / 72057594037927936"
    and "roundDouble (- (1080863910568919 / 9007199254740992)) = - (1080863910568919 / 9007199254740992)"
    and "roundDouble (2592000000) = 2592000000"
    and "roundDouble (30) = 30"
    and "roundDouble (135107988821114875 / 2251799813685248) = 60"
    and "roundDouble (85) = 85"
    and "roundDouble (3062447746611937280 / 1080863910568919) = 6230565890730667 / 2199023255552"
    and "roundDouble (915) = 915"
    and "roundDouble (1441151880758559 / 36028797018963968) = 1441151880758559 / 36028797018963968"
    and "roundDouble (8979191751616627152210724028853 / 79228162514264337593543950336) = 7975124340135255 / 70368744177664"
    and "roundDouble (- (720575940379279 / 72057594037927936)) = - (720575940379279 / 72057594037927936)"
    and "roundDouble (13956467595236695 / 70368744177664) = 1744558449404587 / 8796093022208"
    and "roundDouble (9792983564724907 / 8796093022208) = 2448245891181227 / 2199023255552"
    and "roundDouble (7975124340135255 / 70368744177664) = 7975124340135255 / 70368744177664"
    and "roundDouble (1) = 1"
    and "roundDouble (2448245891181227 / 2199023255552) = 2448245891181227 / 2199023255552"
    and "roundDouble (78343868517799255 / 70368744177664) = 4896491782362453 / 4398046511104"
proof -
  show "roundDouble (1 / 20) = 3602879701896397 / 72057594037927936"
    by (subst roundDouble_at[of "-5"]) (simp_all add: pow2_def roundHalfEven_def Let_def)
  show "roundDouble (3 / 100) = 1080863910568919 / 36028797018963968"
    by (subst roundDouble_at[of "-6"]) (simp_all add: pow2_def roundHalfEven_def Let_def)
  show "roundDouble (3 / 20) = 5404319552844595 / 36028797018963968"
    by (subst roundDouble_at[of "-3"]) (simp_all add: pow2_def roundHalfEven_def Let_def)
  show "roundDouble (7 / 100) = 1261007895663739 / 18014398509481984"
    by (subst roundDouble_at[of "-4"]) (simp_all add: pow2_def roundHalfEven_def Let_def)
  show "roundDouble (2 / 25) = 5764607523034235 / 72057594037927936"
    by (subst roundDouble_at[of "-4"]) (simp_all add: pow2_def roundHalfEven_def Let_def)
  show "roundDouble (- (1080863910568919 / 9007199254740992)) = - (1080863910568919 / 9007199254740992)"
    by (subst roundDouble_at[of "-4"]) (simp_all add: pow2_def roundHalfEven_def Let_def)
  show "roundDouble (2592000000) = 2592000000"
    by (subst roundDouble_at[of "31"]) (simp_all add: pow2_def roundHalfEven_def Let_def)
  show "roundDouble (30) = 30"
    by (subst roundDouble_at[of "4"]) (simp_all add: pow2_def roundHalfEven_def Let_def)
  show "roundDouble (135107988821114875 / 2251799813685248) = 60"
    by (subst roundDouble_at[of "5"]) (simp_all add: pow2_def roundHalfEven_def Let_def)
  show "roundDouble (85) = 85"
    by (subst roundDouble_at[of "6"]) (simp_all add: pow2_def roundHalfEven_def Let_def)
  show "roundDouble (3062447746611937280 / 1080863910568919) = 6230565890730667 / 2199023255552"
    by (subst roundDouble_at[of "11"]) (simp_all add: pow2_def roundHalfEven_def Let_def)
  show "roundDouble (915) = 915"
    by (subst roundDouble_at[of "9"]) (simp_all add: pow2_def roundHalfEven_def Let_def)
  show "roundDouble (1441151880758559 / 36028797018963968) = 1441151880758559 / 36028797018963968"
    by (subst roundDouble_at[of "-5"]) (simp_all add: pow2_def roundHalfEven_def Let_def)
  show "roundDouble (8979191751616627152210724028853 / 79228162514264337593543950336) = 7975124340135255 / 70368744177664"
    by (subst roundDouble_at[of "6"]) (simp_all add: pow2_def roundHalfEven_def Let_def)
  show "roundDouble (- (720575940379279 / 72057594037927936)) = - (720575940379279 / 72057594037927936)"
    by (subst roundDouble_at[of "-7"]) (simp_all add: pow2_def roundHalfEven_def Let_def)
  show "roundDouble (13956467595236695 / 70368744177664) = 1744558449404587 / 8796093022208"
    by (subst roundDouble_at[of "7"]) (simp_all add: pow2_def roundHalfEven_def Let_def)
  show "roundDouble (9792983564724907 / 8796093022208) = 2448245891181227 / 2199023255552"
    by (subst roundDouble_at[of "10"]) (simp_all add: pow2_def roundHalfEven_def Let_def)
  show "roundDouble (7975124340135255 / 70368744177664) = 7975124340135255 / 70368744177664"
    by (subst roundDouble_at[of "6"]) (simp_all add: pow2_def roundHalfEven_def Let_def)
  show "roundDouble (1) = 1"
    by (subst roundDouble_at[of "0"]) (simp_all add: pow2_def roundHalfEven_def Let_def)
  show "roundDouble (2448245891181227 / 2199023255552) = 2448245891181227 / 2199023255552"
    by (subst roundDouble_at[of "10"]) (simp_all add: pow2_def roundHalfEven_def Let_def)
  show "roundDouble (78343868517799255 / 70368744177664) = 4896491782362453 / 4398046511104"
    by (subst roundDouble_at[of "10"]) (simp_all add: pow2_def roundHalfEven_def Let_def)
qed

lemmas run_defs = runBotCycle_fl_def updateOpenPositions_fl_def updatePosition_fl_def
  shouldEnterPosition_fl_def shouldExitPosition_def openPosition_fl_def closePosition_fl_def
  calculatePositionSize_fl_def getTotalExposure_fl_def primaryEdge_def
  CONFIG_fl_def initialState_def ex_runLow_def ex_oppLow1_def ex_oppLow2_def ex_botMarket_def
  ex_env_def ex_env2_def Let_def

lemma bot_fl_exact:
  "calculatePositionSize_fl (\<lambda>x. x) = calculatePositionSize"
  "getTotalExposure_fl (\<lambda>x. x) = getTotalExposure"
  "shouldEnterPosition_fl (\<lambda>x. x) = shouldEnterPosition"
  "openPosition_fl (\<lambda>x. x) = openPosition"
  "closePosition_fl (\<lambda>x. x) = closePosition"
  "updateOpenPositions_fl (\<lambda>x. x) = updateOpenPositions"
proof -
  show a: "calculatePositionSize_fl (\<lambda>x. x) = calculatePositionSize"
    by (intro ext) (simp add: calculatePositionSize_fl_def calculatePositionSize_def)
  show b: "getTotalExposure_fl (\<lambda>x. x) = getTotalExposure"
    by (intro ext) (simp add: getTotalExposure_fl_def getTotalExposure_def)
  show "shouldEnterPosition_fl (\<lambda>x. x) = shouldEnterPosition"
    unfolding shouldEnterPosition_fl_def shouldEnterPosition_def a b by simp
  show "openPosition_fl (\<lambda>x. x) = openPosition"
    unfolding openPosition_fl_def openPosition_def a by simp
  show "closePosition_fl (\<lambda>x. x) = closePosition"
    by (intro ext) (simp add: closePosition_fl_def closePosition_def)
  have "updatePosition_fl (\<lambda>x. x) = updatePosition"
    by (intro ext) (simp add: updatePosition_fl_def updatePosition_def)
  then show "updateOpenPositions_fl (\<lambda>x. x) = updateOpenPositions"
    by (intro ext) (simp add: updateOpenPositions_fl_def updateOpenPositions_def)
qed

lemma exitLoop_fl_exact:
  "exitLoop_fl (\<lambda>x. x) config opps clock i ps st = exitLoop config opps clock i ps st"
  by (induction ps arbitrary: i st) (simp_all add: bot_fl_exact Let_def)

lemma entryLoop_fl_exact:
  "entryLoop_fl (\<lambda>x. x) config clock ids i opps st = entryLoop config clock ids i opps st"
  by (induction opps arbitrary: i st) (simp_all add: bot_fl_exact Let_def)

lemma runBotCycle_fl_exact:
  "runBotCycle_fl (\<lambda>x. x) config env opps st = runBotCycle config env opps st"
  by (simp add: runBotCycle_fl_def runBotCycle_def bot_fl_exact exitLoop_fl_exact
        entryLoop_fl_exact)

lemma runCycles_fl_exact:
  "runCycles_fl (\<lambda>x. x) config inputs st = runCycles config inputs st"
  by (induction inputs arbitrary: st) (auto simp add: runBotCycle_fl_exact)

lemma inputsOk_fl_exact:
  "inputsOk_fl (\<lambda>x. x) config inputs st = inputsOk config inputs st"
  by (induction inputs arbitrary: st) (auto simp add: runBotCycle_fl_exact)

lemma runCycles_fl_startingBalance:
  "s_startingBalance (runCycles_fl fl config inputs st) = s_startingBalance st"
proof (induction inputs arbitrary: st)
  case Nil
  show ?case by simp
next
  case (Cons a inputs)
  obtain env opps where a: "a = (env, opps)" by (cases a)
  have e: "\<And>n ps s. s_startingBalance (exitLoop_fl fl config opps (exitClock env) n ps s)
                = s_startingBalance s"
  proof -
    fix n ps s
    show "s_startingBalance (exitLoop_fl fl config opps (exitClock env) n ps s) = s_startingBalance s"
      by (induction ps arbitrary: n s) (simp_all add: Let_def closePosition_fl_def)
  qed
  have f: "\<And>n os s. s_startingBalance (entryLoop_fl fl config (entryClock env) (freshId env) n os s)
                = s_startingBalance s"
  proof -
    fix n os s
    show "s_startingBalance (entryLoop_fl fl config (entryClock env) (freshId env) n os s)
            = s_startingBalance s"
      by (induction os arbitrary: n s) (simp_all add: Let_def openPosition_fl_def)
  qed
  have "s_startingBalance (runBotCycle_fl fl config env opps st) = s_startingBalance st"
    by (simp add: runBotCycle_fl_def Let_def e f updateOpenPositions_fl_def)
  then show ?case unfolding a using Cons.IH by simp
qed

section \<open>Claims about the paper trading bot\<close>

text \<open>
  Claim C1, as the code has it. \<open>currentBalance\<close> and \<open>totalPnl\<close> are running sums in
  double arithmetic: \<open>openPosition\<close> subtracts the size it stores in the position,
  \<open>closePosition\<close> adds \<open>size + pnl\<close> to the balance and \<open>pnl\<close> to the total, and each of
  these additions is rounded. In every state reached from the initial state by a sequence of
  cycles, the balance and the total are those of the ledger of the recorded trades, and the
  balance plus the sizes of the open positions equals the starting balance plus the total
  plus the drift of that ledger, the sum of the rounding errors of these additions (one for
  an open, three for a close). The two sides are therefore equal when the additions are
  exact, and in an arithmetic of relative rounding error \<open>u\<close> they differ by at most \<open>u\<close>
  times the sum of the absolute values of the exact results. The cycles read opportunities
  priced strictly between 0 and 1, as the pipeline serves them, and the identifiers generated
  for new positions are fresh (\<open>inputsOk_fl\<close>).
\<close>

theorem balance_accounting_up_to_rounding:
  assumes "inputsOk_fl fl config inputs (initialState config)"
    and "st = runCycles_fl fl config inputs (initialState config)"
    and "books = ledgerOf fl (c_startingBalance config) (s_trades st)"
  shows "s_currentBalance st = l_balance books
       \<and> s_totalPnl st = l_totalPnl books
       \<and> s_currentBalance st + sum_list (map p_size (s_openPositions st))
           = s_startingBalance st + s_totalPnl st + l_drift books
       \<and> ((\<forall>x. fl x = x) \<longrightarrow>
            s_currentBalance st + sum_list (map p_size (s_openPositions st))
              = s_startingBalance st + s_totalPnl st)
       \<and> ((\<forall>x. \<bar>fl x - x\<bar> \<le> u * \<bar>x\<bar>) \<longrightarrow>
            \<bar>s_currentBalance st + sum_list (map p_size (s_openPositions st))
               - (s_startingBalance st + s_totalPnl st)\<bar> \<le> u * l_volume books)"
proof -
  have "booked fl (initialState config)"
    by (simp add: booked_def initialState_def ledgerOf_def)
  moreover have "distinct (map p_id (s_openPositions (initialState config)))"
    by (simp add: initialState_def)
  ultimately have "booked fl st"
    unfolding assms(2) using assms(1) by (rule runCycles_fl_booked)
  moreover have "s_startingBalance st = c_startingBalance config"
    unfolding assms(2) by (simp add: runCycles_fl_startingBalance initialState_def)
  ultimately have b: "s_currentBalance st = l_balance books" "s_totalPnl st = l_totalPnl books"
    "s_currentBalance st + sum_list (map p_size (s_openPositions st))
       = s_startingBalance st + s_totalPnl st + l_drift books"
    unfolding assms(3) by (simp_all add: booked_def)
  have bound: "\<bar>l_drift books\<bar> \<le> v * l_volume books" if "\<forall>x. \<bar>fl x - x\<bar> \<le> v * \<bar>x\<bar>" for v
    unfolding assms(3) using that by (rule ledgerOf_drift_bound)
  have exact: "l_drift books = 0" if "\<forall>x. fl x = x"
  proof -
    have "\<forall>x. \<bar>fl x - x\<bar> \<le> 0 * \<bar>x\<bar>" using that by simp
    then have "\<bar>l_drift books\<bar> \<le> 0 * l_volume books" by (rule bound)
    then show ?thesis by simp
  qed
  have d: "s_currentBalance st + sum_list (map p_size (s_openPositions st))
               - (s_startingBalance st + s_totalPnl st) = l_drift books"
    using b(3) by simp
  show ?thesis
    unfolding d using b exact bound[of u] by simp
qed

text \<open>
  Witness for C1 as amended. In doubles the bot buys 85 at 0.03 and closes one cycle later at
  0.07: the two sides differ by \<open>9 / 2^46\<close>, within the bound for \<open>u = 2^-53\<close>. In exact
  arithmetic the bot sells 75 at 0.40 and closes at 0.32 with a profit of 10, and the two
  sides are equal.
\<close>

theorem balance_accounting_up_to_rounding_witness:
  "inputsOk_fl roundDouble (CONFIG_fl roundDouble) ex_runLow (initialState (CONFIG_fl roundDouble))
   \<and> s_currentBalance (runCycles_fl roundDouble (CONFIG_fl roundDouble) ex_runLow
         (initialState (CONFIG_fl roundDouble)))
       + sum_list (map p_size (s_openPositions (runCycles_fl roundDouble (CONFIG_fl roundDouble)
           ex_runLow (initialState (CONFIG_fl roundDouble)))))
     = s_startingBalance (runCycles_fl roundDouble (CONFIG_fl roundDouble) ex_runLow
         (initialState (CONFIG_fl roundDouble)))
       + s_totalPnl (runCycles_fl roundDouble (CONFIG_fl roundDouble) ex_runLow
         (initialState (CONFIG_fl roundDouble)))
       + 9 / 70368744177664
   \<and> \<bar>s_currentBalance (runCycles_fl roundDouble (CONFIG_fl roundDouble) ex_runLow
         (initialState (CONFIG_fl roundDouble)))
       + sum_list (map p_size (s_openPositions (runCycles_fl roundDouble (CONFIG_fl roundDouble)
           ex_runLow (initialState (CONFIG_fl roundDouble)))))
       - (s_startingBalance (runCycles_fl roundDouble (CONFIG_fl roundDouble) ex_runLow
           (initialState (CONFIG_fl roundDouble)))
          + s_totalPnl (runCycles_fl roundDouble (CONFIG_fl roundDouble) ex_runLow
           (initialState (CONFIG_fl roundDouble))))\<bar>
     \<le> 1 / 2 ^ 53 * (82331430687866883 / 35184372088832)
   \<and> inputsOk_fl (\<lambda>x. x) CONFIG ex_run (initialState CONFIG)
   \<and> s_currentBalance (runCycles_fl (\<lambda>x. x) CONFIG ex_run (initialState CONFIG))
       + sum_list (map p_size (s_openPositions (runCycles_fl (\<lambda>x. x) CONFIG ex_run
           (initialState CONFIG))))
     = s_startingBalance (runCycles_fl (\<lambda>x. x) CONFIG ex_run (initialState CONFIG))
       + s_totalPnl (runCycles_fl (\<lambda>x. x) CONFIG ex_run (initialState CONFIG))
   \<and> s_currentBalance (runCycles_fl (\<lambda>x. x) CONFIG ex_run (initialState CONFIG)) = 1010
   \<and> s_totalPnl (runCycles_fl (\<lambda>x. x) CONFIG ex_run (initialState CONFIG)) = 10"
proof -
  have a: "inputsOk_fl roundDouble (CONFIG_fl roundDouble) ex_runLow
             (initialState (CONFIG_fl roundDouble))"
    by (simp add: run_defs cycleInputOk_def ex_runLow_roundings)
  have s: "c_startingBalance (CONFIG_fl roundDouble) = 1000"
    by (simp add: CONFIG_fl_def ex_runLow_roundings)
  have l: "ledgerOf roundDouble 1000 (s_trades (runCycles_fl roundDouble (CONFIG_fl roundDouble)
             ex_runLow (initialState (CONFIG_fl roundDouble))))
           = \<lparr> l_balance = 2448245891181227 / 2199023255552,
                l_totalPnl = 7975124340135255 / 70368744177664,
                l_drift = 9 / 70368744177664,
                l_volume = 82331430687866883 / 35184372088832 \<rparr>"
    by (simp add: run_defs ex_runLow_roundings ledgerOf_def ledgerStep_def tradePnl_def)
  have r: "\<forall>x. \<bar>roundDouble x - x\<bar> \<le> 1 / 2 ^ 53 * \<bar>x\<bar>"
    using roundDouble_err by simp
  have b: "inputsOk_fl (\<lambda>x. x) CONFIG ex_run (initialState CONFIG)"
    unfolding inputsOk_fl_exact by code_simp
  have c: "s_currentBalance (runCycles_fl (\<lambda>x. x) CONFIG ex_run (initialState CONFIG)) = 1010"
    unfolding runCycles_fl_exact by code_simp
  have d: "s_totalPnl (runCycles_fl (\<lambda>x. x) CONFIG ex_run (initialState CONFIG)) = 10"
    unfolding runCycles_fl_exact by code_simp
  show ?thesis
    using balance_accounting_up_to_rounding[OF a refl refl, of "1 / 2 ^ 53"]
      balance_accounting_up_to_rounding[OF b refl refl, of 0] a b c d r
    unfolding s l by simp
qed

text \<open>
  Claim C1, as stated, fails in doubles. After the bot has bought 85 at 0.03 and closed at
  0.07, no position is open, the balance is \<open>1113.3333333333335\<close> and the starting balance
  plus the total is \<open>1113.3333333333333\<close>: the two sides differ as real numbers, and they
  differ when each side is computed in doubles.
\<close>

theorem balance_accounting_not_exact:
  "inputsOk_fl roundDouble (CONFIG_fl roundDouble) ex_runLow (initialState (CONFIG_fl roundDouble))
   \<and> s_openPositions (runCycles_fl roundDouble (CONFIG_fl roundDouble) ex_runLow
         (initialState (CONFIG_fl roundDouble))) = []
   \<and> s_startingBalance (runCycles_fl roundDouble (CONFIG_fl roundDouble) ex_runLow
         (initialState (CONFIG_fl roundDouble))) = 1000
   \<and> s_currentBalance (runCycles_fl roundDouble (CONFIG_fl roundDouble) ex_runLow
         (initialState (CONFIG_fl roundDouble))) = 2448245891181227 / 2199023255552
   \<and> s_totalPnl (runCycles_fl roundDouble (CONFIG_fl roundDouble) ex_runLow
         (initialState (CONFIG_fl roundDouble))) = 7975124340135255 / 70368744177664
   \<and> s_currentBalance (runCycles_fl roundDouble (CONFIG_fl roundDouble) ex_runLow
         (initialState (CONFIG_fl roundDouble)))
       + sum_list (map p_size (s_openPositions (runCycles_fl roundDouble (CONFIG_fl roundDouble)
           ex_runLow (initialState (CONFIG_fl roundDouble)))))
     \<noteq> s_startingBalance (runCycles_fl roundDouble (CONFIG_fl roundDouble) ex_runLow
         (initialState (CONFIG_fl roundDouble)))
       + s_totalPnl (runCycles_fl roundDouble (CONFIG_fl roundDouble) ex_runLow
         (initialState (CONFIG_fl roundDouble)))
   \<and> roundDouble (s_currentBalance (runCycles_fl roundDouble (CONFIG_fl roundDouble) ex_runLow
         (initialState (CONFIG_fl roundDouble)))
       + getTotalExposure_fl roundDouble (s_openPositions (runCycles_fl roundDouble
           (CONFIG_fl roundDouble) ex_runLow (initialState (CONFIG_fl roundDouble)))))
     \<noteq> roundDouble (s_startingBalance (runCycles_fl roundDouble (CONFIG_fl roundDouble) ex_runLow
         (initialState (CONFIG_fl roundDouble)))
       + s_totalPnl (runCycles_fl roundDouble (CONFIG_fl roundDouble) ex_runLow
         (initialState (CONFIG_fl roundDouble))))"
  by (simp add: run_defs cycleInputOk_def ex_runLow_roundings)



text \<open>
  Claim C5. A position opened at entry price \<open>p0\<close> holds \<open>size / p0\<close> shares if long and
  \<open>size / (1 - p0)\<close> shares if short; when it is closed at price \<open>p\<close>, after any refresh of
  its current price, its realized profit is \<open>shares * (p - p0)\<close> if long and
  \<open>shares * (p0 - p)\<close> if short.
\<close>

theorem realized_pnl_formula:
  assumes "0 < p0" and "p0 < 1" and "o_polymarketProb opp = p0"
    and "openPosition opp sd edge st0 config newId = (pos, st1)"
  shows "p_side pos = sd \<and> p_entryPrice pos = p0
       \<and> p_size pos = calculatePositionSize edge config
       \<and> p_shares pos = (if sd = Long then p_size pos / p0 else p_size pos / (1 - p0))
       \<and> p_realizedPnl (last (s_closedPositions
             (closePosition (updatePosition opps pos) p currentEdge reason st)))
           = Some (if sd = Long then p_shares pos * (p - p0) else p_shares pos * (p0 - p))
       \<and> p_closePrice (last (s_closedPositions
             (closePosition (updatePosition opps pos) p currentEdge reason st))) = Some p
       \<and> s_totalPnl (closePosition (updatePosition opps pos) p currentEdge reason st)
           = s_totalPnl st + (if sd = Long then p_shares pos * (p - p0) else p_shares pos * (p0 - p))"
proof -
  have o: "p_side pos = sd" "p_entryPrice pos = p0" "p_size pos = calculatePositionSize edge config"
    "p_shares pos = (if sd = Long then p_size pos / p0 else p_size pos / (1 - p0))"
    using assms(3,4) by (auto simp add: openPosition_def Let_def)
  have c: "p_realizedPnl (last (s_closedPositions (closePosition q p currentEdge reason st)))
             = Some (if p_side q = Long then p_shares q * (p - p_entryPrice q)
                     else p_shares q * (p_entryPrice q - p))"
    "p_closePrice (last (s_closedPositions (closePosition q p currentEdge reason st))) = Some p"
    "s_totalPnl (closePosition q p currentEdge reason st)
       = s_totalPnl st + (if p_side q = Long then p_shares q * (p - p_entryPrice q)
                          else p_shares q * (p_entryPrice q - p))" for q
    by (simp_all add: closePosition_def Let_def)
  show ?thesis
    using o by (simp add: c)
qed

text \<open>
  Witness for C5: the short position of 75 opened at 0.40 holds 125 shares and realizes 10
  when closed at 0.32.
\<close>

theorem realized_pnl_formula_witness:
  "(0::real) < 0.40 \<and> (0.40::real) < 1 \<and> o_polymarketProb ex_opp1 = 0.40
   \<and> p_shares (fst (openPosition ex_opp1 Short 0.10 (initialState CONFIG) CONFIG ''pos_a'')) = 125
   \<and> p_realizedPnl (last (s_closedPositions
        (closePosition (updatePosition [ex_opp2]
             (fst (openPosition ex_opp1 Short 0.10 (initialState CONFIG) CONFIG ''pos_a'')))
           0.32 0.04 ''edge_aligned''
           (runCycles CONFIG [(ex_env, [ex_opp1])] (initialState CONFIG))))) = Some 10"
proof -
  have a: "o_polymarketProb ex_opp1 = 0.40" by (simp add: ex_opp1_def)
  have b: "openPosition ex_opp1 Short 0.10 (initialState CONFIG) CONFIG ''pos_a''
       = (fst (openPosition ex_opp1 Short 0.10 (initialState CONFIG) CONFIG ''pos_a''),
          snd (openPosition ex_opp1 Short 0.10 (initialState CONFIG) CONFIG ''pos_a''))"
    by simp
  have s: "p_size (fst (openPosition ex_opp1 Short 0.10 (initialState CONFIG) CONFIG ''pos_a'')) = 75"
    by code_simp
  show ?thesis
    using realized_pnl_formula[OF _ _ a b, of "[ex_opp2]" "0.32" "0.04" "''edge_aligned''"
            "runCycles CONFIG [(ex_env, [ex_opp1])] (initialState CONFIG)"] a s
    by simp
qed

section \<open>Claims about persistence and the entry guards\<close>





text \<open>
  Claim C4, as the code has it. The guard of the real bot rejects exactly the prices below
  0.01 or above 0.99, so the prices 0.01 and 0.99 themselves pass it. The guard in the
  TypeScript source of the paper bot rejects exactly the prices below 0.05 or above 0.95. The
  compiled paper bot has no such guard.
\<close>

theorem resolved_guard_thresholds:
  "(re_reason (real_shouldEnterPosition opp rstate rconfig now) \<in> {Some PriceAbove99, Some PriceBelow1}
      \<longleftrightarrow> o_polymarketProb opp < 0.01 \<or> o_polymarketProb opp > 0.99)
   \<and> (en_reason (paper_shouldEnterPosition opp state config now) \<in> {Some PriceAbove95, Some PriceBelow5}
      \<longleftrightarrow> o_polymarketProb opp < 0.05 \<or> o_polymarketProb opp > 0.95)
   \<and> en_reason (shouldEnterPosition opp state config now) \<notin>
        {Some PriceAbove99, Some PriceBelow1, Some PriceAbove95, Some PriceBelow5}"
proof (intro conjI)
  show "re_reason (real_shouldEnterPosition opp rstate rconfig now) \<in> {Some PriceAbove99, Some PriceBelow1}
      \<longleftrightarrow> o_polymarketProb opp < 0.01 \<or> o_polymarketProb opp > 0.99"
    by (simp add: real_shouldEnterPosition_def Let_def split: option.splits)
  have d: "en_reason (shouldEnterPosition opp state config now) \<notin>
        {Some PriceAbove99, Some PriceBelow1, Some PriceAbove95, Some PriceBelow5}"
    by (simp add: shouldEnterPosition_def Let_def split: option.splits)
  then show "en_reason (shouldEnterPosition opp state config now) \<notin>
        {Some PriceAbove99, Some PriceBelow1, Some PriceAbove95, Some PriceBelow5}" .
  show "en_reason (paper_shouldEnterPosition opp state config now) \<in> {Some PriceAbove95, Some PriceBelow5}
      \<longleftrightarrow> o_polymarketProb opp < 0.05 \<or> o_polymarketProb opp > 0.95"
    using d by (auto simp add: paper_shouldEnterPosition_def Let_def)
qed

text \<open>
  Claim C4, as stated, fails. The price 0.99 is outside the open interval from 0.01 to 0.99,
  yet the real bot does not reject the opportunity: it enters. The price 0.97 is inside that
  interval, yet the guard of the paper bot's source rejects the opportunity.
\<close>

theorem resolved_guard_open_interval_counterexample:
  "spec_resolvedGuardRejects ex_opp99
   \<and> re_shouldEnter (real_shouldEnterPosition ex_opp99 (real_initialState REAL_CONFIG) REAL_CONFIG 1750000000000)
   \<and> re_reason (real_shouldEnterPosition ex_opp99 (real_initialState REAL_CONFIG) REAL_CONFIG 1750000000000) = None
   \<and> \<not> spec_resolvedGuardRejects ex_opp97
   \<and> en_reason (paper_shouldEnterPosition ex_opp97 (initialState CONFIG) CONFIG 1750000000000)
       = Some PriceAbove95"
  by code_simp

section \<open>Claim about the question parser\<close>

lemma parse_ex_question:
  "parseCryptoMarketQuestion localTZA ex_question
     = Some \<lparr> pq_crypto = ''BTC'', pq_targetPrice = 200000,
              pq_expiryDate = Some (newDate localTZA (Some 2025) (Some 11) (Some 31) 23 59 59),
              pq_betType = OneTouch, pq_direction = Above \<rparr>"
  by code_simp

lemma newDate_end_of_2025:
  "newDate localTZA (Some 2025) (Some 11) (Some 31) 23 59 59
     = (if \<bar>1767225599000 - localTZA 1767225599000\<bar> > 8640000000000000 then InvalidDate
        else ValidDate (1767225599000 - localTZA 1767225599000))"
  by code_simp

text \<open>
  Claim C9, as the code has it. The parser accepts the question
  \<open>Will Bitcoin hit $200k by December 31, 2025?\<close> with symbol BTC, target price 200000, bet
  type one-touch and direction above. Its expiry is \<open>new Date(2025, 11, 31, 23, 59, 59)\<close>,
  which is 23:59:59 on 31 December 2025 in the local time of the host: the instant
  2025-12-31T23:59:59Z (1767225599000 milliseconds after the epoch) less the host's offset
  from UTC. On a host whose offset is zero it is the UTC instant of the claim.
\<close>

theorem parser_acceptance_local_time:
  "parseCryptoMarketQuestion localTZA ex_question
     = Some \<lparr> pq_crypto = ''BTC'', pq_targetPrice = 200000,
              pq_expiryDate = Some (newDate localTZA (Some 2025) (Some 11) (Some 31) 23 59 59),
              pq_betType = OneTouch, pq_direction = Above \<rparr>
   \<and> newDate localTZA (Some 2025) (Some 11) (Some 31) 23 59 59
     = (if \<bar>1767225599000 - localTZA 1767225599000\<bar> > 8640000000000000 then InvalidDate
        else ValidDate (1767225599000 - localTZA 1767225599000))
   \<and> (localTZA 1767225599000 = 0 \<longrightarrow>
        pq_expiryDate (the (parseCryptoMarketQuestion localTZA ex_question))
          = Some (ValidDate 1767225599000))"
  using parse_ex_question[of localTZA] newDate_end_of_2025[of localTZA] by simp

text \<open>Witness for C9 as amended: a host on UTC.\<close>

theorem parser_acceptance_local_time_witness:
  "ex_utc 1767225599000 = 0
   \<and> parseCryptoMarketQuestion ex_utc ex_question
     = Some \<lparr> pq_crypto = ''BTC'', pq_targetPrice = 200000,
              pq_expiryDate = Some (ValidDate 1767225599000),
              pq_betType = OneTouch, pq_direction = Above \<rparr>"
proof -
  have z: "ex_utc 1767225599000 = 0" by (simp add: ex_utc_def)
  show ?thesis
    using parser_acceptance_local_time[of ex_utc] z by simp
qed

text \<open>
  Claim C9, as stated, fails on a host five hours west of UTC: the expiry returned is
  2026-01-01T04:59:59Z, not 2025-12-31T23:59:59Z. The other four fields are as claimed.
\<close>

theorem parser_expiry_not_utc_counterexample:
  "parseCryptoMarketQuestion ex_newYork ex_question
     = Some \<lparr> pq_crypto = ''BTC'', pq_targetPrice = 200000,
              pq_expiryDate = Some (ValidDate 1767243599000),
              pq_betType = OneTouch, pq_direction = Above \<rparr>
   \<and> ValidDate 1767243599000 \<noteq> ValidDate 1767225599000"
  by code_simp

end
